theory Spec2Isabelle
  imports Main "HOL-Library.Word"
begin

section \<open>The mapped byte buffer and Python's errors\<close>

text \<open>
  \<^verbatim>\<open>libtiff/tiff_file.py\<close> reads a TIFF file through \<^verbatim>\<open>numpy.memmap(filename, dtype=numpy.ubyte)\<close>:
  the buffer is a sequence of bytes. Every typed read is a slice of the buffer followed by
  \<^verbatim>\<open>.view(dtype=...)\<close>; numpy's plain dtypes have the byte order of the machine the program
  runs on, so the host's byte order is a parameter of every read below.
\<close>

type_synonym byte = "8 word"

datatype endian = Little | Big

text \<open>
  Exceptions are values. The string is the message of the source (without the formatted
  numbers) or, for an assertion, the name of the quantity the assertion compares.
  \<open>Unmodelled\<close> is no exception of the program: it marks the places where the source
  computes with floating-point, rational or broadcast array values, which this development
  does not follow.
\<close>

datatype error =
    NotImplementedError string
  | ValueError string
  | IndexError
  | AttributeError
  | TypeError
  | NameError
  | AssertionError string
  | ZeroDivisionError
  | Unmodelled

definition ebind :: "error + 'a \<Rightarrow> ('a \<Rightarrow> error + 'b) \<Rightarrow> error + 'b" where
  "ebind m f = (case m of Inl e \<Rightarrow> Inl e | Inr x \<Rightarrow> f x)"

text \<open>
  Python's \<^verbatim>\<open>xs[a:b]\<close>: a negative index counts from the end, and both indices are clipped
  to the sequence.
\<close>

definition clip :: "nat \<Rightarrow> int \<Rightarrow> nat" where
  "clip n i = nat (if i < 0 then max 0 (int n + i) else min (int n) i)"

definition py_slice :: "'a list \<Rightarrow> int \<Rightarrow> int \<Rightarrow> 'a list" where
  "py_slice xs a b = take (clip (length xs) b - clip (length xs) a) (drop (clip (length xs) a) xs)"

fun le_int :: "byte list \<Rightarrow> int" where
  "le_int [] = 0"
| "le_int (b # bs) = uint b + 256 * le_int bs"

definition native_int :: "endian \<Rightarrow> byte list \<Rightarrow> int" where
  "native_int host bs = (case host of Little \<Rightarrow> le_int bs | Big \<Rightarrow> le_int (rev bs))"

text \<open>
  \<^verbatim>\<open>self.data[offset:offset+w].view(dtype=...)[0]\<close>: the view raises ValueError when the
  slice is not a whole number of items, and indexing an empty view raises IndexError.
\<close>

definition view_item :: "byte list \<Rightarrow> int \<Rightarrow> nat \<Rightarrow> error + byte list" where
  "view_item data offset w =
     (let s = py_slice data offset (offset + int w) in
      if length s mod w \<noteq> 0 then Inl (ValueError ''view'')
      else if s = [] then Inl IndexError
      else Inr s)"

definition twos :: "nat \<Rightarrow> int \<Rightarrow> int" where
  "twos bits u = (if u < 2 ^ (bits - 1) then u else u - 2 ^ bits)"

definition get_uint16 :: "endian \<Rightarrow> byte list \<Rightarrow> int \<Rightarrow> error + int" where
  "get_uint16 host data offset = ebind (view_item data offset 2) (\<lambda>s. Inr (native_int host s))"

definition get_uint32 :: "endian \<Rightarrow> byte list \<Rightarrow> int \<Rightarrow> error + int" where
  "get_uint32 host data offset = ebind (view_item data offset 4) (\<lambda>s. Inr (native_int host s))"

definition get_int32 :: "endian \<Rightarrow> byte list \<Rightarrow> int \<Rightarrow> error + int" where
  "get_int32 host data offset =
     ebind (view_item data offset 4) (\<lambda>s. Inr (twos 32 (native_int host s)))"

section \<open>numpy's element types and values\<close>

text \<open>
  The element types that the type table of \<^verbatim>\<open>tiff_data\<close> and \<^verbatim>\<open>getattr(numpy, ...)\<close> can
  name. \<open>Rational\<close> and \<open>SRational\<close> are the two structured types of two 32-bit numbers.
\<close>

datatype dtype =
    UInt8 | UInt16 | UInt32 | UInt64
  | Int8 | Int16 | Int32 | Int64
  | Float16 | Float32 | Float64 | Float128
  | Complex64 | Complex128 | Complex256
  | Rational | SRational

fun itemsize :: "dtype \<Rightarrow> nat" where
  "itemsize UInt8 = 1" | "itemsize UInt16 = 2" | "itemsize UInt32 = 4" | "itemsize UInt64 = 8"
| "itemsize Int8 = 1" | "itemsize Int16 = 2" | "itemsize Int32 = 4" | "itemsize Int64 = 8"
| "itemsize Float16 = 2" | "itemsize Float32 = 4" | "itemsize Float64 = 8"
| "itemsize Float128 = 16"
| "itemsize Complex64 = 8" | "itemsize Complex128 = 16" | "itemsize Complex256 = 32"
| "itemsize Rational = 8" | "itemsize SRational = 8"

text \<open>
  The integer types whose arithmetic is followed here: (signed, bits). A 64-bit unsigned
  value mixes with signed ones as a float in numpy, so it is kept with the raw types.
\<close>

fun int_kind :: "dtype \<Rightarrow> (bool \<times> nat) option" where
  "int_kind UInt8 = Some (False, 8)" | "int_kind UInt16 = Some (False, 16)"
| "int_kind UInt32 = Some (False, 32)"
| "int_kind Int8 = Some (True, 8)" | "int_kind Int16 = Some (True, 16)"
| "int_kind Int32 = Some (True, 32)" | "int_kind Int64 = Some (True, 64)"
| "int_kind _ = None"

text \<open>
  What a Python expression of the source can hold: \<^verbatim>\<open>None\<close>, a Python integer (unbounded),
  a numpy integer scalar or array with its element type, or a numpy scalar or array of
  another element type, kept as its bytes.
\<close>

datatype pyval =
    PyNone
  | PyInt int
  | NpInt dtype int
  | NpArr dtype "int list"
  | NpOther dtype "byte list"
  | NpOtherArr dtype "byte list"

definition chunks :: "nat \<Rightarrow> 'a list \<Rightarrow> 'a list list" where
  "chunks w s = map (\<lambda>i. take w (drop (i * w) s)) [0..<length s div w]"

definition decode_int :: "endian \<Rightarrow> dtype \<Rightarrow> byte list \<Rightarrow> int" where
  "decode_int host dt bs =
     (case int_kind dt of
        Some (True, b) \<Rightarrow> twos b (native_int host bs)
      | _ \<Rightarrow> native_int host bs)"

text \<open>\<^verbatim>\<open>bytes.view(dtype=dt)\<close> of a one-dimensional byte array.\<close>

definition view_as :: "endian \<Rightarrow> dtype \<Rightarrow> byte list \<Rightarrow> error + pyval" where
  "view_as host dt s =
     (if length s mod itemsize dt \<noteq> 0 then Inl (ValueError ''view'')
      else if int_kind dt = None then Inr (NpOtherArr dt s)
      else Inr (NpArr dt (map (decode_int host dt) (chunks (itemsize dt) s))))"

text \<open>\<^verbatim>\<open>a[0]\<close>, \<^verbatim>\<open>a[-1]\<close> and \<^verbatim>\<open>a[j]\<close> of the source; a numpy scalar cannot be indexed.\<close>

definition np_index :: "pyval \<Rightarrow> int \<Rightarrow> error + pyval" where
  "np_index a j =
     (case a of
        NpArr dt xs \<Rightarrow>
          (let n = int (length xs); k = (if j < 0 then n + j else j) in
           if 0 \<le> k \<and> k < n then Inr (NpInt dt (xs ! nat k)) else Inl IndexError)
      | NpOtherArr dt s \<Rightarrow>
          (let n = int (length s div itemsize dt); k = (if j < 0 then n + j else j) in
           if 0 \<le> k \<and> k < n then Inr (NpOther dt (chunks (itemsize dt) s ! nat k))
           else Inl IndexError)
      | NpInt dt x \<Rightarrow> Inl IndexError
      | NpOther dt s \<Rightarrow> Inl IndexError
      | _ \<Rightarrow> Inl TypeError)"

definition is_ndarray :: "pyval \<Rightarrow> bool" where
  "is_ndarray v = (case v of NpArr dt xs \<Rightarrow> True | NpOtherArr dt s \<Rightarrow> True | _ \<Rightarrow> False)"

subsection \<open>Integer arithmetic of numpy scalars\<close>

text \<open>
  Two numpy scalars are brought to a common type and the result wraps around in it (numpy
  warns and goes on); a Python integer meeting a numpy scalar counts as a C long (64 bits);
  two Python integers never overflow.
\<close>

definition wrap :: "dtype \<Rightarrow> int \<Rightarrow> int" where
  "wrap dt x =
     (case int_kind dt of
        Some (True, b) \<Rightarrow> (x + 2 ^ (b - 1)) mod 2 ^ b - 2 ^ (b - 1)
      | Some (False, b) \<Rightarrow> x mod 2 ^ b
      | None \<Rightarrow> x)"

definition signed_of :: "nat \<Rightarrow> dtype" where
  "signed_of b = (if b \<le> 8 then Int8 else if b \<le> 16 then Int16 else if b \<le> 32 then Int32 else Int64)"

definition unsigned_of :: "nat \<Rightarrow> dtype" where
  "unsigned_of b = (if b \<le> 8 then UInt8 else if b \<le> 16 then UInt16 else UInt32)"

definition promote :: "dtype \<Rightarrow> dtype \<Rightarrow> dtype" where
  "promote d1 d2 =
     (case (int_kind d1, int_kind d2) of
        (Some (False, a), Some (False, b)) \<Rightarrow> unsigned_of (max a b)
      | (Some (True, a), Some (True, b)) \<Rightarrow> signed_of (max a b)
      | (Some (False, a), Some (True, b)) \<Rightarrow> signed_of (max (2 * a) b)
      | (Some (True, a), Some (False, b)) \<Rightarrow> signed_of (max a (2 * b))
      | _ \<Rightarrow> d1)"

definition np_binop :: "(int \<Rightarrow> int \<Rightarrow> int) \<Rightarrow> pyval \<Rightarrow> pyval \<Rightarrow> error + pyval" where
  "np_binop f a b =
     (case (a, b) of
        (PyInt x, PyInt y) \<Rightarrow> Inr (PyInt (f x y))
      | (PyInt x, NpInt d y) \<Rightarrow> Inr (NpInt (promote Int64 d) (wrap (promote Int64 d) (f x y)))
      | (NpInt d x, PyInt y) \<Rightarrow> Inr (NpInt (promote d Int64) (wrap (promote d Int64) (f x y)))
      | (NpInt d1 x, NpInt d2 y) \<Rightarrow> Inr (NpInt (promote d1 d2) (wrap (promote d1 d2) (f x y)))
      | (PyNone, _) \<Rightarrow> Inl TypeError
      | (_, PyNone) \<Rightarrow> Inl TypeError
      | _ \<Rightarrow> Inl Unmodelled)"

definition np_add :: "pyval \<Rightarrow> pyval \<Rightarrow> error + pyval" where
  "np_add = np_binop (+)"

definition np_sub :: "pyval \<Rightarrow> pyval \<Rightarrow> error + pyval" where
  "np_sub = np_binop (-)"

definition np_mul :: "pyval \<Rightarrow> pyval \<Rightarrow> error + pyval" where
  "np_mul = np_binop (*)"

text \<open>
  \<^verbatim>\<open>a // b\<close> under \<^verbatim>\<open>from __future__ import division\<close>: Python integers raise on a zero
  divisor, numpy integers warn and give 0; both round towards minus infinity.
\<close>

definition np_floordiv :: "pyval \<Rightarrow> pyval \<Rightarrow> error + pyval" where
  "np_floordiv a b =
     (case (a, b) of
        (PyInt x, PyInt y) \<Rightarrow> if y = 0 then Inl ZeroDivisionError else Inr (PyInt (x div y))
      | _ \<Rightarrow> np_binop (div) a b)"

text \<open>The number a scalar stands for; comparisons of integer scalars compare these.\<close>

definition as_int :: "pyval \<Rightarrow> int option" where
  "as_int v = (case v of PyInt x \<Rightarrow> Some x | NpInt d x \<Rightarrow> Some x | _ \<Rightarrow> None)"

text \<open>
  \<^verbatim>\<open>a == b\<close>. Scalars compare as numbers and \<^verbatim>\<open>None\<close> equals only itself: the result is
  a truth value. A comparison with an array is the array of the elementwise results. Where
  the source uses such an array as a condition, an array of more than one element has no
  truth value (ValueError) and an empty one is false.
\<close>

datatype cmp = Truth bool | Elems "bool list"

fun np_equal :: "pyval \<Rightarrow> pyval \<Rightarrow> error + cmp" where
  "np_equal PyNone PyNone = Inr (Truth True)"
| "np_equal PyNone (PyInt y) = Inr (Truth False)"
| "np_equal PyNone (NpInt d y) = Inr (Truth False)"
| "np_equal (PyInt x) PyNone = Inr (Truth False)"
| "np_equal (NpInt d x) PyNone = Inr (Truth False)"
| "np_equal (PyInt x) (PyInt y) = Inr (Truth (x = y))"
| "np_equal (PyInt x) (NpInt d y) = Inr (Truth (x = y))"
| "np_equal (NpInt d x) (PyInt y) = Inr (Truth (x = y))"
| "np_equal (NpInt d x) (NpInt d' y) = Inr (Truth (x = y))"
| "np_equal (NpArr d xs) (PyInt y) = Inr (Elems (map (\<lambda>x. x = y) xs))"
| "np_equal (NpArr d xs) (NpInt d' y) = Inr (Elems (map (\<lambda>x. x = y) xs))"
| "np_equal (PyInt x) (NpArr d ys) = Inr (Elems (map (\<lambda>y. x = y) ys))"
| "np_equal (NpInt d' x) (NpArr d ys) = Inr (Elems (map (\<lambda>y. x = y) ys))"
| "np_equal (NpArr d xs) (NpArr d' ys) =
     (if length xs = length ys then Inr (Elems (map (\<lambda>(x, y). x = y) (zip xs ys)))
      else Inl Unmodelled)"
| "np_equal _ _ = Inl Unmodelled"

definition truth :: "cmp \<Rightarrow> error + bool" where
  "truth c =
     (case c of
        Truth b \<Rightarrow> Inr b
      | Elems bs \<Rightarrow>
          (case bs of [] \<Rightarrow> Inr False | [b] \<Rightarrow> Inr b | _ \<Rightarrow> Inl (ValueError ''truth value'')))"

definition negate :: "cmp \<Rightarrow> cmp" where
  "negate c = (case c of Truth b \<Rightarrow> Truth (\<not> b) | Elems bs \<Rightarrow> Elems (map Not bs))"

definition py_eq :: "pyval \<Rightarrow> pyval \<Rightarrow> error + bool" where
  "py_eq a b = ebind (np_equal a b) truth"

definition py_ne :: "pyval \<Rightarrow> pyval \<Rightarrow> error + bool" where
  "py_ne a b = ebind (np_equal a b) (\<lambda>c. truth (negate c))"

text \<open>\<^verbatim>\<open>(a == b).all()\<close>; a plain truth value has no method \<^verbatim>\<open>all\<close>.\<close>

definition py_eq_all :: "pyval \<Rightarrow> pyval \<Rightarrow> error + bool" where
  "py_eq_all a b =
     ebind (np_equal a b) (\<lambda>c. case c of Truth t \<Rightarrow> Inl AttributeError | Elems bs \<Rightarrow> Inr (list_all id bs))"

definition py_less :: "pyval \<Rightarrow> pyval \<Rightarrow> error + bool" where
  "py_less a b =
     (case (as_int a, as_int b) of
        (Some x, Some y) \<Rightarrow> Inr (x < y)
      | _ \<Rightarrow> Inl Unmodelled)"

definition py_le :: "pyval \<Rightarrow> pyval \<Rightarrow> error + bool" where
  "py_le a b =
     (case (as_int a, as_int b) of
        (Some x, Some y) \<Rightarrow> Inr (x \<le> y)
      | _ \<Rightarrow> Inl Unmodelled)"

section \<open>The tables of \<^verbatim>\<open>tiff_data\<close>\<close>

text \<open>
  \<^verbatim>\<open>from .tiff_data import type2name, name2type, type2bytes, type2dtype, tag_value2name\<close>:
  the module is not among the sources, so its dictionaries are a parameter of everything
  that consults them.
\<close>

record tiff_data =
  type2name :: "int \<Rightarrow> string option"
  name2type :: "string \<Rightarrow> int option"
  type2bytes :: "int \<Rightarrow> int option"
  type2dtype :: "int \<Rightarrow> dtype option"
  tag_value2name :: "int \<Rightarrow> string option"

text \<open>The argument \<^verbatim>\<open>typ\<close> of \<^verbatim>\<open>get_values\<close>: a type code, a type name or a numpy type.\<close>

datatype type_arg = TypeCode int | TypeName string | DType dtype

definition resolve_typ :: "tiff_data \<Rightarrow> type_arg \<Rightarrow> (dtype \<times> int) option" where
  "resolve_typ td t =
     (case t of
        DType d \<Rightarrow> Some (d, int (itemsize d))
      | TypeCode c \<Rightarrow>
          (case (type2dtype td c, type2bytes td c) of
             (Some d, Some b) \<Rightarrow> Some (d, b) | _ \<Rightarrow> None)
      | TypeName n \<Rightarrow>
          (case name2type td n of
             None \<Rightarrow> None
           | Some c \<Rightarrow>
               (case (type2dtype td c, type2bytes td c) of
                  (Some d, Some b) \<Rightarrow> Some (d, b) | _ \<Rightarrow> None)))"

text \<open>
  \<^verbatim>\<open>get_values\<close> writes a line to stderr and returns \<^verbatim>\<open>None\<close> (here \<open>Inr None\<close>) when the
  type has no element type or no width; otherwise it returns the view.
\<close>

definition get_values :: "tiff_data \<Rightarrow> endian \<Rightarrow> byte list \<Rightarrow> int \<Rightarrow> type_arg \<Rightarrow> int \<Rightarrow> error + pyval option" where
  "get_values td host data offset t cnt =
     (case resolve_typ td t of
        None \<Rightarrow> Inr None
      | Some (d, b) \<Rightarrow>
          ebind (view_as host d (py_slice data offset (offset + b * cnt))) (\<lambda>v. Inr (Some v)))"

definition get_value :: "tiff_data \<Rightarrow> endian \<Rightarrow> byte list \<Rightarrow> int \<Rightarrow> type_arg \<Rightarrow> error + pyval option" where
  "get_value td host data offset t =
     ebind (get_values td host data offset t 1) (\<lambda>values.
       case values of
         None \<Rightarrow> Inr None
       | Some a \<Rightarrow> ebind (np_index a 0) (\<lambda>x. Inr (Some x)))"

section \<open>Directory entries\<close>

definition digit_char :: "nat \<Rightarrow> char" where
  "digit_char n = ''0123456789abcdef'' ! n"

text \<open>\<^verbatim>\<open>'%s' % n\<close> and the digits of \<^verbatim>\<open>hex(n)\<close> for a number that is not negative.\<close>

function show_int :: "int \<Rightarrow> string" where
  "show_int n =
     (if n < 10 then [digit_char (nat n)]
      else show_int (n div 10) @ [digit_char (nat (n mod 10))])"
  by pat_completeness auto
termination
  by (relation "measure nat") auto

function hex_digits :: "int \<Rightarrow> string" where
  "hex_digits n =
     (if n < 16 then [digit_char (nat n)]
      else hex_digits (n div 16) @ [digit_char (nat (n mod 16))])"
  by pat_completeness auto
termination
  by (relation "measure nat") auto

declare show_int.simps [simp del]
declare hex_digits.simps [simp del]

text \<open>
  An entry after \<^verbatim>\<open>IFDEntry.__init__\<close>. \<open>ent_offset\<close> is \<^verbatim>\<open>self.offset\<close>, \<open>ent_value\<close> is
  \<^verbatim>\<open>self.value\<close>, which the constructor leaves unset (\<open>None\<close> here) when the read returned
  \<^verbatim>\<open>None\<close>. A memory region is (start, end, label); its numbers are kept without their
  numpy types.
\<close>

type_synonym region = "int \<times> int \<times> string"

record IFDEntry =
  ent_tag :: int
  ent_type :: int
  ent_count :: int
  ent_bytes :: int
  ent_offset :: "int option"
  ent_value :: "pyval option"
  tag_name :: string
  type_name :: string
  memory_usage :: "region list"

definition region_of :: "pyval \<Rightarrow> pyval \<Rightarrow> string \<Rightarrow> error + region" where
  "region_of a b label =
     (case (as_int a, as_int b) of
        (Some x, Some y) \<Rightarrow> Inr (x, y, label)
      | _ \<Rightarrow> Inl Unmodelled)"

text \<open>
  The two ways of \<^verbatim>\<open>IFDEntry.__init__\<close> to a value: read in place from the value field at
  \<open>offset + 8\<close> (\<^verbatim>\<open>self.offset = None\<close>), or read at the offset that the value field holds,
  which the source reads as a signed number (\<^verbatim>\<open>get_int32\<close>).
\<close>

definition entry_value :: "tiff_data \<Rightarrow> endian \<Rightarrow> byte list \<Rightarrow> int \<Rightarrow> int \<Rightarrow> int \<Rightarrow> int \<Rightarrow> error + (int option \<times> pyval option)" where
  "entry_value td host data offset ty cn b =
     (if cn = 1 \<and> 1 \<le> b \<and> b \<le> 4
      then ebind (get_value td host data (offset + 8) (TypeCode ty)) (\<lambda>v. Inr (None, v))
      else ebind (get_int32 host data (offset + 8)) (\<lambda>off.
           ebind (get_values td host data off (TypeCode ty) cn) (\<lambda>v.
           Inr (Some off, v))))"

text \<open>
  \<^verbatim>\<open>(self.offset, self.offset + self.bytes*self.count, self.tag_name)\<close>, appended when
  \<^verbatim>\<open>self.offset\<close> is not \<^verbatim>\<open>None\<close>: a Python integer times a \<^verbatim>\<open>uint32\<close>, added to an \<^verbatim>\<open>int32\<close>.
\<close>

definition entry_region :: "int option \<Rightarrow> int \<Rightarrow> int \<Rightarrow> string \<Rightarrow> error + region list" where
  "entry_region off b cn tname =
     (case off of
        None \<Rightarrow> Inr []
      | Some off' \<Rightarrow>
          ebind (np_mul (PyInt b) (NpInt UInt32 cn)) (\<lambda>bc.
          ebind (np_add (NpInt Int32 off') bc) (\<lambda>e.
          ebind (region_of (NpInt Int32 off') e tname) (\<lambda>r. Inr [r]))))"

definition name_of_tag :: "tiff_data \<Rightarrow> int \<Rightarrow> string" where
  "name_of_tag td tg = (case tag_value2name td tg of None \<Rightarrow> ''TAG0x'' @ hex_digits tg | Some n \<Rightarrow> n)"

definition name_of_type :: "tiff_data \<Rightarrow> int \<Rightarrow> string" where
  "name_of_type td ty = (case type2name td ty of None \<Rightarrow> ''TYPE'' @ show_int ty | Some n \<Rightarrow> n)"

definition width_of_type :: "tiff_data \<Rightarrow> int \<Rightarrow> int" where
  "width_of_type td ty = (case type2bytes td ty of None \<Rightarrow> 0 | Some w \<Rightarrow> w)"

definition IFDEntry_init :: "tiff_data \<Rightarrow> endian \<Rightarrow> byte list \<Rightarrow> int \<Rightarrow> error + IFDEntry" where
  "IFDEntry_init td host data offset =
     ebind (get_uint16 host data offset) (\<lambda>tg.
     ebind (get_uint16 host data (offset + 2)) (\<lambda>ty.
     ebind (get_uint32 host data (offset + 4)) (\<lambda>cn.
     ebind (entry_value td host data offset ty cn (width_of_type td ty)) (\<lambda>(off, v).
     ebind (entry_region off (width_of_type td ty) cn (name_of_tag td tg)) (\<lambda>mu.
     Inr \<lparr> ent_tag = tg, ent_type = ty, ent_count = cn, ent_bytes = width_of_type td ty,
           ent_offset = off, ent_value = v, tag_name = name_of_tag td tg,
           type_name = name_of_type td ty, memory_usage = mu \<rparr>)))))"

section \<open>Directories\<close>

record IFD =
  entries :: "IFDEntry list"

definition IFD_get :: "IFD \<Rightarrow> string \<Rightarrow> IFDEntry option" where
  "IFD_get ifd name = find (\<lambda>entry. tag_name entry = name) (entries ifd)"

text \<open>\<^verbatim>\<open>entry.value\<close>: AttributeError when there is no entry or the entry has no value.\<close>

definition value_of :: "IFDEntry option \<Rightarrow> error + pyval" where
  "value_of entry =
     (case entry of
        None \<Rightarrow> Inl AttributeError
      | Some e \<Rightarrow> (case ent_value e of None \<Rightarrow> Inl AttributeError | Some v \<Rightarrow> Inr v))"

definition IFD_get_value :: "IFD \<Rightarrow> string \<Rightarrow> pyval \<Rightarrow> error + pyval" where
  "IFD_get_value ifd name dflt =
     (case IFD_get ifd name of None \<Rightarrow> Inr dflt | Some e \<Rightarrow> value_of (Some e))"

fun emap :: "('a \<Rightarrow> error + 'b) \<Rightarrow> 'a list \<Rightarrow> error + 'b list" where
  "emap f [] = Inr []"
| "emap f (x # xs) = ebind (f x) (\<lambda>y. ebind (emap f xs) (\<lambda>ys. Inr (y # ys)))"

text \<open>What iterating over a value yields; a scalar is not iterable.\<close>

definition iter_items :: "pyval \<Rightarrow> error + pyval list" where
  "iter_items v =
     (case v of
        NpArr d xs \<Rightarrow> Inr (map (NpInt d) xs)
      | NpOtherArr d s \<Rightarrow> Inr (map (NpOther d) (chunks (itemsize d) s))
      | _ \<Rightarrow> Inl TypeError)"

text \<open>
  \<^verbatim>\<open>StripOffsets_hook\<close>, the one finalize hook this file registers: it adds one region per
  strip to the entry named StripOffsets.
\<close>

definition StripOffsets_hook :: "IFD \<Rightarrow> IFDEntry \<Rightarrow> error + IFDEntry" where
  "StripOffsets_hook ifd ifdentry =
     (if tag_name ifdentry = ''StripOffsets'' then
        (let counts = IFD_get ifd ''StripByteCounts'' in
         if ent_offset ifdentry \<noteq> None then
           ebind (value_of counts) (\<lambda>cv.
           ebind (value_of (Some ifdentry)) (\<lambda>ev.
           ebind (iter_items cv) (\<lambda>cs.
           ebind (iter_items ev) (\<lambda>os.
           ebind (emap (\<lambda>(i, (cnt, off)).
                    ebind (np_add off cnt) (\<lambda>e.
                    region_of off e (''strip '' @ show_int (int i))))
                  (zip [0..<length (zip cs os)] (zip cs os))) (\<lambda>rs.
           Inr (ifdentry \<lparr> memory_usage := memory_usage ifdentry @ rs \<rparr>))))))
         else
           ebind (value_of (Some ifdentry)) (\<lambda>off.
           ebind (value_of counts) (\<lambda>cv.
           ebind (np_add off cv) (\<lambda>e.
           ebind (region_of off e ''strip'') (\<lambda>r.
           Inr (ifdentry \<lparr> memory_usage := memory_usage ifdentry @ [r] \<rparr>))))))
      else Inr ifdentry)"

definition finalize :: "IFD \<Rightarrow> error + IFD" where
  "finalize ifd = ebind (emap (StripOffsets_hook ifd) (entries ifd)) (\<lambda>es. Inr \<lparr> entries = es \<rparr>)"

section \<open>Opening a file: header and directory chain\<close>

text \<open>
  One turn of the loop of \<^verbatim>\<open>TIFFfile.__init__\<close>: the entry count, the entries, the finalize
  hooks and the offset of the next directory. The result is the directory, the entry count
  and the next offset.
\<close>

definition read_ifd :: "tiff_data \<Rightarrow> endian \<Rightarrow> byte list \<Rightarrow> int \<Rightarrow> error + (IFD \<times> int \<times> int)" where
  "read_ifd td host data IFD_offset =
     ebind (get_uint16 host data IFD_offset) (\<lambda>n.
     ebind (emap (\<lambda>i. IFDEntry_init td host data (IFD_offset + 2 + int i * 12)) [0..<nat n]) (\<lambda>es.
     ebind (finalize \<lparr> entries = es \<rparr>) (\<lambda>ifd.
     ebind (get_uint32 host data (IFD_offset + 2 + n * 12)) (\<lambda>nxt.
     Inr (ifd, n, nxt)))))"

definition ifd_label :: "nat \<Rightarrow> nat \<Rightarrow> string" where
  "ifd_label k n = ''IFD'' @ show_int (int k) @ '' entries ('' @ show_int (int n) @ '')''"

text \<open>
  \<^verbatim>\<open>while IFD_offset: ...\<close>. The source puts no bound on the loop, so the walk is a partial
  function: \<open>None\<close> is a walk that does not come back.
\<close>

partial_function (option) walk_chain ::
  "tiff_data \<Rightarrow> endian \<Rightarrow> byte list \<Rightarrow> int \<Rightarrow> IFD list \<Rightarrow> region list \<Rightarrow> (error + IFD list \<times> region list) option"
where
  "walk_chain td host data IFD_offset IFD_list mu =
     (if IFD_offset = 0 then Some (Inr (IFD_list, mu))
      else (case read_ifd td host data IFD_offset of
              Inl e \<Rightarrow> Some (Inl e)
            | Inr (ifd, n, nxt) \<Rightarrow>
                walk_chain td host data nxt (IFD_list @ [ifd])
                  (mu @ [(IFD_offset, IFD_offset + 2 + n * 12 + 4,
                          ifd_label (length IFD_list + 1) (length (entries ifd)))])))"

declare walk_chain.simps [code]

text \<open>
  The opened file. \<open>file_memory_usage\<close> is \<^verbatim>\<open>self.memory_usage\<close> and \<open>IFDs\<close> is \<^verbatim>\<open>self.IFD\<close>.
  \<open>endian\<close> is what the header declares. \<^verbatim>\<open>self.is_lsm\<close> is set by the hooks that
  \<^verbatim>\<open>lsm.register\<close> adds; \<^verbatim>\<open>lsm.py\<close> is not among the sources.

  Modelled from the spec: the vendor module's pre-decode hook, which is missing here. For a
  file without the vendor's private tag it leaves every entry as it is and marks the file as
  not of the vendor's kind (\<open>is_lsm = False\<close>). Files that carry the private tag are outside
  this model. \<open>lsm_channel_names\<close> is \<^verbatim>\<open>self.lsminfo.get('data channel name')\<close> of such a file.
\<close>

record TIFFfile =
  first_byte :: int
  data :: "byte list"
  file_memory_usage :: "region list"
  endian :: endian
  IFD0 :: int
  IFDs :: "IFD list"
  is_lsm :: bool
  lsm_channel_names :: "string list option"

definition TIFFfile_init :: "tiff_data \<Rightarrow> endian \<Rightarrow> byte list \<Rightarrow> string \<Rightarrow> int \<Rightarrow> (error + TIFFfile) option" where
  "TIFFfile_init td host bytes mode fb =
     (if mode \<noteq> ''r'' then Some (Inl (NotImplementedError mode))
      else if bytes = [] then Some (Inl (ValueError ''cannot mmap an empty file''))
      else
        (case get_uint16 host bytes fb of
           Inl e \<Rightarrow> Some (Inl e)
         | Inr byteorder \<Rightarrow>
             if byteorder \<noteq> 0x4949 \<and> byteorder \<noteq> 0x4d4d
             then Some (Inl (ValueError ''unrecognized byteorder''))
             else
               (case get_uint16 host bytes (fb + 2) of
                  Inl e \<Rightarrow> Some (Inl e)
                | Inr magic \<Rightarrow>
                    if magic \<noteq> 42 then Some (Inl (ValueError ''wrong magic number for TIFF file''))
                    else
                      (case get_uint32 host bytes (fb + 4) of
                         Inl e \<Rightarrow> Some (Inl e)
                       | Inr off \<Rightarrow>
                           (case get_uint16 host bytes (fb + off) of
                              Inl e \<Rightarrow> Some (Inl e)
                            | Inr n \<Rightarrow>
                                (case walk_chain td host bytes (fb + off) []
                                        [(int (length bytes), int (length bytes), ''eof''),
                                         (fb, fb + 8, ''file header'')] of
                                   None \<Rightarrow> None
                                 | Some (Inl e) \<Rightarrow> Some (Inl e)
                                 | Some (Inr (lst, mu)) \<Rightarrow>
                                     Some (Inr \<lparr> first_byte = fb, data = bytes,
                                                 file_memory_usage = mu,
                                                 endian = (if byteorder = 0x4949 then Little else Big),
                                                 IFD0 = fb + off, IFDs = lst,
                                                 is_lsm = False, lsm_channel_names = None \<rparr>)))))))"

section \<open>Contiguity of the strips of one directory\<close>

definition np_len :: "pyval \<Rightarrow> nat" where
  "np_len v = (case v of NpArr d xs \<Rightarrow> length xs | NpOtherArr d s \<Rightarrow> length s div itemsize d | _ \<Rightarrow> 0)"

text \<open>The loop of \<^verbatim>\<open>IFD.is_contiguous\<close> over the indices that are left.\<close>

fun contiguous_from :: "pyval \<Rightarrow> pyval \<Rightarrow> nat list \<Rightarrow> error + bool" where
  "contiguous_from strip_offsets strip_nbytes [] = Inr True"
| "contiguous_from strip_offsets strip_nbytes (i # rest) =
     ebind (np_index strip_offsets (int i)) (\<lambda>a.
     ebind (np_index strip_nbytes (int i)) (\<lambda>b.
     ebind (np_add a b) (\<lambda>e.
     ebind (np_index strip_offsets (int i + 1)) (\<lambda>nxt.
     ebind (py_ne e nxt) (\<lambda>differ.
     if differ then Inr False else contiguous_from strip_offsets strip_nbytes rest)))))"

definition is_contiguous :: "IFD \<Rightarrow> error + bool" where
  "is_contiguous ifd =
     ebind (value_of (IFD_get ifd ''StripOffsets'')) (\<lambda>strip_offsets.
     ebind (value_of (IFD_get ifd ''StripByteCounts'')) (\<lambda>strip_nbytes.
     if is_ndarray strip_offsets
     then contiguous_from strip_offsets strip_nbytes [0..<np_len strip_offsets - 1]
     else Inr True))"

section \<open>Assembling the samples\<close>

subsection \<open>Selecting the slices\<close>

text \<open>
  \<^verbatim>\<open>[ifd for ifd in self.IFD if ifd.get_value('NewSubfileType', subfile_type)==subfile_type]\<close>
  with a Python integer as the selector.
\<close>

fun efilter :: "('a \<Rightarrow> error + bool) \<Rightarrow> 'a list \<Rightarrow> error + 'a list" where
  "efilter p [] = Inr []"
| "efilter p (x # xs) =
     ebind (p x) (\<lambda>b. ebind (efilter p xs) (\<lambda>ys. Inr (if b then x # ys else ys)))"

definition selects :: "int \<Rightarrow> IFD \<Rightarrow> error + bool" where
  "selects subfile_type ifd =
     ebind (IFD_get_value ifd ''NewSubfileType'' (PyInt subfile_type)) (\<lambda>v.
     py_eq v (PyInt subfile_type))"

definition select_ifds :: "TIFFfile \<Rightarrow> int \<Rightarrow> error + IFD list" where
  "select_ifds t subfile_type = efilter (selects subfile_type) (IFDs t)"

subsection \<open>The loop over the selected slices\<close>

text \<open>
  The element types \<^verbatim>\<open>getattr(numpy, '%s%s' % (format, bits))\<close> finds in the numpy of a
  64-bit Linux; any other name is an AttributeError. \<^verbatim>\<open>uint0\<close> and \<^verbatim>\<open>int0\<close> are numpy's
  pointer-sized integers.
\<close>

datatype sample_kind = Fmt_uint | Fmt_int | Fmt_float | Fmt_complex

definition numpy_attr :: "sample_kind \<Rightarrow> pyval \<Rightarrow> error + dtype" where
  "numpy_attr fmt bits =
     (case as_int bits of
        None \<Rightarrow> Inl AttributeError
      | Some n \<Rightarrow>
          (case fmt of
             Fmt_uint \<Rightarrow>
               (if n = 8 then Inr UInt8 else if n = 16 then Inr UInt16
                else if n = 32 then Inr UInt32 else if n = 64 \<or> n = 0 then Inr UInt64
                else Inl AttributeError)
           | Fmt_int \<Rightarrow>
               (if n = 8 then Inr Int8 else if n = 16 then Inr Int16
                else if n = 32 then Inr Int32 else if n = 64 \<or> n = 0 then Inr Int64
                else Inl AttributeError)
           | Fmt_float \<Rightarrow>
               (if n = 16 then Inr Float16 else if n = 32 then Inr Float32
                else if n = 64 then Inr Float64 else if n = 128 then Inr Float128
                else Inl AttributeError)
           | Fmt_complex \<Rightarrow>
               (if n = 64 then Inr Complex64 else if n = 128 then Inr Complex128
                else if n = 256 then Inr Complex256
                else Inl AttributeError)))"

text \<open>
  \<^verbatim>\<open>{1:'uint', 2:'int', 3:'float', None:'uint', 6:'complex'}.get(sample_format)\<close>, with
  \<^verbatim>\<open>'uint'\<close> (and a printed warning) for a code that is not a key. An array is not hashable.
\<close>

definition format_of :: "pyval \<Rightarrow> error + sample_kind" where
  "format_of sample_format =
     (case sample_format of
        PyNone \<Rightarrow> Inr Fmt_uint
      | NpArr d xs \<Rightarrow> Inl TypeError
      | NpOtherArr d s \<Rightarrow> Inl TypeError
      | NpOther d s \<Rightarrow> Inl Unmodelled
      | _ \<Rightarrow>
          (if as_int sample_format = Some 2 then Inr Fmt_int
           else if as_int sample_format = Some 3 then Inr Fmt_float
           else if as_int sample_format = Some 6 then Inr Fmt_complex
           else Inr Fmt_uint))"

text \<open>\<^verbatim>\<open>range(n)\<close> for an integer \<^verbatim>\<open>n\<close>.\<close>

definition py_range :: "pyval \<Rightarrow> error + nat list" where
  "py_range v =
     (case v of
        PyNone \<Rightarrow> Inl TypeError
      | _ \<Rightarrow> (case as_int v of Some n \<Rightarrow> Inr [0..<nat n] | None \<Rightarrow> Inl Unmodelled))"

text \<open>
  The variables that the first turn of the loop (\<^verbatim>\<open>i == 0\<close>) binds and the later turns and
  the code after the loop read. \<open>length_px\<close> is the variable \<^verbatim>\<open>length\<close> of the source.
\<close>

record slice0 =
  compression :: pyval
  width :: pyval
  length_px :: pyval
  samples_per_pixel :: pyval
  planar_config :: pyval
  bits_per_sample :: pyval
  strips_per_image :: pyval
  dtype_lst :: "dtype list"
  bits_per_pixel :: pyval
  bytes_per_pixel :: pyval
  bytes_per_row :: pyval
  strip_length :: pyval
  bytes_per_image :: pyval
  rows_per_strip :: pyval

text \<open>
  \<^verbatim>\<open>for j in range(samples_per_pixel): bits = bits_per_sample[j]; bits_per_pixel += bits; ...\<close>
\<close>

fun per_sample_bits :: "sample_kind \<Rightarrow> pyval \<Rightarrow> nat list \<Rightarrow> pyval \<Rightarrow> dtype list \<Rightarrow> error + (pyval \<times> dtype list)" where
  "per_sample_bits fmt bps [] bpp dts = Inr (bpp, dts)"
| "per_sample_bits fmt bps (j # js) bpp dts =
     ebind (np_index bps (int j)) (\<lambda>bits.
     ebind (np_add bpp bits) (\<lambda>bpp'.
     ebind (numpy_attr fmt bits) (\<lambda>dt.
     per_sample_bits fmt bps js bpp' (dts @ [dt]))))"

definition first_slice :: "TIFFfile \<Rightarrow> IFD \<Rightarrow> pyval \<Rightarrow> pyval \<times> pyval \<Rightarrow> error + (bool \<times> slice0)" where
  "first_slice t ifd strip_offsets span =
     ebind (IFD_get_value ifd ''Compression'' PyNone) (\<lambda>compression'.
     ebind (py_ne compression' (PyInt 1)) (\<lambda>compressed.
     ebind (IFD_get_value ifd ''ImageWidth'' PyNone) (\<lambda>width'.
     ebind (IFD_get_value ifd ''ImageLength'' PyNone) (\<lambda>length'.
     ebind (IFD_get_value ifd ''SamplesPerPixel'' (PyInt 1)) (\<lambda>spp.
     ebind (IFD_get_value ifd ''PlanarConfiguration'' PyNone) (\<lambda>planar.
     ebind (IFD_get_value ifd ''BitsPerSample'' PyNone) (\<lambda>bps.
     ebind (IFD_get_value ifd ''SampleFormat'' PyNone) (\<lambda>sample_format.
     let spi = (if is_lsm t \<or> \<not> is_ndarray strip_offsets then PyInt 1
                else PyInt (int (np_len strip_offsets))) in
     ebind (format_of sample_format) (\<lambda>fmt.
     ebind (if is_ndarray bps
            then ebind (py_range spp) (\<lambda>js. per_sample_bits fmt bps js (PyInt 0) [])
            else ebind (numpy_attr fmt bps) (\<lambda>dt. Inr (bps, [dt]))) (\<lambda>(bpp, dts).
     ebind (np_floordiv bpp (PyInt 8)) (\<lambda>bytespp.
     ebind (np_mul (PyInt 8) bytespp) (\<lambda>b8.
     ebind (py_eq b8 bpp) (\<lambda>aligned.
     if \<not> aligned then Inl (AssertionError ''bits_per_pixel'') else
     ebind (np_mul width' bytespp) (\<lambda>bpr.
     ebind (np_sub (snd span) (fst span)) (\<lambda>slen.
     ebind (np_mul length' bpr) (\<lambda>bpi.
     ebind (np_mul bpr spi) (\<lambda>den.
     ebind (np_floordiv bpi den) (\<lambda>rps.
     ebind (IFD_get_value ifd ''RowsPerStrip'' rps) (\<lambda>declared.
     ebind (py_eq rps declared) (\<lambda>same.
     if \<not> same then Inl (AssertionError ''rows_per_strip'') else
     Inr (\<not> compressed,
          \<lparr> compression = compression', width = width', length_px = length',
            samples_per_pixel = spp, planar_config = planar, bits_per_sample = bps,
            strips_per_image = spi, dtype_lst = dts, bits_per_pixel = bpp,
            bytes_per_pixel = bytespp, bytes_per_row = bpr, strip_length = slen,
            bytes_per_image = bpi, rows_per_strip = rps \<rparr>)))))))))))))))))))))"

text \<open>
  The \<^verbatim>\<open>else\<close> branch, for every later slice: the assertions that compare it with slice 0.
\<close>

definition later_slice :: "slice0 \<Rightarrow> IFD \<Rightarrow> pyval \<times> pyval \<Rightarrow> error + unit" where
  "later_slice v ifd span =
     ebind (IFD_get_value ifd ''ImageWidth'' (width v)) (\<lambda>w.
     ebind (py_eq (width v) w) (\<lambda>ok.
     if \<not> ok then Inl (AssertionError ''width'') else
     ebind (IFD_get_value ifd ''ImageLength'' (length_px v)) (\<lambda>h.
     ebind (py_eq (length_px v) h) (\<lambda>ok.
     if \<not> ok then Inl (AssertionError ''length'') else
     ebind (IFD_get_value ifd ''PlanarConfiguration'' (planar_config v)) (\<lambda>p.
     ebind (py_eq (planar_config v) p) (\<lambda>ok.
     if \<not> ok then Inl (AssertionError ''planar_config'') else
     ebind (np_sub (snd span) (fst span)) (\<lambda>slen.
     ebind (py_eq (strip_length v) slen) (\<lambda>ok.
     if \<not> ok then Inl (AssertionError ''strip_length'') else
     ebind (IFD_get_value ifd ''BitsPerSample'' (bits_per_sample v)) (\<lambda>b.
     ebind (if is_ndarray (bits_per_sample v) then py_eq_all (bits_per_sample v) b
            else py_eq (bits_per_sample v) b) (\<lambda>ok.
     if \<not> ok then Inl (AssertionError ''bits_per_sample'') else Inr ()))))))))))"

text \<open>The state of the loop: \<^verbatim>\<open>l\<close>, \<^verbatim>\<open>i\<close>, \<^verbatim>\<open>step\<close>, \<^verbatim>\<open>can_return_memmap\<close> and the variables of slice 0.\<close>

record loop_state =
  spans :: "(pyval \<times> pyval) list"
  idx :: nat
  step :: pyval
  can_return_memmap :: bool
  vars :: "slice0 option"

definition initial_state :: loop_state where
  "initial_state = \<lparr> spans = [], idx = 0, step = PyInt 0, can_return_memmap = True, vars = None \<rparr>"

text \<open>
  \<^verbatim>\<open>(strip_offsets[0], strip_offsets[-1]+strip_nbytes[-1])\<close> for an array of offsets,
  \<^verbatim>\<open>(strip_offsets, strip_offsets+strip_nbytes)\<close> otherwise.
\<close>

definition strip_span :: "pyval \<Rightarrow> pyval \<Rightarrow> error + (pyval \<times> pyval)" where
  "strip_span strip_offsets strip_nbytes =
     (if is_ndarray strip_offsets
      then ebind (np_index strip_offsets 0) (\<lambda>first.
           ebind (np_index strip_offsets (- 1)) (\<lambda>lst.
           ebind (np_index strip_nbytes (- 1)) (\<lambda>n.
           ebind (np_add lst n) (\<lambda>e. Inr (first, e)))))
      else ebind (np_add strip_offsets strip_nbytes) (\<lambda>e. Inr (strip_offsets, e)))"

text \<open>
  \<^verbatim>\<open>if i>0: if i==1: step = ...; assert step>=0 else: if step != ...: can_return_memmap = False\<close>
\<close>

definition check_step :: "loop_state \<Rightarrow> pyval \<times> pyval \<Rightarrow> error + (pyval \<times> bool)" where
  "check_step st span =
     (if idx st > 0 then
        ebind (np_sub (fst span) (snd (last (spans st)))) (\<lambda>gap.
        if idx st = 1 then
          ebind (py_le (PyInt 0) gap) (\<lambda>ok.
          if \<not> ok then Inl (AssertionError ''step'') else Inr (gap, can_return_memmap st))
        else
          ebind (py_ne (step st) gap) (\<lambda>differ.
          Inr (step st, if differ then False else can_return_memmap st)))
      else Inr (step st, can_return_memmap st))"

definition slice_step :: "TIFFfile \<Rightarrow> loop_state \<Rightarrow> IFD \<Rightarrow> error + loop_state" where
  "slice_step t st ifd =
     ebind (is_contiguous ifd) (\<lambda>contiguous.
     if \<not> contiguous then Inl (NotImplementedError ''none contiguous strips'') else
     ebind (IFD_get_value ifd ''StripOffsets'' PyNone) (\<lambda>strip_offsets.
     ebind (IFD_get_value ifd ''StripByteCounts'' PyNone) (\<lambda>strip_nbytes.
     ebind (strip_span strip_offsets strip_nbytes) (\<lambda>span.
     ebind (if idx st = 0
            then ebind (first_slice t ifd strip_offsets span) (\<lambda>(fast, v).
                   Inr (st \<lparr> can_return_memmap := can_return_memmap st \<and> fast, vars := Some v \<rparr>))
            else (case vars st of
                    None \<Rightarrow> Inl NameError
                  | Some v \<Rightarrow> ebind (later_slice v ifd span) (\<lambda>u. Inr st))) (\<lambda>st'.
     ebind (check_step st' span) (\<lambda>(stp, crm).
     Inr (st' \<lparr> spans := spans st @ [span], idx := idx st + 1, step := stp,
               can_return_memmap := crm \<rparr>)))))))"

fun slice_loop :: "TIFFfile \<Rightarrow> loop_state \<Rightarrow> IFD list \<Rightarrow> error + loop_state" where
  "slice_loop t st [] = Inr st"
| "slice_loop t st (ifd # rest) = ebind (slice_step t st ifd) (\<lambda>st'. slice_loop t st' rest)"

subsection \<open>Arrays of bytes and their shapes\<close>

text \<open>A result array: element type, shape and the bytes in row-major order.\<close>

record ndarray =
  nd_dtype :: dtype
  nd_shape :: "nat list"
  nd_bytes :: "byte list"

text \<open>
  \<^verbatim>\<open>reshape\<close>: one dimension may be \<^verbatim>\<open>-1\<close> and is then inferred; otherwise the product of the
  dimensions must be the number of elements.
\<close>

definition resolve_shape :: "nat \<Rightarrow> int list \<Rightarrow> error + nat list" where
  "resolve_shape n dims =
     (if list_ex (\<lambda>d. d < - 1) dims \<or> length (filter (\<lambda>d. d = - 1) dims) > 1
      then Inl (ValueError ''reshape'')
      else if list_ex (\<lambda>d. d = - 1) dims then
        (let p = prod_list (filter (\<lambda>d. d \<noteq> - 1) dims) in
         if p = 0 \<or> int n mod p \<noteq> 0 then Inl (ValueError ''reshape'')
         else Inr (map (\<lambda>d. if d = - 1 then nat (int n div p) else nat d) dims))
      else if prod_list dims = int n then Inr (map nat dims)
      else Inl (ValueError ''reshape''))"

definition int_of :: "pyval \<Rightarrow> error + int" where
  "int_of v = (case v of PyNone \<Rightarrow> Inl TypeError
               | _ \<Rightarrow> (case as_int v of Some n \<Rightarrow> Inr n | None \<Rightarrow> Inl Unmodelled))"

text \<open>\<^verbatim>\<open>bytes.reshape((depth, row))\<close> as the list of its rows.\<close>

definition reshape_rows :: "byte list \<Rightarrow> nat \<Rightarrow> pyval \<Rightarrow> error + byte list list" where
  "reshape_rows bs depth row =
     ebind (int_of row) (\<lambda>r.
     ebind (resolve_shape (length bs) [int depth, r]) (\<lambda>shape.
     Inr (map (\<lambda>i. take (shape ! 1) (drop (i * (shape ! 1)) bs)) [0..<shape ! 0])))"

text \<open>\<^verbatim>\<open>xs[a:b:s]\<close> for a step \<open>s > 0\<close>.\<close>

definition py_slice_step :: "'a list \<Rightarrow> int \<Rightarrow> int \<Rightarrow> nat \<Rightarrow> 'a list" where
  "py_slice_step xs a b s =
     (let start = clip (length xs) a; stop = clip (length xs) b in
      map (\<lambda>i. xs ! (start + i * s)) [0..<(stop - start + s - 1) div s])"

text \<open>
  \<^verbatim>\<open>flat.view(dtype=dt).reshape((depth, length, width))\<close> for a one-dimensional byte array.
\<close>

definition view_reshape :: "byte list \<Rightarrow> dtype \<Rightarrow> nat \<Rightarrow> pyval \<Rightarrow> pyval \<Rightarrow> error + ndarray" where
  "view_reshape flat dt depth len wid =
     (if length flat mod itemsize dt \<noteq> 0 then Inl (ValueError ''view'')
      else
        ebind (int_of len) (\<lambda>h.
        ebind (int_of wid) (\<lambda>w.
        ebind (resolve_shape (length flat div itemsize dt) [int depth, h, w]) (\<lambda>shape.
        Inr \<lparr> nd_dtype = dt, nd_shape = shape, nd_bytes = flat \<rparr>))))"

definition nth_dtype :: "dtype list \<Rightarrow> nat \<Rightarrow> error + dtype" where
  "nth_dtype dts j = (if j < length dts then Inr (dts ! j) else Inl IndexError)"

subsection \<open>The copying path\<close>

text \<open>
  \<^verbatim>\<open>arr = numpy.empty(bytes_per_image, dtype=numpy.uint8)\<close> is uninitialised memory; a byte
  that no strip has been copied to is \<open>None\<close>. \<^verbatim>\<open>arr[i:i+d.nbytes] = d\<close> needs \<open>d\<close> to be as
  long as the target (or one byte, which is then repeated).
\<close>

definition assign_slice :: "byte option list \<Rightarrow> nat \<Rightarrow> byte list \<Rightarrow> error + byte option list" where
  "assign_slice arr i d =
     (let n = length arr; tlen = min n (i + length d) - min n i in
      if length d = tlen then Inr (take i arr @ map Some d @ drop (i + tlen) arr)
      else if length d = 1 then Inr (take i arr @ replicate tlen (Some (hd d)) @ drop (i + tlen) arr)
      else Inl (ValueError ''broadcast''))"

fun copy_strips ::
  "(byte list \<Rightarrow> int \<Rightarrow> byte list) \<Rightarrow> byte list \<Rightarrow> bool \<Rightarrow> int \<Rightarrow> (pyval \<times> pyval) list \<Rightarrow> nat \<Rightarrow> byte option list \<Rightarrow> error + byte option list"
where
  "copy_strips decode bs lzw bytes_per_strip [] i arr = Inr arr"
| "copy_strips decode bs lzw bytes_per_strip ((start, end) # rest) i arr =
     ebind (int_of start) (\<lambda>a.
     ebind (int_of end) (\<lambda>b.
     let d0 = py_slice bs a b; d = (if lzw then decode d0 bytes_per_strip else d0) in
     ebind (assign_slice arr i d) (\<lambda>arr'.
     copy_strips decode bs lzw bytes_per_strip rest (i + length d) arr')))"

definition sample_names_of :: "pyval \<Rightarrow> error + string list" where
  "sample_names_of spp = ebind (py_range spp) (\<lambda>js. Inr (map (\<lambda>j. ''sample'' @ show_int (int j)) js))"

definition slow_path ::
  "(byte list \<Rightarrow> int \<Rightarrow> byte list) \<Rightarrow> TIFFfile \<Rightarrow> loop_state \<Rightarrow> slice0 \<Rightarrow> string list \<Rightarrow> error + (ndarray list \<times> string list option)"
where
  "slow_path decode t st v names =
     ebind (py_eq (planar_config v) (PyInt 1)) (\<lambda>chunky.
     if \<not> chunky then Inl (NotImplementedError ''planar_config'') else
     ebind (py_eq (samples_per_pixel v) (PyInt 1)) (\<lambda>single.
     if \<not> single then Inl (NotImplementedError ''samples_per_pixel'') else
     ebind (int_of (bytes_per_image v)) (\<lambda>n.
     if n < 0 then Inl (ValueError ''negative dimensions are not allowed'') else
     ebind (py_eq (PyInt (int (length (spans st)))) (strips_per_image v)) (\<lambda>ok.
     if \<not> ok then Inl (AssertionError ''len(l)'') else
     ebind (np_floordiv (bytes_per_image v) (strips_per_image v)) (\<lambda>bps.
     ebind (int_of bps) (\<lambda>bytes_per_strip.
     ebind (py_eq (compression v) (PyInt 5)) (\<lambda>lzw.
     ebind (copy_strips decode (data t) lzw bytes_per_strip (spans st) 0 (replicate (nat n) None)) (\<lambda>arr.
     ebind (nth_dtype (dtype_lst v) 0) (\<lambda>dt.
     ebind (view_reshape (map (\<lambda>b. case b of None \<Rightarrow> 0 | Some x \<Rightarrow> x) arr) dt (idx st)
              (length_px v) (width v)) (\<lambda>res.
     if list_ex (\<lambda>b. b = None) arr then Inl Unmodelled
     else Inr ([res], Some names)))))))))))"

subsection \<open>The view over the mapped bytes\<close>

text \<open>
  \<^verbatim>\<open>start = l[0][0]; end = l[-1][1]\<close> and the array \<^verbatim>\<open>arr\<close> of one row per slice, with the
  column \<^verbatim>\<open>k\<close> at which the data of a slice begins in its row.
\<close>

definition fast_rows :: "TIFFfile \<Rightarrow> loop_state \<Rightarrow> slice0 \<Rightarrow> error + (byte list list \<times> pyval)" where
  "fast_rows t st v =
     (case spans st of
        [] \<Rightarrow> Inl IndexError
      | sp # others \<Rightarrow>
          (let start = fst sp; end = snd (last (spans st)) in
           ebind (py_less (step st) start) (\<lambda>room_before.
           if room_before then
             ebind (np_sub start (step st)) (\<lambda>a.
             ebind (int_of a) (\<lambda>a'.
             ebind (int_of end) (\<lambda>b'.
             ebind (np_add (strip_length v) (step st)) (\<lambda>row.
             ebind (reshape_rows (py_slice (data t) a' b') (idx st) row) (\<lambda>arr.
             Inr (arr, step st))))))
           else
             ebind (np_sub (PyInt (int (length (data t)))) (step st)) (\<lambda>lim.
             ebind (py_le end lim) (\<lambda>room_after.
             if room_after then
               ebind (int_of start) (\<lambda>a'.
               ebind (np_add end (step st)) (\<lambda>b.
               ebind (int_of b) (\<lambda>b'.
               ebind (np_add (strip_length v) (step st)) (\<lambda>row.
               ebind (reshape_rows (py_slice (data t) a' b') (idx st) row) (\<lambda>arr.
               Inr (arr, PyInt 0))))))
             else Inl (NotImplementedError ''start, end, step''))))))"

subsection \<open>Cutting the channels out of the rows\<close>

fun py_sum :: "pyval \<Rightarrow> pyval list \<Rightarrow> error + pyval" where
  "py_sum acc [] = Inr acc"
| "py_sum acc (x # xs) = ebind (np_add acc x) (\<lambda>a. py_sum a xs)"

text \<open>\<^verbatim>\<open>bits_per_sample[:samples_per_pixel]\<close> as the list of its elements.\<close>

definition np_take :: "pyval \<Rightarrow> pyval \<Rightarrow> error + pyval list" where
  "np_take a n =
     ebind (iter_items a) (\<lambda>items.
     case n of
       PyNone \<Rightarrow> Inr items
     | _ \<Rightarrow> ebind (int_of n) (\<lambda>k. Inr (py_slice items 0 k)))"

text \<open>\<^verbatim>\<open>x // 8 * width * length\<close>\<close>

definition plane_bytes :: "pyval \<Rightarrow> slice0 \<Rightarrow> error + pyval" where
  "plane_bytes x v =
     ebind (np_floordiv x (PyInt 8)) (\<lambda>a.
     ebind (np_mul a (width v)) (\<lambda>b.
     np_mul b (length_px v)))"

text \<open>
  The loop of the branch \<^verbatim>\<open>planar_config==1\<close>:
  \<^verbatim>\<open>tmp = arr[:,k+j:k+j+bytes:samples_per_pixel]\<close>, flattened, viewed and reshaped, and then
  \<^verbatim>\<open>k += bytes\<close>.
\<close>

fun chunky_channels ::
  "byte list list \<Rightarrow> slice0 \<Rightarrow> nat \<Rightarrow> pyval \<Rightarrow> nat \<Rightarrow> nat list \<Rightarrow> pyval \<Rightarrow> error + ndarray list"
where
  "chunky_channels arr v depth bytes stride [] k = Inr []"
| "chunky_channels arr v depth bytes stride (j # js) k =
     ebind (np_add k (PyInt (int j))) (\<lambda>a.
     ebind (np_add a bytes) (\<lambda>b.
     ebind (int_of a) (\<lambda>a'.
     ebind (int_of b) (\<lambda>b'.
     let tmp = map (\<lambda>row. py_slice_step row a' b' stride) arr in
     ebind (nth_dtype (dtype_lst v) j) (\<lambda>dt.
     ebind (view_reshape (concat tmp) dt depth (length_px v) (width v)) (\<lambda>res.
     ebind (np_add k bytes) (\<lambda>k'.
     ebind (chunky_channels arr v depth bytes stride js k') (\<lambda>rest.
     Inr (res # rest)))))))))"

definition chunky :: "byte list list \<Rightarrow> loop_state \<Rightarrow> slice0 \<Rightarrow> pyval \<Rightarrow> error + ndarray list" where
  "chunky arr st v k =
     ebind (if is_ndarray (bits_per_sample v)
            then ebind (np_take (bits_per_sample v) (samples_per_pixel v)) (\<lambda>items.
                 ebind (py_sum (PyInt 0) items) (\<lambda>total. plane_bytes total v))
            else plane_bytes (bits_per_sample v) v) (\<lambda>bytes.
     ebind (py_range (samples_per_pixel v)) (\<lambda>js.
     ebind (int_of (samples_per_pixel v)) (\<lambda>stride.
     chunky_channels arr v (idx st) bytes (nat stride) js k)))"

text \<open>
  The vendor branch (\<^verbatim>\<open>planar_config==2\<close> and \<^verbatim>\<open>self.is_lsm\<close>): channel \<open>j\<close> is the columns
  \<^verbatim>\<open>k:k+bytes\<close> of every row. A view with a wider element type of rows that are not whole
  depends on numpy's version and is not followed.
\<close>

definition plane_view :: "byte list list \<Rightarrow> slice0 \<Rightarrow> nat \<Rightarrow> pyval \<Rightarrow> pyval \<Rightarrow> dtype \<Rightarrow> error + ndarray" where
  "plane_view arr v depth k bytes dt =
     ebind (np_add k bytes) (\<lambda>b.
     ebind (int_of k) (\<lambda>a'.
     ebind (int_of b) (\<lambda>b'.
     let tmp = map (\<lambda>row. py_slice row a' b') arr in
     if itemsize dt \<noteq> 1 \<and> tmp \<noteq> arr then Inl Unmodelled
     else if list_ex (\<lambda>row. length row mod itemsize dt \<noteq> 0) tmp then Inl (ValueError ''view'')
     else view_reshape (concat tmp) dt depth (length_px v) (width v))))"

fun planar_channels ::
  "byte list list \<Rightarrow> slice0 \<Rightarrow> nat \<Rightarrow> nat list \<Rightarrow> pyval \<Rightarrow> error + ndarray list"
where
  "planar_channels arr v depth [] k = Inr []"
| "planar_channels arr v depth (j # js) k =
     ebind (np_index (bits_per_sample v) (int j)) (\<lambda>bits.
     ebind (plane_bytes bits v) (\<lambda>bytes.
     ebind (nth_dtype (dtype_lst v) j) (\<lambda>dt.
     ebind (plane_view arr v depth k bytes dt) (\<lambda>res.
     ebind (np_add k bytes) (\<lambda>k'.
     ebind (planar_channels arr v depth js k') (\<lambda>rest.
     Inr (res # rest)))))))"

definition lsm_planar ::
  "TIFFfile \<Rightarrow> int \<Rightarrow> byte list list \<Rightarrow> loop_state \<Rightarrow> slice0 \<Rightarrow> pyval \<Rightarrow> error + (ndarray list \<times> string list option)"
where
  "lsm_planar t subfile_type arr st v k =
     ebind (if subfile_type = 0 then Inr (lsm_channel_names t)
            else if subfile_type = 1 then
              ebind (py_eq (samples_per_pixel v) (PyInt 3)) (\<lambda>three.
              if \<not> three then Inl (AssertionError ''samples_per_pixel'')
              else Inr (Some [''red'', ''green'', ''blue'']))
            else Inl (NotImplementedError ''subfile_type'')) (\<lambda>names.
     if is_ndarray (bits_per_sample v) then
       ebind (py_range (samples_per_pixel v)) (\<lambda>js.
       ebind (planar_channels arr v (idx st) js k) (\<lambda>samples. Inr (samples, names)))
     else
       ebind (py_eq (samples_per_pixel v) (PyInt 1)) (\<lambda>single.
       if \<not> single then Inl (AssertionError ''samples_per_pixel'') else
       ebind (plane_bytes (bits_per_sample v) v) (\<lambda>bytes.
       ebind (nth_dtype (dtype_lst v) 0) (\<lambda>dt.
       ebind (plane_view arr v (idx st) k bytes dt) (\<lambda>res. Inr ([res], names))))))"

subsection \<open>\<^verbatim>\<open>TIFFfile.get_samples\<close>\<close>

text \<open>
  The call \<^verbatim>\<open>get_samples(subfile_type)\<close> with \<^verbatim>\<open>verbose\<close> left false (printing is not followed).
  \<open>decode\<close> is \<^verbatim>\<open>tif_lzw.decode\<close>, the codec that is not among the sources.
\<close>

definition get_samples ::
  "(byte list \<Rightarrow> int \<Rightarrow> byte list) \<Rightarrow> TIFFfile \<Rightarrow> int \<Rightarrow> error + (ndarray list \<times> string list option)"
where
  "get_samples decode t subfile_type =
     ebind (select_ifds t subfile_type) (\<lambda>ifd_lst.
     ebind (slice_loop t initial_state ifd_lst) (\<lambda>st.
     case vars st of
       None \<Rightarrow> Inl NameError
     | Some v \<Rightarrow>
         ebind (sample_names_of (samples_per_pixel v)) (\<lambda>names.
         if \<not> can_return_memmap st then slow_path decode t st v names else
         ebind (fast_rows t st v) (\<lambda>(arr, k).
         ebind (py_eq (planar_config v) (PyInt 2)) (\<lambda>planar.
         if planar then
           (if is_lsm t then lsm_planar t subfile_type arr st v k
            else Inl (NotImplementedError ''planar_config, is_lsm''))
         else
           ebind (py_eq (planar_config v) (PyInt 1)) (\<lambda>interleaved.
           if interleaved then ebind (chunky arr st v k) (\<lambda>samples. Inr (samples, Some names))
           else Inl (NotImplementedError ''planar_config'')))))))"

section \<open>Tables and files used as concrete inputs\<close>

text \<open>
  Modelled from the spec: the dictionaries of \<^verbatim>\<open>tiff_data\<close>, which are not among the sources.
  The widths are the table of the spec (1,1,2,4,8,1,1,2,4,8,4,8 for the codes 1 to 12). The
  spec gives no element types and no tag numbers; the ones here are those of TIFF 6.0, with
  the tag names that \<^verbatim>\<open>tiff_file.py\<close> looks up. The general theorems below hold for any
  tables; these are used where a theorem is applied to a concrete file.
\<close>

definition tiff6 :: tiff_data where
  "tiff6 =
     \<lparr> type2name = map_of
         [(1, ''BYTE''), (2, ''ASCII''), (3, ''SHORT''), (4, ''LONG''), (5, ''RATIONAL''),
          (6, ''SBYTE''), (7, ''UNDEFINED''), (8, ''SSHORT''), (9, ''SLONG''),
          (10, ''SRATIONAL''), (11, ''FLOAT''), (12, ''DOUBLE'')],
       name2type = map_of
         [(''BYTE'', 1), (''ASCII'', 2), (''SHORT'', 3), (''LONG'', 4), (''RATIONAL'', 5),
          (''SBYTE'', 6), (''UNDEFINED'', 7), (''SSHORT'', 8), (''SLONG'', 9),
          (''SRATIONAL'', 10), (''FLOAT'', 11), (''DOUBLE'', 12)],
       type2bytes = map_of
         [(1, 1), (2, 1), (3, 2), (4, 4), (5, 8), (6, 1), (7, 1), (8, 2), (9, 4), (10, 8),
          (11, 4), (12, 8)],
       type2dtype = map_of
         [(1, UInt8), (2, UInt8), (3, UInt16), (4, UInt32), (5, Rational), (6, Int8),
          (7, UInt8), (8, Int16), (9, Int32), (10, SRational), (11, Float32), (12, Float64)],
       tag_value2name = map_of
         [(254, ''NewSubfileType''), (256, ''ImageWidth''), (257, ''ImageLength''),
          (258, ''BitsPerSample''), (259, ''Compression''), (273, ''StripOffsets''),
          (277, ''SamplesPerPixel''), (278, ''RowsPerStrip''), (279, ''StripByteCounts''),
          (284, ''PlanarConfiguration''), (339, ''SampleFormat'')] \<rparr>"

text \<open>
  A big-endian file that starts at byte 2 of its buffer, after the two bytes 01 02: the
  header \<^verbatim>\<open>MM\<close>, 42, the offset 8 of the first directory (relative to the start of the
  file), and one directory without entries.
\<close>

definition big_endian_file :: "byte list" where
  "big_endian_file =
     [0x01, 0x02,
      0x4D, 0x4D, 0x00, 0x2A, 0x00, 0x00, 0x00, 0x08,
      0x00, 0x00, 0x00, 0x00, 0x00, 0x00]"

text \<open>The same bytes with every number of the file stored low byte first, under the mark \<^verbatim>\<open>II\<close>.\<close>

definition little_endian_file :: "byte list" where
  "little_endian_file =
     [0x01, 0x02,
      0x49, 0x49, 0x2A, 0x00, 0x08, 0x00, 0x00, 0x00,
      0x00, 0x00, 0x00, 0x00, 0x00, 0x00]"

text \<open>
  A buffer that begins with one 12-byte entry: tag 330, type code 13 (not in the table),
  count 1, value field 16; eight more bytes follow at offset 12.
\<close>

definition type13_entry :: "byte list" where
  "type13_entry =
     [0x4A, 0x01, 0x0D, 0x00, 0x01, 0x00, 0x00, 0x00, 0x10, 0x00, 0x00, 0x00,
      0x00, 0x00, 0x00, 0x00, 0x07, 0x00, 0x00, 0x00]"

text \<open>
  Three more buffers that begin with one entry each. \<open>inline_entry\<close>: tag 256, type 3
  (2 bytes wide), count 1, the value 640 in the value field. \<open>rational_entry\<close>: tag 282,
  type 5 (8 bytes wide), count 1, value field 12, and the 8 bytes of the value at offset 12.
  \<open>long8_entry\<close>: tag 700, type code 16 (not in the table), count 2, value field 12, and 16
  bytes at offset 12.
\<close>

definition inline_entry :: "byte list" where
  "inline_entry = [0x00, 0x01, 0x03, 0x00, 0x01, 0x00, 0x00, 0x00, 0x80, 0x02, 0x00, 0x00]"

definition rational_entry :: "byte list" where
  "rational_entry =
     [0x1A, 0x01, 0x05, 0x00, 0x01, 0x00, 0x00, 0x00, 0x0C, 0x00, 0x00, 0x00,
      0x48, 0x00, 0x00, 0x00, 0x01, 0x00, 0x00, 0x00]"

definition long8_entry :: "byte list" where
  "long8_entry =
     [0xBC, 0x02, 0x10, 0x00, 0x02, 0x00, 0x00, 0x00, 0x0C, 0x00, 0x00, 0x00,
      0x01, 0x00, 0x00, 0x00, 0x00, 0x00, 0x00, 0x00,
      0x02, 0x00, 0x00, 0x00, 0x00, 0x00, 0x00, 0x00]"

section \<open>Directory chains\<close>

text \<open>
  \<open>follows td host buf off ps\<close>: starting at offset \<open>off\<close>, the directories of the buffer are
  at the offsets \<open>ps\<close>, in this order: each offset is not zero, its directory decodes, the
  next-directory offset of each is the following element of \<open>ps\<close>, and that of the last is 0.
  \<open>ifd_at\<close> is the directory decoded at an offset.
\<close>

fun follows :: "tiff_data \<Rightarrow> endian \<Rightarrow> byte list \<Rightarrow> int \<Rightarrow> int list \<Rightarrow> bool" where
  "follows td host buf off [] = (off = 0)"
| "follows td host buf off (p # ps) =
     (off = p \<and> p \<noteq> 0 \<and>
      (case read_ifd td host buf p of
         Inl e \<Rightarrow> False
       | Inr (ifd, n, nxt) \<Rightarrow> follows td host buf nxt ps))"

definition ifd_at :: "tiff_data \<Rightarrow> endian \<Rightarrow> byte list \<Rightarrow> int \<Rightarrow> IFD" where
  "ifd_at td host buf p =
     (case read_ifd td host buf p of Inl e \<Rightarrow> \<lparr> entries = [] \<rparr> | Inr (ifd, n, nxt) \<Rightarrow> ifd)"

text \<open>
  The header at \<open>fb\<close> is one that \<^verbatim>\<open>TIFFfile.__init__\<close> accepts, with \<open>off\<close> in its offset
  field: a byte-order mark, the number 42, and two readable bytes where the first directory
  is said to be (the constructor reads an entry count there before it enters the loop).
\<close>

definition header_ok :: "endian \<Rightarrow> byte list \<Rightarrow> int \<Rightarrow> int \<Rightarrow> bool" where
  "header_ok host buf fb off =
     (buf \<noteq> []
      \<and> (get_uint16 host buf fb = Inr 0x4949 \<or> get_uint16 host buf fb = Inr 0x4d4d)
      \<and> get_uint16 host buf (fb + 2) = Inr 42
      \<and> get_uint32 host buf (fb + 4) = Inr off
      \<and> (case get_uint16 host buf (fb + off) of Inl e \<Rightarrow> False | Inr n \<Rightarrow> True))"

text \<open>
  \<open>cyclic td host buf ps\<close>: every offset of \<open>ps\<close> is not zero and holds a directory that
  decodes and whose next-directory offset is again in \<open>ps\<close>.
\<close>

definition cyclic :: "tiff_data \<Rightarrow> endian \<Rightarrow> byte list \<Rightarrow> int list \<Rightarrow> bool" where
  "cyclic td host buf ps =
     list_all (\<lambda>p. p \<noteq> 0 \<and>
                 (case read_ifd td host buf p of
                    Inl e \<Rightarrow> False
                  | Inr (ifd, n, nxt) \<Rightarrow> nxt \<in> set ps)) ps"

text \<open>
  A little-endian file of two directories, at the offsets 8 and 26, each with the one entry
  ImageWidth (5 and 7); and a file whose two directories, at 8 and 14, have no entries and
  name each other as the next directory.
\<close>

definition two_directories :: "byte list" where
  "two_directories =
     [0x49, 0x49, 0x2A, 0x00, 0x08, 0x00, 0x00, 0x00,
      0x01, 0x00,
      0x00, 0x01, 0x03, 0x00, 0x01, 0x00, 0x00, 0x00, 0x05, 0x00, 0x00, 0x00,
      0x1A, 0x00, 0x00, 0x00,
      0x01, 0x00,
      0x00, 0x01, 0x03, 0x00, 0x01, 0x00, 0x00, 0x00, 0x07, 0x00, 0x00, 0x00,
      0x00, 0x00, 0x00, 0x00]"

definition cyclic_file :: "byte list" where
  "cyclic_file =
     [0x49, 0x49, 0x2A, 0x00, 0x08, 0x00, 0x00, 0x00,
      0x00, 0x00, 0x0E, 0x00, 0x00, 0x00,
      0x00, 0x00, 0x08, 0x00, 0x00, 0x00]"

text \<open>A file whose only directory, at offset 8, names itself as the next directory.\<close>

definition self_loop_file :: "byte list" where
  "self_loop_file =
     [0x49, 0x49, 0x2A, 0x00, 0x08, 0x00, 0x00, 0x00,
      0x00, 0x00, 0x08, 0x00, 0x00, 0x00]"

section \<open>Files for the sample assembler\<close>

text \<open>
  \<open>opened td host buf\<close> is the file object that opening the buffer at byte 0 yields (an
  empty file object where opening fails or does not return). \<open>no_codec\<close> stands for the
  external codec where no strip is compressed.
\<close>

definition opened :: "tiff_data \<Rightarrow> endian \<Rightarrow> byte list \<Rightarrow> TIFFfile" where
  "opened td host buf =
     (case TIFFfile_init td host buf ''r'' 0 of
        Some (Inr t) \<Rightarrow> t
      | _ \<Rightarrow> \<lparr> first_byte = 0, data = [], file_memory_usage = [], endian = Little, IFD0 = 0,
               IFDs = [], is_lsm = False, lsm_channel_names = None \<rparr>)"

definition no_codec :: "byte list \<Rightarrow> int \<Rightarrow> byte list" where
  "no_codec d n = d"

text \<open>
  Three directories: the first has no entries, the second declares NewSubfileType 0, the
  third NewSubfileType 1.
\<close>

definition subfile_file :: "byte list" where
  "subfile_file =
     [0x49, 0x49, 0x2A, 0x00, 0x08, 0x00, 0x00, 0x00,
      0x00, 0x00, 0x0E, 0x00, 0x00, 0x00,
      0x01, 0x00, 0xFE, 0x00, 0x04, 0x00, 0x01, 0x00, 0x00, 0x00, 0x00, 0x00, 0x00, 0x00,
      0x20, 0x00, 0x00, 0x00,
      0x01, 0x00, 0xFE, 0x00, 0x04, 0x00, 0x01, 0x00, 0x00, 0x00, 0x01, 0x00, 0x00, 0x00,
      0x00, 0x00, 0x00, 0x00]"

section \<open>Notions of the specification\<close>

text \<open>
  The byte ranges (start, end) of the strips of a directory whose strip offsets are \<open>xs\<close> and
  whose strip byte counts are \<open>ys\<close>: the end of a strip is its offset plus its byte count.
\<close>

definition strip_ranges :: "int list \<Rightarrow> int list \<Rightarrow> (int \<times> int) list" where
  "strip_ranges xs ys = map (\<lambda>(x, y). (x, x + y)) (zip xs ys)"

text \<open>
  The contiguity of the specification: the end of each strip is the start of the next one; a
  single strip is always contiguous.
\<close>

fun ranges_contiguous :: "(int \<times> int) list \<Rightarrow> bool" where
  "ranges_contiguous [] = True"
| "ranges_contiguous [r] = True"
| "ranges_contiguous (r # r' # rs) = (snd r = fst r' \<and> ranges_contiguous (r' # rs))"

section \<open>Strip arrays and their element types\<close>

text \<open>
  \<open>numpy_ranges\<close>: the pairs (offset, end) that \<^verbatim>\<open>IFD.is_contiguous\<close> works with when the offsets
  are an array of element type \<open>d\<close> and the byte counts an array of element type \<open>d'\<close>: the end
  is the sum as numpy adds the two scalars, in their common type. \<open>sums_fit\<close>: every such sum
  is the sum of the two numbers, that is, no end of a strip lies beyond the largest number of
  the common type.
\<close>

definition numpy_ranges :: "dtype \<Rightarrow> int list \<Rightarrow> dtype \<Rightarrow> int list \<Rightarrow> (int \<times> int) list" where
  "numpy_ranges d xs d' ys = map (\<lambda>(x, y). (x, wrap (promote d d') (x + y))) (zip xs ys)"

definition sums_fit :: "dtype \<Rightarrow> int list \<Rightarrow> dtype \<Rightarrow> int list \<Rightarrow> bool" where
  "sums_fit d xs d' ys = list_all (\<lambda>(x, y). wrap (promote d d') (x + y) = x + y) (zip xs ys)"

text \<open>
  A directory as decoded that holds just the two strip entries, with the given arrays as
  their values (the other fields of the entries play no part in the contiguity check).
\<close>

definition entry_of :: "string \<Rightarrow> pyval \<Rightarrow> IFDEntry" where
  "entry_of name v =
     \<lparr> ent_tag = 0, ent_type = 4, ent_count = 0, ent_bytes = 4, ent_offset = Some 0,
       ent_value = Some v, tag_name = name, type_name = ''LONG'', memory_usage = [] \<rparr>"

definition strips_ifd :: "int list \<Rightarrow> int list \<Rightarrow> IFD" where
  "strips_ifd offsets nbytes =
     \<lparr> entries = [entry_of ''StripOffsets'' (NpArr UInt32 offsets),
                  entry_of ''StripByteCounts'' (NpArr UInt32 nbytes)] \<rparr>"

text \<open>
  The same with both arrays of type SHORT, as a directory holds them whose StripOffsets and
  StripByteCounts entries have the type code 3.
\<close>

definition short_array_entry :: "int \<Rightarrow> string \<Rightarrow> int list \<Rightarrow> IFDEntry" where
  "short_array_entry tg name vs =
     \<lparr> ent_tag = tg, ent_type = 3, ent_count = int (length vs), ent_bytes = 2,
       ent_offset = Some 0, ent_value = Some (NpArr UInt16 vs), tag_name = name,
       type_name = ''SHORT'', memory_usage = [] \<rparr>"

definition short_strips_ifd :: "int list \<Rightarrow> int list \<Rightarrow> IFD" where
  "short_strips_ifd offsets nbytes =
     \<lparr> entries = [short_array_entry 273 ''StripOffsets'' offsets,
                  short_array_entry 279 ''StripByteCounts'' nbytes] \<rparr>"

text \<open>
  Two declared values are the same when both are absent, or both are integer scalars of the
  same number (whatever their integer types), or both are integer arrays of the same
  elements.
\<close>

fun same_value :: "pyval \<Rightarrow> pyval \<Rightarrow> bool" where
  "same_value PyNone PyNone = True"
| "same_value (NpArr d xs) (NpArr d' ys) = (xs = ys)"
| "same_value (NpArr d xs) b = False"
| "same_value a (NpArr d ys) = False"
| "same_value a b = (case (as_int a, as_int b) of (Some x, Some y) \<Rightarrow> x = y | _ \<Rightarrow> False)"

text \<open>
  An integer array on one side and an integer scalar on the other that equals every element of
  the array: the two values are not the same, but numpy's comparison of the two, element by
  element, is true everywhere.
\<close>

fun broadcast_equal :: "pyval \<Rightarrow> pyval \<Rightarrow> bool" where
  "broadcast_equal (NpArr d xs) (NpArr d' ys) = False"
| "broadcast_equal (NpArr d xs) b =
     (case as_int b of Some y \<Rightarrow> list_all (\<lambda>x. x = y) xs | None \<Rightarrow> False)"
| "broadcast_equal a (NpArr d ys) =
     (case as_int a of Some x \<Rightarrow> list_all (\<lambda>y. x = y) ys | None \<Rightarrow> False)"
| "broadcast_equal a b = False"

text \<open>
  What the comparisons of \<^verbatim>\<open>get_samples\<close> accept, \<^verbatim>\<open>a == b\<close> and \<^verbatim>\<open>(a == b).all()\<close>: the same
  value, or an array against a scalar equal to each of its elements.
\<close>

definition elementwise_equal :: "pyval \<Rightarrow> pyval \<Rightarrow> bool" where
  "elementwise_equal a b = (same_value a b \<or> broadcast_equal a b)"

text \<open>
  \<open>pv_plain\<close>: the value is \<^verbatim>\<open>None\<close> or an integer scalar. \<open>bits_comparable a b\<close>: the two
  bits-per-sample values can be compared sample by sample: two arrays of the same length, an
  array and an integer scalar, or two plain values.
\<close>

definition pv_plain :: "pyval \<Rightarrow> bool" where
  "pv_plain a = (a = PyNone \<or> as_int a \<noteq> None)"

fun bits_comparable :: "pyval \<Rightarrow> pyval \<Rightarrow> bool" where
  "bits_comparable (NpArr d xs) (NpArr d' ys) = (length xs = length ys)"
| "bits_comparable (NpArr d xs) b = (as_int b \<noteq> None)"
| "bits_comparable a b = (pv_plain a \<and> pv_plain b)"

text \<open>
  \<open>layout_comparable v span w h p b\<close>: the values \<open>w\<close>, \<open>h\<close>, \<open>p\<close>, \<open>b\<close> that a later slice gives for
  its width, length, planar configuration and bits per sample, and the ends of its strips, are
  of the kinds for which the comparisons with the variables \<open>v\<close> of slice 0 give a truth value.
\<close>

definition layout_comparable ::
  "slice0 \<Rightarrow> pyval \<times> pyval \<Rightarrow> pyval \<Rightarrow> pyval \<Rightarrow> pyval \<Rightarrow> pyval \<Rightarrow> bool"
where
  "layout_comparable v span w h p b =
     (pv_plain (width v) \<and> pv_plain w \<and> pv_plain (length_px v) \<and> pv_plain h
      \<and> pv_plain (planar_config v) \<and> pv_plain p
      \<and> pv_plain (strip_length v) \<and> as_int (fst span) \<noteq> None \<and> as_int (snd span) \<noteq> None
      \<and> bits_comparable (bits_per_sample v) b)"

text \<open>The four tags whose values every later slice must share with slice 0.\<close>

definition layout_tags :: "string list" where
  "layout_tags = [''ImageWidth'', ''ImageLength'', ''PlanarConfiguration'', ''BitsPerSample'']"

text \<open>
  Entries and directories as they are decoded from the files below: a SHORT and a LONG of
  count 1 (stored in the value field), an array of LONGs (stored at \<open>off\<close>), and the
  directory of a slice with the seven entries ImageWidth, ImageLength, BitsPerSample,
  Compression, StripOffsets, StripByteCounts and PlanarConfiguration.
\<close>

definition short_entry :: "int \<Rightarrow> string \<Rightarrow> int \<Rightarrow> IFDEntry" where
  "short_entry tg name v =
     \<lparr> ent_tag = tg, ent_type = 3, ent_count = 1, ent_bytes = 2, ent_offset = None,
       ent_value = Some (NpInt UInt16 v), tag_name = name, type_name = ''SHORT'',
       memory_usage = [] \<rparr>"

definition long_entry :: "int \<Rightarrow> string \<Rightarrow> int \<Rightarrow> region list \<Rightarrow> IFDEntry" where
  "long_entry tg name v mu =
     \<lparr> ent_tag = tg, ent_type = 4, ent_count = 1, ent_bytes = 4, ent_offset = None,
       ent_value = Some (NpInt UInt32 v), tag_name = name, type_name = ''LONG'',
       memory_usage = mu \<rparr>"

definition long_array_entry :: "int \<Rightarrow> string \<Rightarrow> int \<Rightarrow> int list \<Rightarrow> region list \<Rightarrow> IFDEntry" where
  "long_array_entry tg name off vs mu =
     \<lparr> ent_tag = tg, ent_type = 4, ent_count = int (length vs), ent_bytes = 4,
       ent_offset = Some off, ent_value = Some (NpArr UInt32 vs), tag_name = name,
       type_name = ''LONG'',
       memory_usage = (off, off + 4 * int (length vs), name) # mu \<rparr>"

definition slice_ifd :: "int \<Rightarrow> int \<Rightarrow> IFDEntry \<Rightarrow> IFDEntry \<Rightarrow> IFD" where
  "slice_ifd w h offsets counts =
     \<lparr> entries =
         [short_entry 256 ''ImageWidth'' w, short_entry 257 ''ImageLength'' h,
          short_entry 258 ''BitsPerSample'' 8, short_entry 259 ''Compression'' 1,
          offsets, counts, short_entry 284 ''PlanarConfiguration'' 1] \<rparr>"

definition one_strip_ifd :: "int \<Rightarrow> int \<Rightarrow> int \<Rightarrow> int \<Rightarrow> IFD" where
  "one_strip_ifd w h off n =
     slice_ifd w h (long_entry 273 ''StripOffsets'' off [(off, off + n, ''strip'')])
       (long_entry 279 ''StripByteCounts'' n [])"

definition file_object :: "byte list \<Rightarrow> region list \<Rightarrow> IFD list \<Rightarrow> TIFFfile" where
  "file_object buf mu dirs =
     \<lparr> first_byte = 0, data = buf, file_memory_usage = mu, endian = Little, IFD0 = 8,
       IFDs = dirs, is_lsm = False, lsm_channel_names = None \<rparr>"

text \<open>
  Three slices of 2 x 2 pixels of 8 bits, one channel, not compressed, each in one strip of 4
  bytes; the strips lie one after the other at the end of the file (the bytes 1 to 12).
\<close>

definition three_slices :: "byte list" where
  "three_slices =
     [0x49, 0x49, 0x2A, 0x00, 0x08, 0x00, 0x00, 0x00, 0x07, 0x00, 0x00, 0x01, 0x03, 0x00, 0x01, 0x00,
      0x00, 0x00, 0x02, 0x00, 0x00, 0x00, 0x01, 0x01, 0x03, 0x00, 0x01, 0x00, 0x00, 0x00, 0x02, 0x00,
      0x00, 0x00, 0x02, 0x01, 0x03, 0x00, 0x01, 0x00, 0x00, 0x00, 0x08, 0x00, 0x00, 0x00, 0x03, 0x01,
      0x03, 0x00, 0x01, 0x00, 0x00, 0x00, 0x01, 0x00, 0x00, 0x00, 0x11, 0x01, 0x04, 0x00, 0x01, 0x00,
      0x00, 0x00, 0x16, 0x01, 0x00, 0x00, 0x17, 0x01, 0x04, 0x00, 0x01, 0x00, 0x00, 0x00, 0x04, 0x00,
      0x00, 0x00, 0x1C, 0x01, 0x03, 0x00, 0x01, 0x00, 0x00, 0x00, 0x01, 0x00, 0x00, 0x00, 0x62, 0x00,
      0x00, 0x00, 0x07, 0x00, 0x00, 0x01, 0x03, 0x00, 0x01, 0x00, 0x00, 0x00, 0x02, 0x00, 0x00, 0x00,
      0x01, 0x01, 0x03, 0x00, 0x01, 0x00, 0x00, 0x00, 0x02, 0x00, 0x00, 0x00, 0x02, 0x01, 0x03, 0x00,
      0x01, 0x00, 0x00, 0x00, 0x08, 0x00, 0x00, 0x00, 0x03, 0x01, 0x03, 0x00, 0x01, 0x00, 0x00, 0x00,
      0x01, 0x00, 0x00, 0x00, 0x11, 0x01, 0x04, 0x00, 0x01, 0x00, 0x00, 0x00, 0x1A, 0x01, 0x00, 0x00,
      0x17, 0x01, 0x04, 0x00, 0x01, 0x00, 0x00, 0x00, 0x04, 0x00, 0x00, 0x00, 0x1C, 0x01, 0x03, 0x00,
      0x01, 0x00, 0x00, 0x00, 0x01, 0x00, 0x00, 0x00, 0xBC, 0x00, 0x00, 0x00, 0x07, 0x00, 0x00, 0x01,
      0x03, 0x00, 0x01, 0x00, 0x00, 0x00, 0x02, 0x00, 0x00, 0x00, 0x01, 0x01, 0x03, 0x00, 0x01, 0x00,
      0x00, 0x00, 0x02, 0x00, 0x00, 0x00, 0x02, 0x01, 0x03, 0x00, 0x01, 0x00, 0x00, 0x00, 0x08, 0x00,
      0x00, 0x00, 0x03, 0x01, 0x03, 0x00, 0x01, 0x00, 0x00, 0x00, 0x01, 0x00, 0x00, 0x00, 0x11, 0x01,
      0x04, 0x00, 0x01, 0x00, 0x00, 0x00, 0x1E, 0x01, 0x00, 0x00, 0x17, 0x01, 0x04, 0x00, 0x01, 0x00,
      0x00, 0x00, 0x04, 0x00, 0x00, 0x00, 0x1C, 0x01, 0x03, 0x00, 0x01, 0x00, 0x00, 0x00, 0x01, 0x00,
      0x00, 0x00, 0x00, 0x00, 0x00, 0x00, 0x01, 0x02, 0x03, 0x04, 0x05, 0x06, 0x07, 0x08, 0x09, 0x0A,
      0x0B, 0x0C]"

text \<open>
  The file object that opening \<open>three_slices\<close> yields.
\<close>

definition three_slices_object :: TIFFfile where
  "three_slices_object =
     file_object three_slices
       [(290, 290, ''eof''), (0, 8, ''file header''), (8, 98, ''IFD1 entries (7)''), (98, 188, ''IFD2 entries (7)''), (188, 278, ''IFD3 entries (7)'')]
       [one_strip_ifd 2 2 278 4,
        one_strip_ifd 2 2 282 4,
        one_strip_ifd 2 2 286 4]"

text \<open>
  The same three slices, but the directory of index 2 declares the width 4 and the length 1.
\<close>

definition width_mismatch_file :: "byte list" where
  "width_mismatch_file =
     [0x49, 0x49, 0x2A, 0x00, 0x08, 0x00, 0x00, 0x00, 0x07, 0x00, 0x00, 0x01, 0x03, 0x00, 0x01, 0x00,
      0x00, 0x00, 0x02, 0x00, 0x00, 0x00, 0x01, 0x01, 0x03, 0x00, 0x01, 0x00, 0x00, 0x00, 0x02, 0x00,
      0x00, 0x00, 0x02, 0x01, 0x03, 0x00, 0x01, 0x00, 0x00, 0x00, 0x08, 0x00, 0x00, 0x00, 0x03, 0x01,
      0x03, 0x00, 0x01, 0x00, 0x00, 0x00, 0x01, 0x00, 0x00, 0x00, 0x11, 0x01, 0x04, 0x00, 0x01, 0x00,
      0x00, 0x00, 0x16, 0x01, 0x00, 0x00, 0x17, 0x01, 0x04, 0x00, 0x01, 0x00, 0x00, 0x00, 0x04, 0x00,
      0x00, 0x00, 0x1C, 0x01, 0x03, 0x00, 0x01, 0x00, 0x00, 0x00, 0x01, 0x00, 0x00, 0x00, 0x62, 0x00,
      0x00, 0x00, 0x07, 0x00, 0x00, 0x01, 0x03, 0x00, 0x01, 0x00, 0x00, 0x00, 0x02, 0x00, 0x00, 0x00,
      0x01, 0x01, 0x03, 0x00, 0x01, 0x00, 0x00, 0x00, 0x02, 0x00, 0x00, 0x00, 0x02, 0x01, 0x03, 0x00,
      0x01, 0x00, 0x00, 0x00, 0x08, 0x00, 0x00, 0x00, 0x03, 0x01, 0x03, 0x00, 0x01, 0x00, 0x00, 0x00,
      0x01, 0x00, 0x00, 0x00, 0x11, 0x01, 0x04, 0x00, 0x01, 0x00, 0x00, 0x00, 0x1A, 0x01, 0x00, 0x00,
      0x17, 0x01, 0x04, 0x00, 0x01, 0x00, 0x00, 0x00, 0x04, 0x00, 0x00, 0x00, 0x1C, 0x01, 0x03, 0x00,
      0x01, 0x00, 0x00, 0x00, 0x01, 0x00, 0x00, 0x00, 0xBC, 0x00, 0x00, 0x00, 0x07, 0x00, 0x00, 0x01,
      0x03, 0x00, 0x01, 0x00, 0x00, 0x00, 0x04, 0x00, 0x00, 0x00, 0x01, 0x01, 0x03, 0x00, 0x01, 0x00,
      0x00, 0x00, 0x01, 0x00, 0x00, 0x00, 0x02, 0x01, 0x03, 0x00, 0x01, 0x00, 0x00, 0x00, 0x08, 0x00,
      0x00, 0x00, 0x03, 0x01, 0x03, 0x00, 0x01, 0x00, 0x00, 0x00, 0x01, 0x00, 0x00, 0x00, 0x11, 0x01,
      0x04, 0x00, 0x01, 0x00, 0x00, 0x00, 0x1E, 0x01, 0x00, 0x00, 0x17, 0x01, 0x04, 0x00, 0x01, 0x00,
      0x00, 0x00, 0x04, 0x00, 0x00, 0x00, 0x1C, 0x01, 0x03, 0x00, 0x01, 0x00, 0x00, 0x00, 0x01, 0x00,
      0x00, 0x00, 0x00, 0x00, 0x00, 0x00, 0x01, 0x02, 0x03, 0x04, 0x05, 0x06, 0x07, 0x08, 0x09, 0x0A,
      0x0B, 0x0C]"

text \<open>
  The file object that opening \<open>width_mismatch_file\<close> yields.
\<close>

definition width_mismatch_object :: TIFFfile where
  "width_mismatch_object =
     file_object width_mismatch_file
       [(290, 290, ''eof''), (0, 8, ''file header''), (8, 98, ''IFD1 entries (7)''), (98, 188, ''IFD2 entries (7)''), (188, 278, ''IFD3 entries (7)'')]
       [one_strip_ifd 2 2 278 4,
        one_strip_ifd 2 2 282 4,
        one_strip_ifd 4 1 286 4]"

text \<open>
  Two slices; the second one is stored in two strips of 2 bytes with 2 unused bytes between
  them.
\<close>

definition gap_file :: "byte list" where
  "gap_file =
     [0x49, 0x49, 0x2A, 0x00, 0x08, 0x00, 0x00, 0x00, 0x07, 0x00, 0x00, 0x01, 0x03, 0x00, 0x01, 0x00,
      0x00, 0x00, 0x02, 0x00, 0x00, 0x00, 0x01, 0x01, 0x03, 0x00, 0x01, 0x00, 0x00, 0x00, 0x02, 0x00,
      0x00, 0x00, 0x02, 0x01, 0x03, 0x00, 0x01, 0x00, 0x00, 0x00, 0x08, 0x00, 0x00, 0x00, 0x03, 0x01,
      0x03, 0x00, 0x01, 0x00, 0x00, 0x00, 0x01, 0x00, 0x00, 0x00, 0x11, 0x01, 0x04, 0x00, 0x01, 0x00,
      0x00, 0x00, 0xCC, 0x00, 0x00, 0x00, 0x17, 0x01, 0x04, 0x00, 0x01, 0x00, 0x00, 0x00, 0x04, 0x00,
      0x00, 0x00, 0x1C, 0x01, 0x03, 0x00, 0x01, 0x00, 0x00, 0x00, 0x01, 0x00, 0x00, 0x00, 0x62, 0x00,
      0x00, 0x00, 0x07, 0x00, 0x00, 0x01, 0x03, 0x00, 0x01, 0x00, 0x00, 0x00, 0x02, 0x00, 0x00, 0x00,
      0x01, 0x01, 0x03, 0x00, 0x01, 0x00, 0x00, 0x00, 0x02, 0x00, 0x00, 0x00, 0x02, 0x01, 0x03, 0x00,
      0x01, 0x00, 0x00, 0x00, 0x08, 0x00, 0x00, 0x00, 0x03, 0x01, 0x03, 0x00, 0x01, 0x00, 0x00, 0x00,
      0x01, 0x00, 0x00, 0x00, 0x11, 0x01, 0x04, 0x00, 0x02, 0x00, 0x00, 0x00, 0xBC, 0x00, 0x00, 0x00,
      0x17, 0x01, 0x04, 0x00, 0x02, 0x00, 0x00, 0x00, 0xC4, 0x00, 0x00, 0x00, 0x1C, 0x01, 0x03, 0x00,
      0x01, 0x00, 0x00, 0x00, 0x01, 0x00, 0x00, 0x00, 0x00, 0x00, 0x00, 0x00, 0xD0, 0x00, 0x00, 0x00,
      0xD4, 0x00, 0x00, 0x00, 0x02, 0x00, 0x00, 0x00, 0x02, 0x00, 0x00, 0x00, 0x01, 0x02, 0x03, 0x04,
      0x05, 0x06, 0x00, 0x00, 0x07, 0x08]"

text \<open>
  The file object that opening \<open>gap_file\<close> yields.
\<close>

definition gap_object :: TIFFfile where
  "gap_object =
     file_object gap_file
       [(214, 214, ''eof''), (0, 8, ''file header''), (8, 98, ''IFD1 entries (7)''), (98, 188, ''IFD2 entries (7)'')]
       [one_strip_ifd 2 2 204 4,
        slice_ifd 2 2
          (long_array_entry 273 ''StripOffsets'' 188 [208, 212]
             [(208, 210, ''strip 0''), (212, 214, ''strip 1'')])
          (long_array_entry 279 ''StripByteCounts'' 196 [2, 2] [])]"

text \<open>
  Two slices whose data is stored in reverse order: the strip of slice 0 is at the bytes 192
  to 196, the strip of slice 1 before it, at the bytes 188 to 192.
\<close>

definition reversed_file :: "byte list" where
  "reversed_file =
     [0x49, 0x49, 0x2A, 0x00, 0x08, 0x00, 0x00, 0x00, 0x07, 0x00, 0x00, 0x01, 0x03, 0x00, 0x01, 0x00,
      0x00, 0x00, 0x02, 0x00, 0x00, 0x00, 0x01, 0x01, 0x03, 0x00, 0x01, 0x00, 0x00, 0x00, 0x02, 0x00,
      0x00, 0x00, 0x02, 0x01, 0x03, 0x00, 0x01, 0x00, 0x00, 0x00, 0x08, 0x00, 0x00, 0x00, 0x03, 0x01,
      0x03, 0x00, 0x01, 0x00, 0x00, 0x00, 0x01, 0x00, 0x00, 0x00, 0x11, 0x01, 0x04, 0x00, 0x01, 0x00,
      0x00, 0x00, 0xC0, 0x00, 0x00, 0x00, 0x17, 0x01, 0x04, 0x00, 0x01, 0x00, 0x00, 0x00, 0x04, 0x00,
      0x00, 0x00, 0x1C, 0x01, 0x03, 0x00, 0x01, 0x00, 0x00, 0x00, 0x01, 0x00, 0x00, 0x00, 0x62, 0x00,
      0x00, 0x00, 0x07, 0x00, 0x00, 0x01, 0x03, 0x00, 0x01, 0x00, 0x00, 0x00, 0x02, 0x00, 0x00, 0x00,
      0x01, 0x01, 0x03, 0x00, 0x01, 0x00, 0x00, 0x00, 0x02, 0x00, 0x00, 0x00, 0x02, 0x01, 0x03, 0x00,
      0x01, 0x00, 0x00, 0x00, 0x08, 0x00, 0x00, 0x00, 0x03, 0x01, 0x03, 0x00, 0x01, 0x00, 0x00, 0x00,
      0x01, 0x00, 0x00, 0x00, 0x11, 0x01, 0x04, 0x00, 0x01, 0x00, 0x00, 0x00, 0xBC, 0x00, 0x00, 0x00,
      0x17, 0x01, 0x04, 0x00, 0x01, 0x00, 0x00, 0x00, 0x04, 0x00, 0x00, 0x00, 0x1C, 0x01, 0x03, 0x00,
      0x01, 0x00, 0x00, 0x00, 0x01, 0x00, 0x00, 0x00, 0x00, 0x00, 0x00, 0x00, 0x01, 0x02, 0x03, 0x04,
      0x05, 0x06, 0x07, 0x08]"

text \<open>
  The file object that opening \<open>reversed_file\<close> yields.
\<close>

definition reversed_object :: TIFFfile where
  "reversed_object =
     file_object reversed_file
       [(196, 196, ''eof''), (0, 8, ''file header''), (8, 98, ''IFD1 entries (7)''), (98, 188, ''IFD2 entries (7)'')]
       [one_strip_ifd 2 2 192 4,
        one_strip_ifd 2 2 188 4]"

text \<open>
  One slice of 2 x 2 pixels with two interleaved channels of 8 bits (BitsPerSample 8, 8,
  SamplesPerPixel 2, RowsPerStrip 2, PlanarConfiguration 1, not compressed, one strip). The
  pixel bytes, at the end of the file, are A0 B0 A1 B1 A2 B2 A3 B3.
\<close>

definition interleaved_file :: "byte list" where
  "interleaved_file =
     [0x49, 0x49, 0x2A, 0x00, 0x08, 0x00, 0x00, 0x00, 0x09, 0x00, 0x00, 0x01, 0x03, 0x00, 0x01, 0x00,
      0x00, 0x00, 0x02, 0x00, 0x00, 0x00, 0x01, 0x01, 0x03, 0x00, 0x01, 0x00, 0x00, 0x00, 0x02, 0x00,
      0x00, 0x00, 0x02, 0x01, 0x03, 0x00, 0x02, 0x00, 0x00, 0x00, 0x7A, 0x00, 0x00, 0x00, 0x03, 0x01,
      0x03, 0x00, 0x01, 0x00, 0x00, 0x00, 0x01, 0x00, 0x00, 0x00, 0x11, 0x01, 0x04, 0x00, 0x01, 0x00,
      0x00, 0x00, 0x7E, 0x00, 0x00, 0x00, 0x15, 0x01, 0x03, 0x00, 0x01, 0x00, 0x00, 0x00, 0x02, 0x00,
      0x00, 0x00, 0x16, 0x01, 0x03, 0x00, 0x01, 0x00, 0x00, 0x00, 0x02, 0x00, 0x00, 0x00, 0x17, 0x01,
      0x04, 0x00, 0x01, 0x00, 0x00, 0x00, 0x08, 0x00, 0x00, 0x00, 0x1C, 0x01, 0x03, 0x00, 0x01, 0x00,
      0x00, 0x00, 0x01, 0x00, 0x00, 0x00, 0x00, 0x00, 0x00, 0x00, 0x08, 0x00, 0x08, 0x00, 0xA0, 0xB0,
      0xA1, 0xB1, 0xA2, 0xB2, 0xA3, 0xB3]"

text \<open>
  The file object that opening \<open>interleaved_file\<close> yields.
\<close>

definition interleaved_object :: TIFFfile where
  "interleaved_object =
     file_object interleaved_file
       [(134, 134, ''eof''), (0, 8, ''file header''), (8, 122, ''IFD1 entries (9)'')]
       [\<lparr> entries =
            [short_entry 256 ''ImageWidth'' 2, short_entry 257 ''ImageLength'' 2,
             \<lparr> ent_tag = 258, ent_type = 3, ent_count = 2, ent_bytes = 2,
               ent_offset = Some 122, ent_value = Some (NpArr UInt16 [8, 8]),
               tag_name = ''BitsPerSample'', type_name = ''SHORT'',
               memory_usage = [(122, 126, ''BitsPerSample'')] \<rparr>,
             short_entry 259 ''Compression'' 1,
             long_entry 273 ''StripOffsets'' 126 [(126, 134, ''strip'')],
             short_entry 277 ''SamplesPerPixel'' 2, short_entry 278 ''RowsPerStrip'' 2,
             long_entry 279 ''StripByteCounts'' 8 [],
             short_entry 284 ''PlanarConfiguration'' 1] \<rparr>]"

text \<open>
  The state of the loop of \<^verbatim>\<open>get_samples\<close> over the slices of \<open>width_mismatch_object\<close> after its
  first two slices, and the variables that slice 0 has set.
\<close>

definition width_mismatch_state :: loop_state where
  "width_mismatch_state =
     projr (slice_loop width_mismatch_object initial_state (take 2 (IFDs width_mismatch_object)))"

definition width_mismatch_vars :: slice0 where
  "width_mismatch_vars = the (vars width_mismatch_state)"

text \<open>
  A file object given by its directories alone (the loop over the slices reads the
  directories, not the pixels): slice 0 declares the width 512 and slice 1 the width 256.
\<close>

definition declared_widths_object :: TIFFfile where
  "declared_widths_object =
     file_object [] [] [one_strip_ifd 512 1 8 512, one_strip_ifd 256 1 520 256]"

text \<open>
  Two slices of 2 x 2 pixels of 8 bits, not compressed, each in one strip of 4 bytes (the
  bytes 1 to 8 at the end of the file). Slice 0 declares BitsPerSample 8, 8, 8 (three
  numbers of type SHORT at the byte 98), slice 1 declares BitsPerSample 8; neither declares
  SamplesPerPixel.
\<close>

definition broadcast_file :: "byte list" where
  "broadcast_file =
     [0x49, 0x49, 0x2A, 0x00, 0x08, 0x00, 0x00, 0x00, 0x07, 0x00, 0x00, 0x01, 0x03, 0x00, 0x01, 0x00,
      0x00, 0x00, 0x02, 0x00, 0x00, 0x00, 0x01, 0x01, 0x03, 0x00, 0x01, 0x00, 0x00, 0x00, 0x02, 0x00,
      0x00, 0x00, 0x02, 0x01, 0x03, 0x00, 0x03, 0x00, 0x00, 0x00, 0x62, 0x00, 0x00, 0x00, 0x03, 0x01,
      0x03, 0x00, 0x01, 0x00, 0x00, 0x00, 0x01, 0x00, 0x00, 0x00, 0x11, 0x01, 0x04, 0x00, 0x01, 0x00,
      0x00, 0x00, 0xC2, 0x00, 0x00, 0x00, 0x17, 0x01, 0x04, 0x00, 0x01, 0x00, 0x00, 0x00, 0x04, 0x00,
      0x00, 0x00, 0x1C, 0x01, 0x03, 0x00, 0x01, 0x00, 0x00, 0x00, 0x01, 0x00, 0x00, 0x00, 0x68, 0x00,
      0x00, 0x00, 0x08, 0x00, 0x08, 0x00, 0x08, 0x00, 0x07, 0x00, 0x00, 0x01, 0x03, 0x00, 0x01, 0x00,
      0x00, 0x00, 0x02, 0x00, 0x00, 0x00, 0x01, 0x01, 0x03, 0x00, 0x01, 0x00, 0x00, 0x00, 0x02, 0x00,
      0x00, 0x00, 0x02, 0x01, 0x03, 0x00, 0x01, 0x00, 0x00, 0x00, 0x08, 0x00, 0x00, 0x00, 0x03, 0x01,
      0x03, 0x00, 0x01, 0x00, 0x00, 0x00, 0x01, 0x00, 0x00, 0x00, 0x11, 0x01, 0x04, 0x00, 0x01, 0x00,
      0x00, 0x00, 0xC6, 0x00, 0x00, 0x00, 0x17, 0x01, 0x04, 0x00, 0x01, 0x00, 0x00, 0x00, 0x04, 0x00,
      0x00, 0x00, 0x1C, 0x01, 0x03, 0x00, 0x01, 0x00, 0x00, 0x00, 0x01, 0x00, 0x00, 0x00, 0x00, 0x00,
      0x00, 0x00, 0x01, 0x02, 0x03, 0x04, 0x05, 0x06, 0x07, 0x08]"

text \<open>
  The file object that opening \<open>broadcast_file\<close> yields.
\<close>

definition broadcast_object :: TIFFfile where
  "broadcast_object =
     file_object broadcast_file
       [(202, 202, ''eof''), (0, 8, ''file header''), (8, 98, ''IFD1 entries (7)''),
        (104, 194, ''IFD2 entries (7)'')]
       [\<lparr> entries =
            [short_entry 256 ''ImageWidth'' 2, short_entry 257 ''ImageLength'' 2,
             \<lparr> ent_tag = 258, ent_type = 3, ent_count = 3, ent_bytes = 2,
               ent_offset = Some 98, ent_value = Some (NpArr UInt16 [8, 8, 8]),
               tag_name = ''BitsPerSample'', type_name = ''SHORT'',
               memory_usage = [(98, 104, ''BitsPerSample'')] \<rparr>,
             short_entry 259 ''Compression'' 1,
             long_entry 273 ''StripOffsets'' 194 [(194, 198, ''strip'')],
             long_entry 279 ''StripByteCounts'' 4 [],
             short_entry 284 ''PlanarConfiguration'' 1] \<rparr>,
        one_strip_ifd 2 2 198 4]"

section \<open>Basic facts\<close>

lemma ebind_simps [simp]: "ebind (Inl e) f = Inl e" "ebind (Inr x) f = f x"
  by (simp_all add: ebind_def)

text \<open>
  The simplifier is kept out of the continuation of a bind until the bound value is known.
\<close>

lemma ebind_cong_weak [cong]: "m = m' \<Longrightarrow> ebind m f = ebind m' f"
  by simp

lemma emap_cong_weak [cong]: "xs = ys \<Longrightarrow> emap f xs = emap f ys"
  by simp

lemma efilter_cong_weak [cong]: "xs = ys \<Longrightarrow> efilter p xs = efilter p ys"
  by simp

lemma ebind_Inr_iff: "ebind m f = Inr y \<longleftrightarrow> (\<exists>x. m = Inr x \<and> f x = Inr y)"
  by (cases m) simp_all

lemma ebind_Inl_iff: "ebind m f = Inl e \<longleftrightarrow> m = Inl e \<or> (\<exists>x. m = Inr x \<and> f x = Inl e)"
  by (cases m) simp_all

lemmas read_defs =
  get_uint16_def get_uint32_def get_int32_def view_item_def py_slice_def clip_def
  native_int_def twos_def

section \<open>Reads and the declared byte order\<close>

text \<open>
  C6 (the code does not do what the claim says). The claim: typed reads honour the byte order
  that the header declares, so the bytes 01 02 at offset 0 read as 0x0102 under a big-endian
  header. The code records the declared order in \<^verbatim>\<open>self.endian\<close> and never consults it:
  every read is in the byte order of the host. On a little-endian host the two bytes before
  the big-endian file read as 0x0201, the magic number 00 2A of the well-formed big-endian
  header reads as 0x2A00 and the file is refused as having a wrong magic number; on a
  big-endian host the same happens to the little-endian file.
\<close>

theorem C6_reads_use_host_byte_order:
  "get_uint16 Little big_endian_file 0 = Inr 0x0201
   \<and> TIFFfile_init tiff6 Little big_endian_file ''r'' 2
       = Some (Inl (ValueError ''wrong magic number for TIFF file''))
   \<and> get_uint16 Big little_endian_file 0 = Inr 0x0102
   \<and> TIFFfile_init tiff6 Big little_endian_file ''r'' 2
       = Some (Inl (ValueError ''wrong magic number for TIFF file''))"
  by code_simp

section \<open>Type codes that do not resolve\<close>

lemma get_values_unresolved:
  "resolve_typ td t = None \<Longrightarrow> get_values td host buf offset t cnt = Inr None"
  by (simp add: get_values_def)

lemma get_value_unresolved:
  "resolve_typ td t = None \<Longrightarrow> get_value td host buf offset t = Inr None"
  by (simp add: get_value_def get_values_unresolved)

lemma IFDEntry_init_Inr:
  assumes "IFDEntry_init td host buf off = Inr e"
  shows "get_uint16 host buf off = Inr (ent_tag e)
       \<and> get_uint16 host buf (off + 2) = Inr (ent_type e)
       \<and> get_uint32 host buf (off + 4) = Inr (ent_count e)
       \<and> ent_bytes e = width_of_type td (ent_type e)
       \<and> entry_value td host buf off (ent_type e) (ent_count e) (ent_bytes e)
           = Inr (ent_offset e, ent_value e)
       \<and> entry_region (ent_offset e) (ent_bytes e) (ent_count e) (tag_name e)
           = Inr (memory_usage e)
       \<and> tag_name e = name_of_tag td (ent_tag e)
       \<and> type_name e = name_of_type td (ent_type e)"
  using assms
  by (auto simp: IFDEntry_init_def ebind_Inr_iff)

lemma entry_value_unresolved:
  assumes "entry_value td host buf off ty cn b = Inr (o', v)"
    and "resolve_typ td (TypeCode ty) = None"
  shows "v = None"
  using assms
  by (auto simp: entry_value_def ebind_Inr_iff get_values_unresolved get_value_unresolved
      split: if_splits)

lemma tiff6_unresolved_13: "resolve_typ tiff6 (TypeCode 13) = None"
  by (simp add: resolve_typ_def tiff6_def)

lemma type13_entry_decoded:
  "IFDEntry_init tiff6 Little type13_entry 0 =
     Inr \<lparr> ent_tag = 330, ent_type = 13, ent_count = 1, ent_bytes = 0,
           ent_offset = Some 16, ent_value = None, tag_name = ''TAG0x14a'',
           type_name = ''TYPE13'', memory_usage = [(16, 16, ''TAG0x14a'')] \<rparr>"
  by code_simp

text \<open>
  C7 (counterexample). The claim: a typed-values read with a type code that cannot be
  resolved fails with UnknownType and never returns \<^verbatim>\<open>None\<close>. Type code 13 is not in the
  tables; the read returns \<^verbatim>\<open>None\<close> and raises nothing.
\<close>

theorem C7_counterexample:
  "get_values tiff6 Little type13_entry 16 (TypeCode 13) 1 = Inr None"
  by (simp add: get_values_def resolve_typ_def tiff6_def)

text \<open>
  C7 (as amended). For every typed-values read with a type code whose element type or byte
  width cannot be resolved, \<^verbatim>\<open>get_values\<close> and \<^verbatim>\<open>get_value\<close> raise nothing and return
  \<^verbatim>\<open>None\<close> (after a line on stderr), and a directory entry built from such a type code is
  built without a value.
\<close>

theorem C7_unresolved_type_gives_None:
  "(resolve_typ td t = None \<longrightarrow>
      get_values td host buf offset t cnt = Inr None \<and> get_value td host buf offset t = Inr None)
   \<and> (IFDEntry_init td host buf off = Inr e \<longrightarrow> resolve_typ td (TypeCode (ent_type e)) = None \<longrightarrow>
      ent_value e = None)"
proof (intro conjI impI)
  assume "resolve_typ td t = None"
  then show "get_values td host buf offset t cnt = Inr None"
    by (rule get_values_unresolved)
next
  assume "resolve_typ td t = None"
  then show "get_value td host buf offset t = Inr None"
    by (rule get_value_unresolved)
next
  assume init: "IFDEntry_init td host buf off = Inr e"
    and un: "resolve_typ td (TypeCode (ent_type e)) = None"
  from IFDEntry_init_Inr [OF init]
  have "entry_value td host buf off (ent_type e) (ent_count e) (ent_bytes e)
          = Inr (ent_offset e, ent_value e)"
    by blast
  then show "ent_value e = None"
    using un by (rule entry_value_unresolved)
qed

theorem C7_unresolved_type_gives_None_witness:
  "resolve_typ tiff6 (TypeCode 13) = None
   \<and> get_values tiff6 Little type13_entry 16 (TypeCode 13) 1 = Inr None
   \<and> get_value tiff6 Little type13_entry 16 (TypeCode 13) = Inr None
   \<and> (\<exists>e. IFDEntry_init tiff6 Little type13_entry 0 = Inr e \<and> ent_type e = 13 \<and> ent_value e = None)"
  using C7_unresolved_type_gives_None
    [of tiff6 "TypeCode 13" Little type13_entry 16 1 0
        "\<lparr> ent_tag = 330, ent_type = 13, ent_count = 1, ent_bytes = 0,
           ent_offset = Some 16, ent_value = None, tag_name = ''TAG0x14a'',
           type_name = ''TYPE13'', memory_usage = [(16, 16, ''TAG0x14a'')] \<rparr>"]
    tiff6_unresolved_13 type13_entry_decoded
  by simp

section \<open>Inline and out-of-line values of an entry\<close>

lemma clip_le: "clip n i \<le> n"
  by (auto simp: clip_def)

lemma py_slice_length_le: "0 \<le> w \<Longrightarrow> int (length (py_slice xs a (a + w))) \<le> w"
  by (auto simp: py_slice_def clip_def)

lemma py_slice_length_exact:
  "0 \<le> a \<Longrightarrow> a \<le> b \<Longrightarrow> b \<le> int (length xs) \<Longrightarrow> length (py_slice xs a b) = nat (b - a)"
  by (auto simp: py_slice_def clip_def)

lemma le_int_bounds: "0 \<le> le_int bs \<and> le_int bs < 256 ^ length bs"
proof (induction bs)
  case Nil
  show ?case by simp
next
  case (Cons b bs)
  have "0 \<le> uint b" "uint b < 256"
    using uint_lt2p [of b] by simp_all
  with Cons show ?case by simp
qed

lemma native_int_bounds: "0 \<le> native_int host bs \<and> native_int host bs < 256 ^ length bs"
  using le_int_bounds [of bs] le_int_bounds [of "rev bs"]
  by (cases host) (simp_all add: native_int_def)

lemma view_item_length:
  assumes "view_item buf off w = Inr s" "0 < w"
  shows "length s = w"
proof -
  let ?s = "py_slice buf off (off + int w)"
  from assms have s: "s = ?s" and m: "length ?s mod w = 0" and ne: "?s \<noteq> []"
    by (auto simp: view_item_def Let_def split: if_splits)
  have "int (length ?s) \<le> int w"
    by (rule py_slice_length_le) simp
  then have "length ?s \<le> w" by simp
  moreover from ne have "0 < length ?s" by simp
  ultimately have "length ?s = w"
    using m by (metis mod_less nat_less_le not_gr_zero)
  with s show ?thesis by simp
qed

lemma get_uint32_bounds:
  assumes "get_uint32 host buf off = Inr v"
  shows "0 \<le> v \<and> v < 2 ^ 32"
proof -
  from assms obtain s where s: "view_item buf off 4 = Inr s" and v: "v = native_int host s"
    by (auto simp: get_uint32_def ebind_Inr_iff)
  from view_item_length [OF s] have "length s = 4" by simp
  with native_int_bounds [of host s] v show ?thesis by simp
qed

lemma get_int32_bounds:
  assumes "get_int32 host buf off = Inr v"
  shows "- (2 ^ 31) \<le> v \<and> v < 2 ^ 31"
proof -
  from assms obtain s where s: "view_item buf off 4 = Inr s" and v: "v = twos 32 (native_int host s)"
    by (auto simp: get_int32_def ebind_Inr_iff)
  from view_item_length [OF s] have "length s = 4" by simp
  with native_int_bounds [of host s] v show ?thesis by (auto simp: twos_def)
qed

text \<open>
  The signed and the unsigned read of a 4-byte field give the same number when the field is
  below \<open>2 ^ 31\<close>.
\<close>

lemma get_int32_unsigned:
  assumes "get_int32 host buf off = Inr q"
  shows "\<exists>p. get_uint32 host buf off = Inr p \<and> 0 \<le> p \<and> (p < 2 ^ 31 \<longrightarrow> q = p)"
proof -
  from assms obtain s where s: "view_item buf off 4 = Inr s" and q: "q = twos 32 (native_int host s)"
    by (auto simp: get_int32_def ebind_Inr_iff)
  from view_item_length [OF s] have "length s = 4" by simp
  with native_int_bounds [of host s] have "0 \<le> native_int host s" by simp
  with s q show ?thesis
    by (simp add: get_uint32_def twos_def)
qed

lemma wrap_Int64_id:
  assumes "- (2 ^ 63) \<le> z" "z < 2 ^ 63"
  shows "wrap Int64 z = z"
proof -
  from assms have "(z + 2 ^ 63) mod 2 ^ 64 = z + 2 ^ 63"
    by (intro mod_pos_pos_trivial) simp_all
  then show ?thesis by (simp add: wrap_def)
qed

lemma entry_region_None: "entry_region None b cn nm = Inr []"
  by (simp add: entry_region_def)

lemma entry_region_Some:
  assumes "- (2 ^ 31) \<le> off'" "off' < 2 ^ 31" "0 \<le> cn" "cn < 2 ^ 32" "0 \<le> b" "b \<le> 8"
  shows "entry_region (Some off') b cn nm = Inr [(off', off' + b * cn, nm)]"
proof -
  define z where "z = b * cn"
  have "z \<le> 8 * cn" using assms by (simp add: z_def mult_right_mono)
  moreover have "0 \<le> z" using assms by (simp add: z_def)
  ultimately have bc: "0 \<le> z" "z < 2 ^ 35" using assms by simp_all
  then have w1: "wrap Int64 z = z"
    by (intro wrap_Int64_id) simp_all
  from bc assms have w2: "wrap Int64 (off' + z) = off' + z"
    by (intro wrap_Int64_id) simp_all
  show ?thesis
    using w1 w2
    by (simp add: entry_region_def np_mul_def np_add_def np_binop_def promote_def signed_of_def
        region_of_def as_int_def z_def)
qed

lemma entry_value_inline:
  assumes "entry_value td host buf off ty cn b = Inr (o', v)" "cn = 1" "1 \<le> b" "b \<le> 4"
  shows "o' = None \<and> get_value td host buf (off + 8) (TypeCode ty) = Inr v"
  using assms by (auto simp: entry_value_def ebind_Inr_iff)

lemma entry_value_offset:
  assumes "entry_value td host buf off ty cn b = Inr (o', v)" "\<not> (cn = 1 \<and> 1 \<le> b \<and> b \<le> 4)"
  shows "\<exists>p. get_int32 host buf (off + 8) = Inr p \<and> o' = Some p
             \<and> get_values td host buf p (TypeCode ty) cn = Inr v"
  using assms by (auto simp: entry_value_def ebind_Inr_iff)

lemma resolve_typ_code:
  "type2dtype td ty = Some dt \<Longrightarrow> type2bytes td ty = Some w \<Longrightarrow> resolve_typ td (TypeCode ty) = Some (dt, w)"
  by (simp add: resolve_typ_def)

lemma get_values_resolved:
  assumes "get_values td host buf p t cn = Inr v" "resolve_typ td t = Some (dt, w)"
  shows "\<exists>a. view_as host dt (py_slice buf p (p + w * cn)) = Inr a \<and> v = Some a"
  using assms by (auto simp: get_values_def ebind_Inr_iff)

lemma get_value_resolved:
  assumes "get_value td host buf p t = Inr v" "resolve_typ td t = Some (dt, w)"
  shows "\<exists>a x. view_as host dt (py_slice buf p (p + w)) = Inr a \<and> np_index a 0 = Inr x \<and> v = Some x"
  using assms by (auto simp: get_value_def get_values_def ebind_Inr_iff)

lemma length_chunks: "length (chunks w s) = length s div w"
  by (simp add: chunks_def)

lemma view_as_len:
  assumes "view_as host dt s = Inr a"
  shows "np_len a = length s div itemsize dt"
  using assms by (auto simp: view_as_def np_len_def length_chunks split: if_splits)


lemma width_of_type_pos:
  "1 \<le> width_of_type td ty \<Longrightarrow> type2bytes td ty = Some (width_of_type td ty)"
  by (auto simp: width_of_type_def split: option.splits)

lemma resolve_typ_width:
  "resolve_typ td (TypeCode ty) = Some (dt, w) \<Longrightarrow> type2dtype td ty = Some dt \<and> width_of_type td ty = w"
  by (auto simp: resolve_typ_def width_of_type_def split: option.splits)

lemma itemsize_pos: "0 < itemsize dt"
  by (cases dt) simp_all


text \<open>
  C2 (as amended). For every directory entry that decodes, with a width from the type table
  (at most 8, and 0 for a type code without a width): if the count is 1 and the width is
  between 1 and 4, then the offset is recorded as none, no memory region is registered, and
  when the type code has an element type the value is the first element of the typed view of
  the width bytes at the entry's value field. Otherwise the 4-byte field is the byte offset
  (an unsigned number \<open>p\<close>; the statement is about the fields below \<open>2 ^ 31\<close>): the offset
  recorded is \<open>p\<close>, one region [p, p + width * count) is registered under the entry's tag
  name, and when the type code resolves the value is the typed view of the bytes of the buffer
  in that range, of count elements when the range lies inside the buffer and the element type
  has the table's width; when the type code does not resolve the entry has no value.
\<close>

theorem C2_inline_or_offset:
  assumes init: "IFDEntry_init td host buf off = Inr e"
    and width: "0 \<le> ent_bytes e" "ent_bytes e \<le> 8"
  shows "(ent_count e = 1 \<and> 1 \<le> ent_bytes e \<and> ent_bytes e \<le> 4 \<longrightarrow>
            ent_offset e = None \<and> memory_usage e = [] \<and>
            (\<forall>dt. type2dtype td (ent_type e) = Some dt \<longrightarrow>
               (\<exists>a x. view_as host dt (py_slice buf (off + 8) (off + 8 + ent_bytes e)) = Inr a
                      \<and> np_index a 0 = Inr x \<and> ent_value e = Some x)))
       \<and> (\<not> (ent_count e = 1 \<and> 1 \<le> ent_bytes e \<and> ent_bytes e \<le> 4) \<longrightarrow>
            (\<exists>p. get_uint32 host buf (off + 8) = Inr p
               \<and> (resolve_typ td (TypeCode (ent_type e)) = None \<longrightarrow> ent_value e = None)
               \<and> (p < 2 ^ 31 \<longrightarrow>
                    ent_offset e = Some p
                    \<and> memory_usage e = [(p, p + ent_bytes e * ent_count e, tag_name e)]
                    \<and> (\<forall>dt w. resolve_typ td (TypeCode (ent_type e)) = Some (dt, w) \<longrightarrow>
                         (\<exists>a. view_as host dt (py_slice buf p (p + ent_bytes e * ent_count e)) = Inr a
                              \<and> ent_value e = Some a
                              \<and> (p + ent_bytes e * ent_count e \<le> int (length buf)
                                   \<and> int (itemsize dt) = ent_bytes e
                                   \<longrightarrow> np_len a = nat (ent_count e)))))))"
proof -
  let ?ty = "ent_type e" and ?cn = "ent_count e" and ?b = "ent_bytes e"
  from IFDEntry_init_Inr [OF init]
  have cnt: "get_uint32 host buf (off + 4) = Inr ?cn"
    and b: "?b = width_of_type td ?ty"
    and val: "entry_value td host buf off ?ty ?cn ?b = Inr (ent_offset e, ent_value e)"
    and reg: "entry_region (ent_offset e) ?b ?cn (tag_name e) = Inr (memory_usage e)"
    by blast+
  from get_uint32_bounds [OF cnt] have cn: "0 \<le> ?cn" "?cn < 2 ^ 32" by simp_all
  have inline: "ent_offset e = None \<and> memory_usage e = [] \<and>
            (\<forall>dt. type2dtype td ?ty = Some dt \<longrightarrow>
               (\<exists>a x. view_as host dt (py_slice buf (off + 8) (off + 8 + ?b)) = Inr a
                      \<and> np_index a 0 = Inr x \<and> ent_value e = Some x))"
    if c: "?cn = 1" "1 \<le> ?b" "?b \<le> 4"
  proof -
    from entry_value_inline [OF val c]
    have none: "ent_offset e = None"
      and gv: "get_value td host buf (off + 8) (TypeCode ?ty) = Inr (ent_value e)"
      by simp_all
    from reg none have mu: "memory_usage e = []"
      by (simp add: entry_region_None)
    have "\<exists>a x. view_as host dt (py_slice buf (off + 8) (off + 8 + ?b)) = Inr a
                \<and> np_index a 0 = Inr x \<and> ent_value e = Some x"
      if dt: "type2dtype td ?ty = Some dt" for dt
    proof -
      from c b have "type2bytes td ?ty = Some ?b"
        using width_of_type_pos [of td ?ty] by simp
      with dt have "resolve_typ td (TypeCode ?ty) = Some (dt, ?b)"
        by (rule resolve_typ_code)
      from get_value_resolved [OF gv this] show ?thesis .
    qed
    with none mu show ?thesis by blast
  qed
  have offset: "\<exists>p. get_uint32 host buf (off + 8) = Inr p
               \<and> (resolve_typ td (TypeCode ?ty) = None \<longrightarrow> ent_value e = None)
               \<and> (p < 2 ^ 31 \<longrightarrow>
                    ent_offset e = Some p
                    \<and> memory_usage e = [(p, p + ?b * ?cn, tag_name e)]
                    \<and> (\<forall>dt w. resolve_typ td (TypeCode ?ty) = Some (dt, w) \<longrightarrow>
                         (\<exists>a. view_as host dt (py_slice buf p (p + ?b * ?cn)) = Inr a
                              \<and> ent_value e = Some a
                              \<and> (p + ?b * ?cn \<le> int (length buf) \<and> int (itemsize dt) = ?b
                                   \<longrightarrow> np_len a = nat ?cn))))"
    if c: "\<not> (?cn = 1 \<and> 1 \<le> ?b \<and> ?b \<le> 4)"
  proof -
    from entry_value_offset [OF val c] obtain q
      where q: "get_int32 host buf (off + 8) = Inr q" and some: "ent_offset e = Some q"
        and gv: "get_values td host buf q (TypeCode ?ty) ?cn = Inr (ent_value e)"
      by blast
    from get_int32_unsigned [OF q] obtain p
      where p: "get_uint32 host buf (off + 8) = Inr p" and p0: "0 \<le> p"
        and same: "p < 2 ^ 31 \<longrightarrow> q = p"
      by blast
    have un: "resolve_typ td (TypeCode ?ty) = None \<longrightarrow> ent_value e = None"
      using val by (auto intro: entry_value_unresolved)
    have below: "ent_offset e = Some p
                 \<and> memory_usage e = [(p, p + ?b * ?cn, tag_name e)]
                 \<and> (\<forall>dt w. resolve_typ td (TypeCode ?ty) = Some (dt, w) \<longrightarrow>
                      (\<exists>a. view_as host dt (py_slice buf p (p + ?b * ?cn)) = Inr a
                           \<and> ent_value e = Some a
                           \<and> (p + ?b * ?cn \<le> int (length buf) \<and> int (itemsize dt) = ?b
                                \<longrightarrow> np_len a = nat ?cn)))"
      if lt: "p < 2 ^ 31"
    proof -
      from same lt have qp: "q = p" by simp
      from some qp have off: "ent_offset e = Some p" by simp
      from p0 lt have pb: "- (2 ^ 31) \<le> p" "p < 2 ^ 31" by simp_all
      from reg off entry_region_Some [OF pb cn width, of "tag_name e"]
      have mu: "memory_usage e = [(p, p + ?b * ?cn, tag_name e)]" by simp
      have res: "\<exists>a. view_as host dt (py_slice buf p (p + ?b * ?cn)) = Inr a
                         \<and> ent_value e = Some a
                         \<and> (p + ?b * ?cn \<le> int (length buf) \<and> int (itemsize dt) = ?b
                              \<longrightarrow> np_len a = nat ?cn)"
        if r: "resolve_typ td (TypeCode ?ty) = Some (dt, w)" for dt w
      proof -
        from resolve_typ_width [OF r] b have w: "w = ?b" by simp
        from get_values_resolved [OF gv r] w qp obtain a
          where a: "view_as host dt (py_slice buf p (p + ?b * ?cn)) = Inr a"
            and v: "ent_value e = Some a"
          by blast
        have "np_len a = nat ?cn"
          if inb: "p + ?b * ?cn \<le> int (length buf)" "int (itemsize dt) = ?b"
        proof -
          have nonneg: "0 \<le> ?b * ?cn" using width cn by simp
          with inb p0 have "length (py_slice buf p (p + ?b * ?cn)) = nat (?b * ?cn)"
            by (subst py_slice_length_exact) simp_all
          with view_as_len [OF a] have "np_len a = nat (?b * ?cn) div itemsize dt" by simp
          also have "nat (?b * ?cn) = itemsize dt * nat ?cn"
            using inb(2) cn by (metis nat_int nat_mult_distrib of_nat_0_le_iff)
          also have "itemsize dt * nat ?cn div itemsize dt = nat ?cn"
            using itemsize_pos [of dt] by simp
          finally show ?thesis .
        qed
        with a v show ?thesis by blast
      qed
      from res have res': "\<forall>dt w. resolve_typ td (TypeCode ?ty) = Some (dt, w) \<longrightarrow>
                      (\<exists>a. view_as host dt (py_slice buf p (p + ?b * ?cn)) = Inr a
                           \<and> ent_value e = Some a
                           \<and> (p + ?b * ?cn \<le> int (length buf) \<and> int (itemsize dt) = ?b
                                \<longrightarrow> np_len a = nat ?cn))"
        by (intro allI impI)
      show ?thesis
        by (intro conjI) (fact off mu res')+
    qed
    show ?thesis
    proof (rule exI [of _ p], intro conjI)
      show "get_uint32 host buf (off + 8) = Inr p" by (fact p)
      show "resolve_typ td (TypeCode ?ty) = None \<longrightarrow> ent_value e = None" by (fact un)
      show "p < 2 ^ 31 \<longrightarrow>
              ent_offset e = Some p
              \<and> memory_usage e = [(p, p + ?b * ?cn, tag_name e)]
              \<and> (\<forall>dt w. resolve_typ td (TypeCode ?ty) = Some (dt, w) \<longrightarrow>
                   (\<exists>a. view_as host dt (py_slice buf p (p + ?b * ?cn)) = Inr a
                        \<and> ent_value e = Some a
                        \<and> (p + ?b * ?cn \<le> int (length buf) \<and> int (itemsize dt) = ?b
                             \<longrightarrow> np_len a = nat ?cn)))"
        using below by (rule impI)
    qed
  qed
  from inline offset show ?thesis by blast
qed

lemma inline_entry_decoded:
  "IFDEntry_init tiff6 Little inline_entry 0 =
     Inr \<lparr> ent_tag = 256, ent_type = 3, ent_count = 1, ent_bytes = 2,
           ent_offset = None, ent_value = Some (NpInt UInt16 640), tag_name = ''ImageWidth'',
           type_name = ''SHORT'', memory_usage = [] \<rparr>"
  by code_simp

lemma rational_entry_decoded:
  "IFDEntry_init tiff6 Little rational_entry 0 =
     Inr \<lparr> ent_tag = 282, ent_type = 5, ent_count = 1, ent_bytes = 8,
           ent_offset = Some 12,
           ent_value = Some (NpOtherArr Rational [0x48, 0, 0, 0, 1, 0, 0, 0]),
           tag_name = ''TAG0x11a'', type_name = ''RATIONAL'',
           memory_usage = [(12, 20, ''TAG0x11a'')] \<rparr>"
  by code_simp

lemma rational_entry_field: "get_uint32 Little rational_entry 8 = Inr 12"
  by code_simp

text \<open>
  C2 (counterexample). The claim: an entry that is not inline has as its value a typed view
  of count elements at the offset of its value field. An entry of the unknown type code 16
  with count 2 is not inline (its width resolves to 0); it decodes, registers the empty
  region [12, 12) and has no value.
\<close>

theorem C2_counterexample:
  "IFDEntry_init tiff6 Little long8_entry 0 =
     Inr \<lparr> ent_tag = 700, ent_type = 16, ent_count = 2, ent_bytes = 0,
           ent_offset = Some 12, ent_value = None, tag_name = ''TAG0x2bc'',
           type_name = ''TYPE16'', memory_usage = [(12, 12, ''TAG0x2bc'')] \<rparr>"
  by code_simp


text \<open>
  The amended C2 at two entries: a SHORT of count 1 (inline) and a RATIONAL of count 1
  (8 bytes wide, read through the offset 12).
\<close>

theorem C2_inline_or_offset_witness:
  "(\<exists>e. IFDEntry_init tiff6 Little inline_entry 0 = Inr e \<and> ent_count e = 1 \<and> ent_bytes e = 2
        \<and> ent_offset e = None \<and> memory_usage e = [] \<and> ent_value e = Some (NpInt UInt16 640))
   \<and> (\<exists>e a. IFDEntry_init tiff6 Little rational_entry 0 = Inr e \<and> ent_count e = 1 \<and> ent_bytes e = 8
        \<and> ent_offset e = Some 12 \<and> memory_usage e = [(12, 20, ''TAG0x11a'')]
        \<and> ent_value e = Some a \<and> np_len a = 1)"
  using
    C2_inline_or_offset [OF inline_entry_decoded]
    C2_inline_or_offset [OF rational_entry_decoded]
    inline_entry_decoded rational_entry_decoded rational_entry_field
  by (simp add: np_len_def)

section \<open>The directory chain\<close>

lemma walk_chain_follows:
  assumes "follows td host buf off ps"
  shows "\<exists>mu'. walk_chain td host buf off acc mu = Some (Inr (acc @ map (ifd_at td host buf) ps, mu'))"
  using assms
proof (induction ps arbitrary: off acc mu)
  case Nil
  then show ?case by (simp add: walk_chain.simps)
next
  case (Cons p ps)
  from Cons.prems obtain ifd n nxt
    where off: "off = p" "p \<noteq> 0"
      and rd: "read_ifd td host buf p = Inr (ifd, n, nxt)"
      and nxt: "follows td host buf nxt ps"
    by (auto split: sum.splits)
  from rd have at: "ifd_at td host buf p = ifd" by (simp add: ifd_at_def)
  from Cons.IH [OF nxt] obtain mu' where
    "walk_chain td host buf nxt (acc @ [ifd])
        (mu @ [(p, p + 2 + n * 12 + 4, ifd_label (length acc + 1) (length (entries ifd)))])
      = Some (Inr ((acc @ [ifd]) @ map (ifd_at td host buf) ps, mu'))"
    by blast
  with off rd at show ?case
    by (subst walk_chain.simps) simp
qed

lemma walk_chain_cycle:
  assumes cyc: "cyclic td host buf ps" and start: "off \<in> set ps"
  shows "walk_chain td host buf off acc mu = None"
proof (rule ccontr)
  assume "walk_chain td host buf off acc mu \<noteq> None"
  then obtain r where r: "walk_chain td host buf off acc mu = Some r" by blast
  have "\<not> (td = td \<and> host = host \<and> buf = buf \<and> off \<in> set ps)"
  proof (rule walk_chain.raw_induct
      [where P = "\<lambda>td' host' buf' off' acc' mu' r'.
                    \<not> (td' = td \<and> host' = host \<and> buf' = buf \<and> off' \<in> set ps)", OF _ r])
    fix f td' host' buf' off' acc' mu' r'
    assume IH: "\<And>td' host' buf' off' acc' mu' r'. f td' host' buf' off' acc' mu' = Some r' \<Longrightarrow>
                  \<not> (td' = td \<and> host' = host \<and> buf' = buf \<and> off' \<in> set ps)"
      and eq: "(if off' = 0 then Some (Inr (acc', mu'))
        else case read_ifd td' host' buf' off' of Inl e \<Rightarrow> Some (Inl e)
             | Inr (ifd, n, nxt) \<Rightarrow>
                 f td' host' buf' nxt (acc' @ [ifd])
                  (mu' @ [(off', off' + 2 + n * 12 + 4,
                           ifd_label (length acc' + 1) (length (entries ifd)))])) = Some r'"
    show "\<not> (td' = td \<and> host' = host \<and> buf' = buf \<and> off' \<in> set ps)"
    proof
      assume "td' = td \<and> host' = host \<and> buf' = buf \<and> off' \<in> set ps"
      then have same: "td' = td" "host' = host" "buf' = buf" and mem: "off' \<in> set ps"
        by simp_all
      from cyc mem have c: "off' \<noteq> 0 \<and>
          (case read_ifd td host buf off' of Inl e \<Rightarrow> False
           | Inr (ifd, n, nxt) \<Rightarrow> nxt \<in> set ps)"
        by (simp add: cyclic_def list_all_iff)
      then have nz: "off' \<noteq> 0" by simp
      from c obtain ifd n nxt
        where rd: "read_ifd td host buf off' = Inr (ifd, n, nxt)" and nx: "nxt \<in> set ps"
        by (cases "read_ifd td host buf off'") auto
      from eq nz rd same
      have "f td host buf nxt (acc' @ [ifd])
              (mu' @ [(off', off' + 2 + n * 12 + 4,
                       ifd_label (length acc' + 1) (length (entries ifd)))]) = Some r'"
        by simp
      from IH [OF this] nx show False by simp
    qed
  qed
  with start show False by simp
qed

lemma TIFFfile_init_header_ok:
  assumes "header_ok host buf fb off"
  shows "TIFFfile_init td host buf ''r'' fb =
     (case walk_chain td host buf (fb + off) []
             [(int (length buf), int (length buf), ''eof''), (fb, fb + 8, ''file header'')] of
        None \<Rightarrow> None
      | Some (Inl e) \<Rightarrow> Some (Inl e)
      | Some (Inr (lst, mu)) \<Rightarrow>
          Some (Inr \<lparr> first_byte = fb, data = buf, file_memory_usage = mu,
                      endian = (if get_uint16 host buf fb = Inr 0x4949 then Little else Big),
                      IFD0 = fb + off, IFDs = lst, is_lsm = False,
                      lsm_channel_names = None \<rparr>))"
  using assms
  by (auto simp: header_ok_def TIFFfile_init_def split: sum.splits option.splits)

text \<open>
  C1. For every file with a header that the constructor accepts and whose directory chain
  consists of the directories at the offsets \<open>ps\<close>, linked by nonzero next-directory offsets
  and ended by the next-directory offset 0 (\<open>follows\<close>), opening the file returns, and the
  directory list it produces has exactly as many directories as the chain, the directory of
  index \<open>i\<close> being the one decoded at the \<open>i\<close>-th offset of the chain: index 0 is the first
  directory and each further index follows the next-offset link.
\<close>

theorem C1_chain_in_file_order:
  assumes "header_ok host buf fb off" and "follows td host buf (fb + off) ps"
  shows "\<exists>t. TIFFfile_init td host buf ''r'' fb = Some (Inr t)
           \<and> IFDs t = map (ifd_at td host buf) ps
           \<and> length (IFDs t) = length ps
           \<and> (\<forall>i<length ps. IFDs t ! i = ifd_at td host buf (ps ! i))"
proof -
  from walk_chain_follows [OF assms(2), of "[]"] obtain mu' where
    "walk_chain td host buf (fb + off) []
        [(int (length buf), int (length buf), ''eof''), (fb, fb + 8, ''file header'')]
      = Some (Inr (map (ifd_at td host buf) ps, mu'))"
    by auto
  then show ?thesis
    by (simp add: TIFFfile_init_header_ok [OF assms(1)])
qed

lemma two_directories_header: "header_ok Little two_directories 0 8"
  by code_simp

lemma two_directories_first:
  "read_ifd tiff6 Little two_directories 8 =
     Inr (\<lparr> entries = [\<lparr> ent_tag = 256, ent_type = 3, ent_count = 1, ent_bytes = 2,
                          ent_offset = None, ent_value = Some (NpInt UInt16 5),
                          tag_name = ''ImageWidth'', type_name = ''SHORT'',
                          memory_usage = [] \<rparr>] \<rparr>, 1, 26)"
  by code_simp

lemma two_directories_second:
  "read_ifd tiff6 Little two_directories 26 =
     Inr (\<lparr> entries = [\<lparr> ent_tag = 256, ent_type = 3, ent_count = 1, ent_bytes = 2,
                          ent_offset = None, ent_value = Some (NpInt UInt16 7),
                          tag_name = ''ImageWidth'', type_name = ''SHORT'',
                          memory_usage = [] \<rparr>] \<rparr>, 1, 0)"
  by code_simp

lemma two_directories_follows: "follows tiff6 Little two_directories 8 [8, 26]"
  by (simp add: two_directories_first two_directories_second)

text \<open>C1 at the file of two directories (ImageWidth 5, then ImageWidth 7).\<close>

theorem C1_chain_in_file_order_witness:
  "header_ok Little two_directories 0 8 \<and> follows tiff6 Little two_directories (0 + 8) [8, 26]
   \<and> (\<exists>t. TIFFfile_init tiff6 Little two_directories ''r'' 0 = Some (Inr t)
          \<and> length (IFDs t) = 2
          \<and> map (\<lambda>ifd. map ent_value (entries ifd)) (IFDs t)
              = [[Some (NpInt UInt16 5)], [Some (NpInt UInt16 7)]])"
  using C1_chain_in_file_order [of Little two_directories 0 8 tiff6 "[8, 26]"]
    two_directories_header two_directories_follows
  by (auto simp: ifd_at_def two_directories_first two_directories_second)

lemma cyclic_file_header: "header_ok Little cyclic_file 0 8"
  by code_simp

lemma cyclic_file_at_8: "read_ifd tiff6 Little cyclic_file 8 = Inr (\<lparr> entries = [] \<rparr>, 0, 14)"
  by code_simp

lemma cyclic_file_at_14: "read_ifd tiff6 Little cyclic_file 14 = Inr (\<lparr> entries = [] \<rparr>, 0, 8)"
  by code_simp

lemma cyclic_file_cyclic: "cyclic tiff6 Little cyclic_file [8, 14]"
  by (simp add: cyclic_def cyclic_file_at_8 cyclic_file_at_14)

text \<open>
  C8 (counterexample). The claim: the walk is bounded, and for an input whose next-directory
  offsets form a cycle, opening the file terminates and fails with FormatError. For the file
  whose two directories name each other, the constructor does not return: neither a file
  nor an error. (The model's lists are unbounded; the program runs until memory is
  exhausted.)
\<close>

theorem C8_counterexample:
  "TIFFfile_init tiff6 Little cyclic_file ''r'' 0 = None"
  using walk_chain_cycle [OF cyclic_file_cyclic, of 8]
  by (simp add: TIFFfile_init_header_ok [OF cyclic_file_header])

text \<open>
  C8 (as amended). The walk has no bound: there is no maximum directory count and no set of
  seen offsets, the loop goes on while the next-directory offset is not zero. For every
  input with an accepted header whose chain enters a cycle of directories that decode,
  opening the file does not return, and no FormatError is raised.
\<close>

theorem C8_cyclic_chain_never_returns:
  assumes "header_ok host buf fb off" and "cyclic td host buf ps" and "fb + off \<in> set ps"
  shows "TIFFfile_init td host buf ''r'' fb = None"
  using walk_chain_cycle [OF assms(2) assms(3)]
  by (simp add: TIFFfile_init_header_ok [OF assms(1)])

lemma self_loop_header: "header_ok Little self_loop_file 0 8"
  by code_simp

lemma self_loop_at_8: "read_ifd tiff6 Little self_loop_file 8 = Inr (\<lparr> entries = [] \<rparr>, 0, 8)"
  by code_simp

lemma self_loop_cyclic: "cyclic tiff6 Little self_loop_file [8]"
  by (simp add: cyclic_def self_loop_at_8)

text \<open>The amended C8 at the file whose one directory names itself.\<close>

theorem C8_cyclic_chain_never_returns_witness:
  "header_ok Little self_loop_file 0 8 \<and> cyclic tiff6 Little self_loop_file [8]
   \<and> TIFFfile_init tiff6 Little self_loop_file ''r'' 0 = None"
  using C8_cyclic_chain_never_returns [of Little self_loop_file 0 8 tiff6 "[8]"]
    self_loop_header self_loop_cyclic
  by simp

section \<open>Selecting the slices of a subfile type\<close>

lemma efilter_Inr:
  "efilter p xs = Inr ys \<Longrightarrow>
     ys = filter (\<lambda>x. p x = Inr True) xs \<and> (\<forall>x\<in>set xs. p x = Inr True \<or> p x = Inr False)"
proof (induction xs arbitrary: ys)
  case Nil
  then show ?case by simp
next
  case (Cons x xs)
  from Cons.prems obtain b zs where b: "p x = Inr b" and zs: "efilter p xs = Inr zs"
    and ys: "ys = (if b then x # zs else zs)"
    by (auto simp: ebind_Inr_iff)
  from Cons.IH [OF zs] b ys show ?case by (cases b) auto
qed

lemma selects_without_tag:
  "IFD_get ifd ''NewSubfileType'' = None \<Longrightarrow> selects s ifd = Inr True"
  by (simp add: selects_def IFD_get_value_def py_eq_def truth_def)

lemma selects_False:
  assumes "selects s ifd = Inr False"
  shows "\<exists>e v. IFD_get ifd ''NewSubfileType'' = Some e \<and> ent_value e = Some v
               \<and> py_eq v (PyInt s) = Inr False"
proof (cases "IFD_get ifd ''NewSubfileType''")
  case None
  from selects_without_tag [OF this, of s] assms show ?thesis by simp
next
  case (Some e)
  with assms obtain v where "value_of (Some e) = Inr v" "py_eq v (PyInt s) = Inr False"
    by (auto simp: selects_def IFD_get_value_def ebind_Inr_iff)
  with Some show ?thesis
    by (auto simp: value_of_def split: option.splits)
qed

text \<open>
  C9. In \<^verbatim>\<open>get_samples\<close> the selected slices are, in chain order, the directories for which
  the lookup of NewSubfileType with the selector as its default equals the selector. For
  every selector a directory without that entry is selected (the default is the selector
  itself), and a directory that is not selected carries the entry with a value that the
  comparison with the selector finds different.
\<close>

theorem C9_missing_subfile_tag_matches:
  assumes "select_ifds t subfile_type = Inr lst"
  shows "lst = filter (\<lambda>ifd. selects subfile_type ifd = Inr True) (IFDs t)
       \<and> (\<forall>ifd \<in> set (IFDs t). IFD_get ifd ''NewSubfileType'' = None \<longrightarrow> ifd \<in> set lst)
       \<and> (\<forall>ifd \<in> set (IFDs t). ifd \<notin> set lst \<longrightarrow>
             (\<exists>e v. IFD_get ifd ''NewSubfileType'' = Some e \<and> ent_value e = Some v
                    \<and> py_eq v (PyInt subfile_type) = Inr False))
       \<and> (\<forall>s ifd. IFD_get ifd ''NewSubfileType'' = None \<longrightarrow> selects s ifd = Inr True)"
proof -
  from efilter_Inr [OF assms [unfolded select_ifds_def]]
  have lst: "lst = filter (\<lambda>ifd. selects subfile_type ifd = Inr True) (IFDs t)"
    and tot: "\<forall>ifd\<in>set (IFDs t). selects subfile_type ifd = Inr True \<or> selects subfile_type ifd = Inr False"
    by simp_all
  have incl: "ifd \<in> set lst" if "ifd \<in> set (IFDs t)" "IFD_get ifd ''NewSubfileType'' = None" for ifd
    using that lst selects_without_tag [of ifd subfile_type] by simp
  have excl: "\<exists>e v. IFD_get ifd ''NewSubfileType'' = Some e \<and> ent_value e = Some v
                    \<and> py_eq v (PyInt subfile_type) = Inr False"
    if "ifd \<in> set (IFDs t)" "ifd \<notin> set lst" for ifd
  proof -
    from that lst have "selects subfile_type ifd \<noteq> Inr True" by simp
    with tot that(1) have "selects subfile_type ifd = Inr False" by blast
    then show ?thesis by (rule selects_False)
  qed
  from lst incl excl selects_without_tag show ?thesis by blast
qed

lemma subfile_file_opened:
  "TIFFfile_init tiff6 Little subfile_file ''r'' 0 = Some (Inr (opened tiff6 Little subfile_file))"
  by code_simp

lemma subfile_file_select_0:
  "select_ifds (opened tiff6 Little subfile_file) 0
     = Inr [IFDs (opened tiff6 Little subfile_file) ! 0, IFDs (opened tiff6 Little subfile_file) ! 1]"
  by code_simp

lemma subfile_file_select_1:
  "select_ifds (opened tiff6 Little subfile_file) 1
     = Inr [IFDs (opened tiff6 Little subfile_file) ! 0, IFDs (opened tiff6 Little subfile_file) ! 2]"
  by code_simp

lemma subfile_file_directories:
  "map (\<lambda>ifd. map (\<lambda>e. (tag_name e, ent_value e)) (entries ifd)) (IFDs (opened tiff6 Little subfile_file))
     = [[], [(''NewSubfileType'', Some (NpInt UInt32 0))], [(''NewSubfileType'', Some (NpInt UInt32 1))]]"
  by code_simp


lemma subfile_file_third_excluded:
  "IFDs (opened tiff6 Little subfile_file) ! 2
     \<notin> set [IFDs (opened tiff6 Little subfile_file) ! 0, IFDs (opened tiff6 Little subfile_file) ! 1]"
  by code_simp

lemma subfile_file_members:
  "IFDs (opened tiff6 Little subfile_file) ! 0 \<in> set (IFDs (opened tiff6 Little subfile_file))
   \<and> IFDs (opened tiff6 Little subfile_file) ! 2 \<in> set (IFDs (opened tiff6 Little subfile_file))
   \<and> IFD_get (IFDs (opened tiff6 Little subfile_file) ! 0) ''NewSubfileType'' = None"
  by code_simp

text \<open>
  C9 at the file of three directories with the selector 0: the directory without the entry
  is selected, the one that declares NewSubfileType 1 is not.
\<close>

theorem C9_missing_subfile_tag_matches_witness:
  "select_ifds (opened tiff6 Little subfile_file) 0
     = Inr [IFDs (opened tiff6 Little subfile_file) ! 0, IFDs (opened tiff6 Little subfile_file) ! 1]
   \<and> IFD_get (IFDs (opened tiff6 Little subfile_file) ! 0) ''NewSubfileType'' = None
   \<and> IFDs (opened tiff6 Little subfile_file) ! 0
        \<in> set [IFDs (opened tiff6 Little subfile_file) ! 0, IFDs (opened tiff6 Little subfile_file) ! 1]
   \<and> IFDs (opened tiff6 Little subfile_file) ! 2
        \<notin> set [IFDs (opened tiff6 Little subfile_file) ! 0, IFDs (opened tiff6 Little subfile_file) ! 1]
   \<and> (\<exists>e v. IFD_get (IFDs (opened tiff6 Little subfile_file) ! 2) ''NewSubfileType'' = Some e
            \<and> ent_value e = Some v \<and> py_eq v (PyInt 0) = Inr False)"
  using C9_missing_subfile_tag_matches [OF subfile_file_select_0]
    subfile_file_select_0 subfile_file_third_excluded subfile_file_members
  by blast

section \<open>Contiguity and the loop over the slices\<close>

lemma np_index_NpArr:
  "k < length xs \<Longrightarrow> np_index (NpArr d xs) (int k) = Inr (NpInt d (xs ! k))"
  by (simp add: np_index_def)

lemma np_index_NpArr_Suc:
  "Suc k < length xs \<Longrightarrow> np_index (NpArr d xs) (int k + 1) = Inr (NpInt d (xs ! Suc k))"
  using np_index_NpArr [of "Suc k" xs d] by (simp add: add.commute)

lemma np_add_NpInt:
  "np_add (NpInt d x) (NpInt d' y) = Inr (NpInt (promote d d') (wrap (promote d d') (x + y)))"
  by (simp add: np_add_def np_binop_def)

lemma py_ne_NpInt: "py_ne (NpInt d x) (NpInt d' y) = Inr (x \<noteq> y)"
  by (simp add: py_ne_def truth_def negate_def)

lemma length_numpy_ranges:
  "length ys = length xs \<Longrightarrow> length (numpy_ranges d xs d' ys) = length xs"
  by (simp add: numpy_ranges_def)

lemma nth_numpy_ranges:
  "length ys = length xs \<Longrightarrow> k < length xs \<Longrightarrow>
     numpy_ranges d xs d' ys ! k = (xs ! k, wrap (promote d d') (xs ! k + ys ! k))"
  by (simp add: numpy_ranges_def)

lemma ranges_contiguous_short: "length rs \<le> 1 \<Longrightarrow> ranges_contiguous rs"
  by (cases rs rule: ranges_contiguous.cases) simp_all

lemma contiguous_from_ranges:
  assumes len: "length ys = length xs"
  shows "contiguous_from (NpArr d xs) (NpArr d' ys) [k..<length xs - 1]
           = Inr (ranges_contiguous (drop k (numpy_ranges d xs d' ys)))"
proof (induction "length xs - 1 - k" arbitrary: k)
  case 0
  then have e: "[k..<length xs - 1] = []" by simp
  from 0 len have "length (drop k (numpy_ranges d xs d' ys)) \<le> 1"
    by (simp add: length_numpy_ranges)
  then have "ranges_contiguous (drop k (numpy_ranges d xs d' ys))"
    by (rule ranges_contiguous_short)
  then show ?case unfolding e by simp
next
  case (Suc m)
  let ?rs = "numpy_ranges d xs d' ys"
  from Suc.hyps(2) have k: "k < length xs - 1" by simp
  then have k1: "k < length xs" and k2: "Suc k < length xs" by simp_all
  from k have upt: "[k..<length xs - 1] = k # [Suc k..<length xs - 1]"
    by (rule upt_conv_Cons)
  from Suc.hyps(2) have "m = length xs - 1 - Suc k" by simp
  from Suc.hyps(1) [OF this]
  have IH: "contiguous_from (NpArr d xs) (NpArr d' ys) [Suc k..<length xs - 1]
              = Inr (ranges_contiguous (drop (Suc k) ?rs))" .
  from k1 k2 len have dr: "drop k ?rs = ?rs ! k # ?rs ! Suc k # drop (Suc (Suc k)) ?rs"
    by (simp add: Cons_nth_drop_Suc length_numpy_ranges)
  from k2 len have dr': "drop (Suc k) ?rs = ?rs ! Suc k # drop (Suc (Suc k)) ?rs"
    by (simp add: Cons_nth_drop_Suc length_numpy_ranges)
  from k1 len have ys: "k < length ys" by simp
  let ?e = "wrap (promote d d') (xs ! k + ys ! k)"
  have "contiguous_from (NpArr d xs) (NpArr d' ys) [k..<length xs - 1]
          = contiguous_from (NpArr d xs) (NpArr d' ys) (k # [Suc k..<length xs - 1])"
    by (simp only: upt)
  also have "\<dots> = (if ?e \<noteq> xs ! Suc k then Inr False
                    else contiguous_from (NpArr d xs) (NpArr d' ys) [Suc k..<length xs - 1])"
    using k1 k2 ys
    by (simp only: contiguous_from.simps np_index_NpArr np_index_NpArr_Suc np_add_NpInt
        py_ne_NpInt ebind_simps)
  also have "\<dots> = Inr (?e = xs ! Suc k \<and> ranges_contiguous (drop (Suc k) ?rs))"
    by (simp only: IH) simp
  also have "(?e = xs ! Suc k \<and> ranges_contiguous (drop (Suc k) ?rs))
               = ranges_contiguous (drop k ?rs)"
  proof -
    have "ranges_contiguous (drop k ?rs)
            = (snd (?rs ! k) = fst (?rs ! Suc k)
               \<and> ranges_contiguous (?rs ! Suc k # drop (Suc (Suc k)) ?rs))"
      by (simp only: dr ranges_contiguous.simps)
    also have "?rs ! Suc k # drop (Suc (Suc k)) ?rs = drop (Suc k) ?rs"
      by (simp only: dr' [symmetric])
    also have "snd (?rs ! k) = ?e"
      using k1 by (simp add: nth_numpy_ranges [OF len])
    also have "fst (?rs ! Suc k) = xs ! Suc k"
      using k2 by (simp add: nth_numpy_ranges [OF len])
    finally show ?thesis by simp
  qed
  finally show ?case .
qed

lemma is_contiguous_numpy_ranges:
  assumes "value_of (IFD_get ifd ''StripOffsets'') = Inr (NpArr d xs)"
    and "value_of (IFD_get ifd ''StripByteCounts'') = Inr (NpArr d' ys)"
    and "length ys = length xs"
  shows "is_contiguous ifd = Inr (ranges_contiguous (numpy_ranges d xs d' ys))"
  using assms contiguous_from_ranges [OF assms(3), of d d' 0]
  by (simp add: is_contiguous_def is_ndarray_def np_len_def)

lemma numpy_ranges_fit:
  assumes "sums_fit d xs d' ys"
  shows "numpy_ranges d xs d' ys = strip_ranges xs ys"
  using assms
  by (auto simp: numpy_ranges_def strip_ranges_def sums_fit_def list_all_iff)

text \<open>
  When no end of a strip overflows the element type, \<^verbatim>\<open>is_contiguous\<close> is the contiguity of
  the strip ranges.
\<close>

lemma is_contiguous_arrays:
  assumes "value_of (IFD_get ifd ''StripOffsets'') = Inr (NpArr d xs)"
    and "value_of (IFD_get ifd ''StripByteCounts'') = Inr (NpArr d' ys)"
    and "length ys = length xs" and "sums_fit d xs d' ys"
  shows "is_contiguous ifd = Inr (ranges_contiguous (strip_ranges xs ys))"
  using is_contiguous_numpy_ranges [OF assms(1-3)] numpy_ranges_fit [OF assms(4)] by simp

lemma is_contiguous_single:
  assumes "value_of (IFD_get ifd ''StripOffsets'') = Inr v" and "\<not> is_ndarray v"
    and "value_of (IFD_get ifd ''StripByteCounts'') = Inr w"
  shows "is_contiguous ifd = Inr True"
  using assms by (simp add: is_contiguous_def)

lemma slice_step_not_contiguous:
  "is_contiguous ifd = Inr False \<Longrightarrow>
     slice_step t st ifd = Inl (NotImplementedError ''none contiguous strips'')"
  by (simp add: slice_step_def)

lemma slice_step_Inr_contiguous:
  assumes "slice_step t st ifd = Inr st'"
  shows "is_contiguous ifd = Inr True"
proof (cases "is_contiguous ifd")
  case (Inl e)
  with assms show ?thesis by (simp add: slice_step_def)
next
  case (Inr b)
  with assms show ?thesis by (cases b) (simp_all add: slice_step_def)
qed

lemma slice_loop_append:
  "slice_loop t st (xs @ ys) = ebind (slice_loop t st xs) (\<lambda>st'. slice_loop t st' ys)"
proof (induction xs arbitrary: st)
  case Nil
  show ?case by simp
next
  case (Cons x xs)
  show ?case
  proof (cases "slice_step t st x")
    case (Inl e)
    then show ?thesis by simp
  next
    case (Inr st1)
    with Cons.IH [of st1] show ?thesis by simp
  qed
qed

lemma slice_loop_Inr_contiguous:
  "slice_loop t st lst = Inr st' \<Longrightarrow> \<forall>ifd\<in>set lst. is_contiguous ifd = Inr True"
proof (induction lst arbitrary: st)
  case Nil
  show ?case by simp
next
  case (Cons x xs)
  from Cons.prems obtain st1 where s: "slice_step t st x = Inr st1"
    and r: "slice_loop t st1 xs = Inr st'"
    by (auto simp: ebind_Inr_iff)
  from slice_step_Inr_contiguous [OF s] Cons.IH [OF r] show ?case by simp
qed

lemma get_samples_Inr:
  assumes "get_samples decode t sel = Inr r"
  shows "\<exists>lst st. select_ifds t sel = Inr lst \<and> slice_loop t initial_state lst = Inr st"
  using assms by (auto simp: get_samples_def ebind_Inr_iff)

lemma get_samples_loop_error:
  "select_ifds t sel = Inr lst \<Longrightarrow> slice_loop t initial_state lst = Inl e \<Longrightarrow>
     get_samples decode t sel = Inl e"
  by (simp add: get_samples_def)

lemma slice_loop_stops_at:
  assumes "slice_loop t st pre = Inr st1" and "slice_step t st1 ifd = Inl e"
  shows "slice_loop t st (pre @ ifd # post) = Inl e"
  using assms by (simp add: slice_loop_append)

text \<open>
  The contiguity check and the loop over the slices. For a directory whose strip offsets and
  strip byte counts are arrays of the same length, none of whose strip ends overflows the
  element type, \<^verbatim>\<open>is_contiguous\<close> holds exactly when the end of each strip is the start of the
  next one; a directory with a single offset is always contiguous. A selected slice for which
  the check is false makes \<^verbatim>\<open>get_samples\<close> fail and never return channels; when the slices
  before it have been processed, the failure is the one of the check,
  NotImplementedError('none contiguous strips').
\<close>

lemma contiguity_check:
  "(value_of (IFD_get ifd ''StripOffsets'') = Inr (NpArr d xs) \<longrightarrow>
      value_of (IFD_get ifd ''StripByteCounts'') = Inr (NpArr d' ys) \<longrightarrow> length ys = length xs \<longrightarrow>
      sums_fit d xs d' ys \<longrightarrow>
      is_contiguous ifd = Inr (ranges_contiguous (strip_ranges xs ys)))
   \<and> (value_of (IFD_get ifd ''StripOffsets'') = Inr v \<longrightarrow> \<not> is_ndarray v \<longrightarrow>
      value_of (IFD_get ifd ''StripByteCounts'') = Inr w \<longrightarrow> is_contiguous ifd = Inr True)
   \<and> ranges_contiguous [(0, 100), (100, 250), (250, 400)]
   \<and> \<not> ranges_contiguous [(0, 100), (110, 250)]
   \<and> (select_ifds t sel = Inr lst \<longrightarrow> s \<in> set lst \<longrightarrow> is_contiguous s = Inr False \<longrightarrow>
      (\<exists>e. get_samples decode t sel = Inl e))
   \<and> (select_ifds t sel = Inr (pre @ s # post) \<longrightarrow> slice_loop t initial_state pre = Inr st \<longrightarrow>
      is_contiguous s = Inr False \<longrightarrow>
      get_samples decode t sel = Inl (NotImplementedError ''none contiguous strips''))"
proof (intro conjI impI)
  assume "value_of (IFD_get ifd ''StripOffsets'') = Inr (NpArr d xs)"
    and "value_of (IFD_get ifd ''StripByteCounts'') = Inr (NpArr d' ys)"
    and "length ys = length xs" and "sums_fit d xs d' ys"
  then show "is_contiguous ifd = Inr (ranges_contiguous (strip_ranges xs ys))"
    by (rule is_contiguous_arrays)
next
  assume "value_of (IFD_get ifd ''StripOffsets'') = Inr v" and "\<not> is_ndarray v"
    and "value_of (IFD_get ifd ''StripByteCounts'') = Inr w"
  then show "is_contiguous ifd = Inr True"
    by (rule is_contiguous_single)
next
  show "ranges_contiguous [(0, 100), (100, 250), (250, 400)]" by simp
next
  show "\<not> ranges_contiguous [(0, 100), (110, 250)]" by simp
next
  assume sel: "select_ifds t sel = Inr lst" and mem: "s \<in> set lst"
    and nc: "is_contiguous s = Inr False"
  show "\<exists>e. get_samples decode t sel = Inl e"
  proof (cases "get_samples decode t sel")
    case (Inl e)
    then show ?thesis by blast
  next
    case (Inr r)
    from get_samples_Inr [OF Inr] sel obtain st'
      where "slice_loop t initial_state lst = Inr st'"
      by auto
    from slice_loop_Inr_contiguous [OF this] mem have "is_contiguous s = Inr True"
      by blast
    with nc show ?thesis by simp
  qed
next
  assume sel: "select_ifds t sel = Inr (pre @ s # post)"
    and pre: "slice_loop t initial_state pre = Inr st"
    and nc: "is_contiguous s = Inr False"
  from slice_loop_stops_at [OF pre slice_step_not_contiguous [OF nc]]
  have "slice_loop t initial_state (pre @ s # post)
          = Inl (NotImplementedError ''none contiguous strips'')" .
  with sel show "get_samples decode t sel = Inl (NotImplementedError ''none contiguous strips'')"
    by (rule get_samples_loop_error)
qed

lemma strips_ifd_values:
  "value_of (IFD_get (strips_ifd xs ys) ''StripOffsets'') = Inr (NpArr UInt32 xs)
   \<and> value_of (IFD_get (strips_ifd xs ys) ''StripByteCounts'') = Inr (NpArr UInt32 ys)"
  by (simp add: strips_ifd_def entry_of_def IFD_get_def value_of_def)

lemma example_ranges:
  "strip_ranges [0, 100, 250] [100, 150, 150] = [(0, 100), (100, 250), (250, 400)]
   \<and> sums_fit UInt32 [0, 100, 250] UInt32 [100, 150, 150]
   \<and> strip_ranges [0, 110] [100, 140] = [(0, 100), (110, 250)]
   \<and> sums_fit UInt32 [0, 110] UInt32 [100, 140]"
  by code_simp

lemma gap_file_opened:
  "TIFFfile_init tiff6 Little gap_file ''r'' 0 = Some (Inr gap_object)"
  by code_simp

lemma gap_object_selected:
  "select_ifds gap_object 0 = Inr ([IFDs gap_object ! 0] @ IFDs gap_object ! 1 # [])"
  by code_simp

lemma gap_object_first_slice:
  "slice_loop gap_object initial_state [IFDs gap_object ! 0]
     = Inr (projr (slice_loop gap_object initial_state [IFDs gap_object ! 0]))"
  by code_simp

lemma gap_object_second_slice: "is_contiguous (IFDs gap_object ! 1) = Inr False"
  by code_simp

lemma gap_object_single_strip:
  "value_of (IFD_get (IFDs gap_object ! 0) ''StripOffsets'') = Inr (NpInt UInt32 204)
   \<and> \<not> is_ndarray (NpInt UInt32 204)
   \<and> value_of (IFD_get (IFDs gap_object ! 0) ''StripByteCounts'') = Inr (NpInt UInt32 4)"
  by code_simp

text \<open>
  The two examples of strip ranges, as the strips of a directory, and the file whose second
  slice has a gap between its two strips.
\<close>

lemma contiguity_check_examples:
  "is_contiguous (strips_ifd [0, 100, 250] [100, 150, 150]) = Inr True
   \<and> is_contiguous (strips_ifd [0, 110] [100, 140]) = Inr False
   \<and> is_contiguous (IFDs gap_object ! 0) = Inr True
   \<and> is_contiguous (IFDs gap_object ! 1) = Inr False
   \<and> get_samples no_codec gap_object 0 = Inl (NotImplementedError ''none contiguous strips'')"
  using
    contiguity_check [where ifd = "strips_ifd [0, 100, 250] [100, 150, 150]" and d = UInt32
      and xs = "[0, 100, 250]" and d' = UInt32 and ys = "[100, 150, 150]"]
    contiguity_check [where ifd = "strips_ifd [0, 110] [100, 140]" and d = UInt32
      and xs = "[0, 110]" and d' = UInt32 and ys = "[100, 140]"]
    contiguity_check [where ifd = "IFDs gap_object ! 0"
      and v = "NpInt UInt32 204" and w = "NpInt UInt32 4"
      and t = gap_object and sel = 0 and pre = "[IFDs gap_object ! 0]"
      and s = "IFDs gap_object ! 1" and post = "[]"
      and st = "projr (slice_loop gap_object initial_state [IFDs gap_object ! 0])"
      and decode = no_codec]
    strips_ifd_values [of "[0, 100, 250]" "[100, 150, 150]"]
    strips_ifd_values [of "[0, 110]" "[100, 140]"]
    example_ranges gap_object_selected gap_object_first_slice gap_object_second_slice
    gap_object_single_strip
  by simp

text \<open>
  C4. A directory with two strips whose offsets and byte counts are of type SHORT: the first
  strip is at the bytes 60000 to 70000, the second at the bytes 4464 to 4474. The end of the
  first strip is not the start of the second, so the strips are not contiguous. But
  \<^verbatim>\<open>strip_offsets[i] + strip_nbytes[i]\<close> is a sum of two 16-bit scalars: 60000 + 10000 wraps
  around to 4464, the start of the second strip, and \<^verbatim>\<open>is_contiguous\<close> returns true, so that
  the check of \<^verbatim>\<open>get_samples\<close> lets the slice pass.
\<close>

theorem C4_strip_end_overflows:
  "value_of (IFD_get (short_strips_ifd [60000, 4464] [10000, 10]) ''StripOffsets'')
     = Inr (NpArr UInt16 [60000, 4464])
   \<and> value_of (IFD_get (short_strips_ifd [60000, 4464] [10000, 10]) ''StripByteCounts'')
       = Inr (NpArr UInt16 [10000, 10])
   \<and> strip_ranges [60000, 4464] [10000, 10] = [(60000, 70000), (4464, 4474)]
   \<and> \<not> ranges_contiguous (strip_ranges [60000, 4464] [10000, 10])
   \<and> np_add (NpInt UInt16 60000) (NpInt UInt16 10000) = Inr (NpInt UInt16 4464)
   \<and> is_contiguous (short_strips_ifd [60000, 4464] [10000, 10]) = Inr True"
  by code_simp

section \<open>Agreement of the later slices with slice 0\<close>

lemma if_Inl_Inr_iff: "(if c then Inl e else m) = Inr y \<longleftrightarrow> \<not> c \<and> m = Inr y"
  by simp

lemma first_slice_fields:
  assumes "first_slice t ifd so span = Inr (fast, v)"
  shows "IFD_get_value ifd ''ImageWidth'' PyNone = Inr (width v)
       \<and> IFD_get_value ifd ''ImageLength'' PyNone = Inr (length_px v)
       \<and> IFD_get_value ifd ''PlanarConfiguration'' PyNone = Inr (planar_config v)
       \<and> IFD_get_value ifd ''BitsPerSample'' PyNone = Inr (bits_per_sample v)"
  using assms
  by (auto simp: first_slice_def ebind_Inr_iff if_Inl_Inr_iff Let_def split: prod.splits)

lemma later_slice_Inr:
  assumes "later_slice v ifd span = Inr u"
  shows "\<exists>w h p b.
           IFD_get_value ifd ''ImageWidth'' (width v) = Inr w \<and> py_eq (width v) w = Inr True
         \<and> IFD_get_value ifd ''ImageLength'' (length_px v) = Inr h \<and> py_eq (length_px v) h = Inr True
         \<and> IFD_get_value ifd ''PlanarConfiguration'' (planar_config v) = Inr p
         \<and> py_eq (planar_config v) p = Inr True
         \<and> IFD_get_value ifd ''BitsPerSample'' (bits_per_sample v) = Inr b
         \<and> (if is_ndarray (bits_per_sample v) then py_eq_all (bits_per_sample v) b
             else py_eq (bits_per_sample v) b) = Inr True"
  using assms
  by (auto simp: later_slice_def ebind_Inr_iff if_Inl_Inr_iff split: if_splits)

lemma zip_all_equal:
  "length xs = length ys \<Longrightarrow> list_all id (map (\<lambda>(x, y). x = y) (zip xs ys)) = (xs = ys)"
  by (induction xs ys rule: list_induct2) auto

lemma list_all_id_map: "list_all id (map f xs) = list_all f xs"
  by (induction xs) auto

lemma zip_all_equal_pairs:
  "length xs = length ys \<Longrightarrow> list_all (\<lambda>(x, y). x = y) (zip xs ys) = (xs = ys)"
  by (induction xs ys rule: list_induct2) auto

lemma truth_Elems_True:
  "truth (Elems bs) = Inr True \<longleftrightarrow> bs = [True]"
  by (auto simp: truth_def split: list.splits)

lemma py_eq_True_agree:
  assumes "py_eq a b = Inr True"
  shows "elementwise_equal a b"
proof (cases a)
  case PyNone
  with assms show ?thesis by (cases b) (auto simp: elementwise_equal_def py_eq_def truth_def)
next
  case (PyInt x)
  with assms show ?thesis
    by (cases b) (auto simp: elementwise_equal_def py_eq_def truth_def as_int_def truth_Elems_True split: list.splits)
next
  case (NpInt d x)
  with assms show ?thesis
    by (cases b) (auto simp: elementwise_equal_def py_eq_def truth_def as_int_def truth_Elems_True split: list.splits)
next
  case (NpArr d xs)
  show ?thesis
  proof (cases b)
    case (NpArr d' ys)
    with assms \<open>a = NpArr d xs\<close> have len: "length xs = length ys"
      and one: "map (\<lambda>(x, y). x = y) (zip xs ys) = [True]"
      by (auto simp: elementwise_equal_def py_eq_def truth_Elems_True split: if_splits)
    from one have "list_all id (map (\<lambda>(x, y). x = y) (zip xs ys))" by (simp add: elementwise_equal_def)
    with len have "xs = ys" by (simp add: elementwise_equal_def zip_all_equal)
    with NpArr \<open>a = NpArr d xs\<close> show ?thesis by (simp add: elementwise_equal_def)
  next
    case PyNone
    with assms \<open>a = NpArr d xs\<close> show ?thesis by (simp add: elementwise_equal_def py_eq_def)
  next
    case (PyInt y)
    with assms \<open>a = NpArr d xs\<close> have "map (\<lambda>x. x = y) xs = [True]"
      by (simp add: elementwise_equal_def py_eq_def truth_Elems_True)
    then have "list_all id (map (\<lambda>x. x = y) xs)" by (simp add: elementwise_equal_def)
    with PyInt \<open>a = NpArr d xs\<close> show ?thesis by (simp add: elementwise_equal_def list_all_id_map as_int_def)
  next
    case (NpInt d' y)
    with assms \<open>a = NpArr d xs\<close> have "map (\<lambda>x. x = y) xs = [True]"
      by (simp add: elementwise_equal_def py_eq_def truth_Elems_True)
    then have "list_all id (map (\<lambda>x. x = y) xs)" by (simp add: elementwise_equal_def)
    with NpInt \<open>a = NpArr d xs\<close> show ?thesis by (simp add: elementwise_equal_def list_all_id_map as_int_def)
  next
    case (NpOther d' s)
    with assms \<open>a = NpArr d xs\<close> show ?thesis by (simp add: elementwise_equal_def py_eq_def)
  next
    case (NpOtherArr d' s)
    with assms \<open>a = NpArr d xs\<close> show ?thesis by (simp add: elementwise_equal_def py_eq_def)
  qed
next
  case (NpOther d s)
  with assms show ?thesis by (cases b) (auto simp: elementwise_equal_def py_eq_def)
next
  case (NpOtherArr d s)
  with assms show ?thesis by (cases b) (auto simp: elementwise_equal_def py_eq_def)
qed

lemma py_eq_all_True_agree:
  assumes "py_eq_all a b = Inr True"
  shows "elementwise_equal a b"
proof (cases a)
  case PyNone
  with assms show ?thesis by (cases b) (auto simp: elementwise_equal_def py_eq_all_def)
next
  case (PyInt x)
  with assms show ?thesis
    by (cases b) (auto simp: elementwise_equal_def py_eq_all_def as_int_def list_all_id_map)
next
  case (NpInt d x)
  with assms show ?thesis
    by (cases b) (auto simp: elementwise_equal_def py_eq_all_def as_int_def list_all_id_map)
next
  case (NpArr d xs)
  with assms show ?thesis
    by (cases b)
       (auto simp: elementwise_equal_def py_eq_all_def as_int_def list_all_id_map zip_all_equal_pairs split: if_splits)
next
  case (NpOther d s)
  with assms show ?thesis by (cases b) (auto simp: elementwise_equal_def py_eq_all_def)
next
  case (NpOtherArr d s)
  with assms show ?thesis by (cases b) (auto simp: elementwise_equal_def py_eq_all_def)
qed

lemma later_slice_agrees:
  assumes "later_slice v ifd span = Inr u"
  shows "\<exists>w h p b.
           IFD_get_value ifd ''ImageWidth'' (width v) = Inr w \<and> elementwise_equal (width v) w
         \<and> IFD_get_value ifd ''ImageLength'' (length_px v) = Inr h \<and> elementwise_equal (length_px v) h
         \<and> IFD_get_value ifd ''PlanarConfiguration'' (planar_config v) = Inr p
         \<and> elementwise_equal (planar_config v) p
         \<and> IFD_get_value ifd ''BitsPerSample'' (bits_per_sample v) = Inr b
         \<and> elementwise_equal (bits_per_sample v) b"
proof -
  from later_slice_Inr [OF assms] obtain w h p b where
    w: "IFD_get_value ifd ''ImageWidth'' (width v) = Inr w" "py_eq (width v) w = Inr True"
    and h: "IFD_get_value ifd ''ImageLength'' (length_px v) = Inr h"
       "py_eq (length_px v) h = Inr True"
    and p: "IFD_get_value ifd ''PlanarConfiguration'' (planar_config v) = Inr p"
       "py_eq (planar_config v) p = Inr True"
    and b: "IFD_get_value ifd ''BitsPerSample'' (bits_per_sample v) = Inr b"
       "(if is_ndarray (bits_per_sample v) then py_eq_all (bits_per_sample v) b
         else py_eq (bits_per_sample v) b) = Inr True"
    by blast
  from b(2) have "elementwise_equal (bits_per_sample v) b"
    by (cases "is_ndarray (bits_per_sample v)")
       (simp_all add: py_eq_True_agree py_eq_all_True_agree)
  with w h p b(1) show ?thesis
    by (intro exI [of _ w] exI [of _ h] exI [of _ p] exI [of _ b])
       (simp add: py_eq_True_agree)
qed

lemma IFD_get_value_declared:
  assumes "IFD_get ifd name = Some e" and "IFD_get_value ifd name dflt = Inr x"
  shows "ent_value e = Some x"
  using assms by (auto simp: IFD_get_value_def value_of_def split: option.splits)

lemma slice_step_first:
  assumes "slice_step t st ifd = Inr st'" and "idx st = 0"
  shows "\<exists>so span fast v. first_slice t ifd so span = Inr (fast, v) \<and> vars st' = Some v
           \<and> 0 < idx st'"
  using assms
  by (auto simp: slice_step_def ebind_Inr_iff if_Inl_Inr_iff split: prod.splits) blast

lemma slice_step_later:
  assumes "slice_step t st ifd = Inr st'" and "0 < idx st"
  shows "\<exists>v span. vars st = Some v \<and> later_slice v ifd span = Inr () \<and> vars st' = Some v
           \<and> 0 < idx st'"
  using assms
  by (auto simp: slice_step_def ebind_Inr_iff if_Inl_Inr_iff split: prod.splits option.splits)
     blast

lemma slice_loop_later:
  assumes "slice_loop t st lst = Inr st'" and "0 < idx st" and "vars st = Some v"
  shows "\<forall>s \<in> set lst. \<exists>span. later_slice v s span = Inr ()"
  using assms
proof (induction lst arbitrary: st)
  case Nil
  show ?case by simp
next
  case (Cons x xs)
  from Cons.prems(1) obtain st1
    where s: "slice_step t st x = Inr st1" and r: "slice_loop t st1 xs = Inr st'"
    by (auto simp: ebind_Inr_iff)
  from slice_step_later [OF s Cons.prems(2)] Cons.prems(3) obtain span
    where l: "later_slice v x span = Inr ()" and v1: "vars st1 = Some v" and i1: "0 < idx st1"
    by auto
  from l have "\<exists>span. later_slice v x span = Inr ()" by (rule exI)
  with Cons.IH [OF r i1 v1] show ?case by simp
qed

lemma slice_loop_first:
  assumes "slice_loop t initial_state (ifd0 # rest) = Inr st'"
  shows "\<exists>so span0 fast v. first_slice t ifd0 so span0 = Inr (fast, v)
           \<and> (\<forall>s \<in> set rest. \<exists>span. later_slice v s span = Inr ())"
proof -
  from assms obtain st1
    where s: "slice_step t initial_state ifd0 = Inr st1" and r: "slice_loop t st1 rest = Inr st'"
    by (auto simp: ebind_Inr_iff)
  have "idx initial_state = 0" by (simp add: initial_state_def)
  from slice_step_first [OF s this] obtain so span0 fast v
    where f: "first_slice t ifd0 so span0 = Inr (fast, v)" and v1: "vars st1 = Some v"
      and i1: "0 < idx st1"
    by blast
  from slice_loop_later [OF r i1 v1] f show ?thesis by blast
qed


lemma py_eq_plain:
  assumes "pv_plain a" and "pv_plain b"
  shows "py_eq a b = Inr (elementwise_equal a b)"
  using assms
  by (cases a; cases b) (auto simp: elementwise_equal_def pv_plain_def as_int_def py_eq_def truth_def)

lemma bits_eq_comparable:
  assumes "bits_comparable a b"
  shows "(if is_ndarray a then py_eq_all a b else py_eq a b) = Inr (elementwise_equal a b)"
proof (cases a)
  case (NpArr d xs)
  with assms show ?thesis
    by (cases b)
       (auto simp: elementwise_equal_def is_ndarray_def py_eq_all_def as_int_def list_all_id_map zip_all_equal_pairs)
next
  case PyNone
  with assms have "pv_plain a" "pv_plain b" by (simp_all add: elementwise_equal_def)
  with PyNone show ?thesis by (simp add: elementwise_equal_def is_ndarray_def py_eq_plain)
next
  case (PyInt x)
  with assms have "pv_plain a" "pv_plain b" by (simp_all add: elementwise_equal_def)
  with PyInt show ?thesis by (simp add: elementwise_equal_def is_ndarray_def py_eq_plain)
next
  case (NpInt d x)
  with assms have "pv_plain a" "pv_plain b" by (simp_all add: elementwise_equal_def)
  with NpInt show ?thesis by (simp add: elementwise_equal_def is_ndarray_def py_eq_plain)
next
  case (NpOther d s)
  with assms show ?thesis by (simp add: elementwise_equal_def pv_plain_def as_int_def)
next
  case (NpOtherArr d s)
  with assms show ?thesis by (simp add: elementwise_equal_def pv_plain_def as_int_def)
qed

lemma np_sub_scalars:
  assumes "as_int a \<noteq> None" and "as_int b \<noteq> None"
  shows "\<exists>c. np_sub a b = Inr c \<and> pv_plain c"
  using assms
  by (cases a; cases b) (auto simp: as_int_def np_sub_def np_binop_def pv_plain_def)

lemma later_slice_disagrees:
  assumes w: "IFD_get_value ifd ''ImageWidth'' (width v) = Inr w"
    and h: "IFD_get_value ifd ''ImageLength'' (length_px v) = Inr h"
    and p: "IFD_get_value ifd ''PlanarConfiguration'' (planar_config v) = Inr p"
    and b: "IFD_get_value ifd ''BitsPerSample'' (bits_per_sample v) = Inr b"
    and c: "layout_comparable v span w h p b"
    and d: "\<not> (elementwise_equal (width v) w \<and> elementwise_equal (length_px v) h
              \<and> elementwise_equal (planar_config v) p \<and> elementwise_equal (bits_per_sample v) b)"
  shows "\<exists>site. later_slice v ifd span = Inl (AssertionError site)
           \<and> (\<not> elementwise_equal (width v) w \<longrightarrow> site = ''width'')"
proof -
  from c have ew: "py_eq (width v) w = Inr (elementwise_equal (width v) w)"
    and eh: "py_eq (length_px v) h = Inr (elementwise_equal (length_px v) h)"
    and ep: "py_eq (planar_config v) p = Inr (elementwise_equal (planar_config v) p)"
    and eb: "(if is_ndarray (bits_per_sample v) then py_eq_all (bits_per_sample v) b
              else py_eq (bits_per_sample v) b) = Inr (elementwise_equal (bits_per_sample v) b)"
    by (simp_all add: layout_comparable_def py_eq_plain bits_eq_comparable)
  from c np_sub_scalars [of "snd span" "fst span"] obtain slen
    where sl: "np_sub (snd span) (fst span) = Inr slen" and ps: "pv_plain slen"
    by (auto simp: layout_comparable_def)
  from c ps have es: "py_eq (strip_length v) slen = Inr (elementwise_equal (strip_length v) slen)"
    by (simp add: layout_comparable_def py_eq_plain)
  show ?thesis
  proof (cases "elementwise_equal (width v) w")
    case False
    with w ew show ?thesis by (simp add: later_slice_def)
  next
    case aw: True
    show ?thesis
    proof (cases "elementwise_equal (length_px v) h")
      case False
      with aw w ew h eh show ?thesis by (simp add: later_slice_def)
    next
      case ah: True
      show ?thesis
      proof (cases "elementwise_equal (planar_config v) p")
        case False
        with aw ah w ew h eh p ep show ?thesis by (simp add: later_slice_def)
      next
        case ap: True
        with aw ah d have nb: "\<not> elementwise_equal (bits_per_sample v) b" by simp
        show ?thesis
        proof (cases "elementwise_equal (strip_length v) slen")
          case False
          with aw ah ap w ew h eh p ep sl es show ?thesis by (simp add: later_slice_def)
        next
          case True
          with aw ah ap nb w ew h eh p ep sl es b eb show ?thesis
            by (simp add: later_slice_def)
        qed
      qed
    qed
  qed
qed

lemma slice_step_later_error:
  assumes "0 < idx st" and "vars st = Some v" and "is_contiguous ifd = Inr True"
    and "IFD_get_value ifd ''StripOffsets'' PyNone = Inr so"
    and "IFD_get_value ifd ''StripByteCounts'' PyNone = Inr sn"
    and "strip_span so sn = Inr span"
    and "later_slice v ifd span = Inl e"
  shows "slice_step t st ifd = Inl e"
  using assms by (simp add: slice_step_def)

lemma layout_tags_cases:
  assumes "tag \<in> set layout_tags"
  obtains "tag = ''ImageWidth''" | "tag = ''ImageLength''" | "tag = ''PlanarConfiguration''"
    | "tag = ''BitsPerSample''"
  using assms by (simp only: layout_tags_def list.set insert_iff empty_iff) blast

text \<open>
  C5 (as amended). When \<^verbatim>\<open>get_samples\<close> returns, every selected slice after slice 0 that
  declares an ImageWidth, ImageLength, PlanarConfiguration or BitsPerSample declares a value
  that is equal to the value of slice 0 as numpy compares the two (\<open>elementwise_equal\<close>: the
  same number, whatever the integer types, or the same array, or an array against a number
  that each of its elements equals). And when the loop reaches a later slice (the slices before
  it have been processed, its strips are contiguous and their span is computed) whose four
  values can be compared with those of slice 0 (\<open>layout_comparable\<close>: numbers; for the bits per
  sample also arrays of the same length, or an array and a number) and one of them is not equal
  in that sense, the call fails with an AssertionError, the InconsistentDirectory of the
  specification; for a width that differs it is the assertion on the width.
\<close>

theorem C5_later_slices_agree:
  "(get_samples decode t sel = Inr r \<longrightarrow> select_ifds t sel = Inr (ifd0 # rest) \<longrightarrow>
      s \<in> set rest \<longrightarrow> tag \<in> set layout_tags \<longrightarrow> IFD_get s tag = Some e \<longrightarrow>
      (\<exists>a b. IFD_get_value ifd0 tag PyNone = Inr a \<and> ent_value e = Some b \<and> elementwise_equal a b))
   \<and> (select_ifds t sel = Inr (pre @ s' # post) \<longrightarrow> slice_loop t initial_state pre = Inr st \<longrightarrow>
      0 < idx st \<longrightarrow> vars st = Some v \<longrightarrow> is_contiguous s' = Inr True \<longrightarrow>
      IFD_get_value s' ''StripOffsets'' PyNone = Inr so \<longrightarrow>
      IFD_get_value s' ''StripByteCounts'' PyNone = Inr sn \<longrightarrow>
      strip_span so sn = Inr span \<longrightarrow>
      IFD_get_value s' ''ImageWidth'' (width v) = Inr w \<longrightarrow>
      IFD_get_value s' ''ImageLength'' (length_px v) = Inr h \<longrightarrow>
      IFD_get_value s' ''PlanarConfiguration'' (planar_config v) = Inr p \<longrightarrow>
      IFD_get_value s' ''BitsPerSample'' (bits_per_sample v) = Inr b \<longrightarrow>
      layout_comparable v span w h p b \<longrightarrow>
      \<not> (elementwise_equal (width v) w \<and> elementwise_equal (length_px v) h
          \<and> elementwise_equal (planar_config v) p \<and> elementwise_equal (bits_per_sample v) b) \<longrightarrow>
      (\<exists>site. get_samples decode t sel = Inl (AssertionError site)
         \<and> (\<not> elementwise_equal (width v) w \<longrightarrow> site = ''width'')))"
proof (intro conjI impI)
  assume ok: "get_samples decode t sel = Inr r"
    and sel: "select_ifds t sel = Inr (ifd0 # rest)"
    and mem: "s \<in> set rest" and tag: "tag \<in> set layout_tags"
    and e: "IFD_get s tag = Some e"
  from get_samples_Inr [OF ok] sel obtain st'
    where "slice_loop t initial_state (ifd0 # rest) = Inr st'"
    by auto
  from slice_loop_first [OF this] mem obtain so span0 fast v0 span
    where f: "first_slice t ifd0 so span0 = Inr (fast, v0)"
      and l: "later_slice v0 s span = Inr ()"
    by blast
  from later_slice_agrees [OF l] obtain w h p b where
    w: "IFD_get_value s ''ImageWidth'' (width v0) = Inr w" "elementwise_equal (width v0) w"
    and h: "IFD_get_value s ''ImageLength'' (length_px v0) = Inr h" "elementwise_equal (length_px v0) h"
    and p: "IFD_get_value s ''PlanarConfiguration'' (planar_config v0) = Inr p"
       "elementwise_equal (planar_config v0) p"
    and b: "IFD_get_value s ''BitsPerSample'' (bits_per_sample v0) = Inr b"
       "elementwise_equal (bits_per_sample v0) b"
    by blast
  note f0 = first_slice_fields [OF f]
  from tag show "\<exists>a b. IFD_get_value ifd0 tag PyNone = Inr a \<and> ent_value e = Some b \<and> elementwise_equal a b"
  proof (cases rule: layout_tags_cases)
    case 1
    with e w(1) have "ent_value e = Some w" by (simp add: IFD_get_value_declared)
    with 1 f0 w(2) show ?thesis by blast
  next
    case 2
    with e h(1) have "ent_value e = Some h" by (simp add: IFD_get_value_declared)
    with 2 f0 h(2) show ?thesis by blast
  next
    case 3
    with e p(1) have "ent_value e = Some p" by (simp add: IFD_get_value_declared)
    with 3 f0 p(2) show ?thesis by blast
  next
    case 4
    with e b(1) have "ent_value e = Some b" by (simp add: IFD_get_value_declared)
    with 4 f0 b(2) show ?thesis by blast
  qed
next
  assume sel: "select_ifds t sel = Inr (pre @ s' # post)"
    and pre: "slice_loop t initial_state pre = Inr st"
    and i: "0 < idx st" and v: "vars st = Some v"
    and c: "is_contiguous s' = Inr True"
    and so: "IFD_get_value s' ''StripOffsets'' PyNone = Inr so"
    and sn: "IFD_get_value s' ''StripByteCounts'' PyNone = Inr sn"
    and span: "strip_span so sn = Inr span"
    and w: "IFD_get_value s' ''ImageWidth'' (width v) = Inr w"
    and h: "IFD_get_value s' ''ImageLength'' (length_px v) = Inr h"
    and p: "IFD_get_value s' ''PlanarConfiguration'' (planar_config v) = Inr p"
    and b: "IFD_get_value s' ''BitsPerSample'' (bits_per_sample v) = Inr b"
    and cmp: "layout_comparable v span w h p b"
    and d: "\<not> (elementwise_equal (width v) w \<and> elementwise_equal (length_px v) h
              \<and> elementwise_equal (planar_config v) p \<and> elementwise_equal (bits_per_sample v) b)"
  from later_slice_disagrees [OF w h p b cmp d] obtain site
    where l: "later_slice v s' span = Inl (AssertionError site)"
      and site: "\<not> elementwise_equal (width v) w \<longrightarrow> site = ''width''"
    by blast
  from slice_loop_stops_at [OF pre slice_step_later_error [OF i v c so sn span l]]
  have "slice_loop t initial_state (pre @ s' # post) = Inl (AssertionError site)" .
  with sel have "get_samples decode t sel = Inl (AssertionError site)"
    by (rule get_samples_loop_error)
  with site show "\<exists>site. get_samples decode t sel = Inl (AssertionError site)
         \<and> (\<not> elementwise_equal (width v) w \<longrightarrow> site = ''width'')"
    by blast
qed

text \<open>
  C5 (counterexample). The claim: a later slice that declares a bits-per-sample value
  different from that of slice 0 makes \<^verbatim>\<open>get_samples\<close> fail. In \<open>broadcast_file\<close> slice 0
  declares BitsPerSample 8, 8, 8 and slice 1 declares BitsPerSample 8: the two values are not
  the same, but \<^verbatim>\<open>(bits_per_sample==ifd.get('BitsPerSample').value).all()\<close> compares the 8 with
  each of the three and holds, and the call returns the two slices.
\<close>

theorem C5_counterexample:
  "TIFFfile_init tiff6 Little broadcast_file ''r'' 0 = Some (Inr broadcast_object)
   \<and> select_ifds broadcast_object 0 = Inr (IFDs broadcast_object)
   \<and> length (IFDs broadcast_object) = 2
   \<and> IFD_get_value (IFDs broadcast_object ! 0) ''BitsPerSample'' PyNone
       = Inr (NpArr UInt16 [8, 8, 8])
   \<and> IFD_get_value (IFDs broadcast_object ! 1) ''BitsPerSample'' PyNone = Inr (NpInt UInt16 8)
   \<and> \<not> same_value (NpArr UInt16 [8, 8, 8]) (NpInt UInt16 8)
   \<and> get_samples no_codec broadcast_object 0
       = Inr ([\<lparr>nd_dtype = UInt8, nd_shape = [2, 2, 2],
                nd_bytes = [1, 2, 3, 4, 5, 6, 7, 8]\<rparr>], Some [''sample0''])"
  by code_simp

lemma three_slices_opened:
  "TIFFfile_init tiff6 Little three_slices ''r'' 0 = Some (Inr three_slices_object)"
  by code_simp

lemma three_slices_samples:
  "get_samples no_codec three_slices_object 0
     = Inr ([\<lparr>nd_dtype = UInt8, nd_shape = [3, 2, 2],
              nd_bytes = [1, 2, 3, 4, 5, 6, 7, 8, 9, 10, 11, 12]\<rparr>], Some [''sample0''])"
  by code_simp

lemma three_slices_selected:
  "select_ifds three_slices_object 0
     = Inr (IFDs three_slices_object ! 0 # [IFDs three_slices_object ! 1, IFDs three_slices_object ! 2])"
  by code_simp

lemma three_slices_third_bits:
  "''BitsPerSample'' \<in> set layout_tags
   \<and> IFD_get (IFDs three_slices_object ! 2) ''BitsPerSample''
       = Some (short_entry 258 ''BitsPerSample'' 8)"
  by code_simp

lemma width_mismatch_opened:
  "TIFFfile_init tiff6 Little width_mismatch_file ''r'' 0 = Some (Inr width_mismatch_object)"
  by code_simp

lemma width_mismatch_selected:
  "select_ifds width_mismatch_object 0
     = Inr (take 2 (IFDs width_mismatch_object) @ IFDs width_mismatch_object ! 2 # [])"
  by code_simp

lemma width_mismatch_first_two:
  "slice_loop width_mismatch_object initial_state (take 2 (IFDs width_mismatch_object))
     = Inr width_mismatch_state
   \<and> 0 < idx width_mismatch_state
   \<and> vars width_mismatch_state = Some width_mismatch_vars"
  by code_simp

lemma width_mismatch_third:
  "is_contiguous (IFDs width_mismatch_object ! 2) = Inr True
   \<and> IFD_get_value (IFDs width_mismatch_object ! 2) ''StripOffsets'' PyNone = Inr (NpInt UInt32 286)
   \<and> IFD_get_value (IFDs width_mismatch_object ! 2) ''StripByteCounts'' PyNone = Inr (NpInt UInt32 4)
   \<and> strip_span (NpInt UInt32 286) (NpInt UInt32 4) = Inr (NpInt UInt32 286, NpInt UInt32 290)"
  by code_simp

lemma width_mismatch_declared:
  "IFD_get_value (IFDs width_mismatch_object ! 2) ''ImageWidth'' (width width_mismatch_vars)
     = Inr (NpInt UInt16 4)
   \<and> IFD_get_value (IFDs width_mismatch_object ! 2) ''ImageLength'' (length_px width_mismatch_vars)
       = Inr (NpInt UInt16 1)
   \<and> IFD_get_value (IFDs width_mismatch_object ! 2) ''PlanarConfiguration''
         (planar_config width_mismatch_vars)
       = Inr (NpInt UInt16 1)
   \<and> IFD_get_value (IFDs width_mismatch_object ! 2) ''BitsPerSample''
         (bits_per_sample width_mismatch_vars)
       = Inr (NpInt UInt16 8)"
  by code_simp

lemma width_mismatch_compared:
  "layout_comparable width_mismatch_vars (NpInt UInt32 286, NpInt UInt32 290)
     (NpInt UInt16 4) (NpInt UInt16 1) (NpInt UInt16 1) (NpInt UInt16 8)
   \<and> as_int (width width_mismatch_vars) = Some 2
   \<and> \<not> elementwise_equal (width width_mismatch_vars) (NpInt UInt16 4)"
  by code_simp

lemma declared_widths_fail:
  "IFD_get_value (IFDs declared_widths_object ! 0) ''ImageWidth'' PyNone = Inr (NpInt UInt16 512)
   \<and> IFD_get_value (IFDs declared_widths_object ! 1) ''ImageWidth'' PyNone = Inr (NpInt UInt16 256)
   \<and> get_samples no_codec declared_widths_object 0 = Inl (AssertionError ''width'')"
  by code_simp

text \<open>
  The amended C5 at two files of three slices of one strip each. In the first all slices are 2 x 2 and the
  call returns the three slices: the BitsPerSample that slice 2 declares agrees with that of
  slice 0. In the second, slice 2 declares the width 4 where slice 0 declares 2: the loop
  reaches slice 2 and the call fails with the assertion on the width. So does the call on the
  directories that declare the widths 512 and 256.
\<close>

theorem C5_later_slices_agree_witness:
  "TIFFfile_init tiff6 Little three_slices ''r'' 0 = Some (Inr three_slices_object)
   \<and> get_samples no_codec three_slices_object 0
       = Inr ([\<lparr>nd_dtype = UInt8, nd_shape = [3, 2, 2],
                nd_bytes = [1, 2, 3, 4, 5, 6, 7, 8, 9, 10, 11, 12]\<rparr>], Some [''sample0''])
   \<and> (\<exists>a b. IFD_get_value (IFDs three_slices_object ! 0) ''BitsPerSample'' PyNone = Inr a
          \<and> ent_value (short_entry 258 ''BitsPerSample'' 8) = Some b \<and> elementwise_equal a b)
   \<and> TIFFfile_init tiff6 Little width_mismatch_file ''r'' 0 = Some (Inr width_mismatch_object)
   \<and> as_int (width width_mismatch_vars) = Some 2
   \<and> IFD_get_value (IFDs width_mismatch_object ! 2) ''ImageWidth'' (width width_mismatch_vars)
       = Inr (NpInt UInt16 4)
   \<and> get_samples no_codec width_mismatch_object 0 = Inl (AssertionError ''width'')
   \<and> get_samples no_codec declared_widths_object 0 = Inl (AssertionError ''width'')"
  using
    C5_later_slices_agree [where decode = no_codec and t = three_slices_object and sel = 0
      and r = "([\<lparr>nd_dtype = UInt8, nd_shape = [3, 2, 2],
                  nd_bytes = [1, 2, 3, 4, 5, 6, 7, 8, 9, 10, 11, 12]\<rparr>], Some [''sample0''])"
      and ?ifd0.0 = "IFDs three_slices_object ! 0"
      and rest = "[IFDs three_slices_object ! 1, IFDs three_slices_object ! 2]"
      and s = "IFDs three_slices_object ! 2" and tag = "''BitsPerSample''"
      and e = "short_entry 258 ''BitsPerSample'' 8"]
    C5_later_slices_agree [where decode = no_codec and t = width_mismatch_object and sel = 0
      and pre = "take 2 (IFDs width_mismatch_object)"
      and s' = "IFDs width_mismatch_object ! 2" and post = "[]"
      and st = width_mismatch_state and v = width_mismatch_vars
      and so = "NpInt UInt32 286" and sn = "NpInt UInt32 4"
      and span = "(NpInt UInt32 286, NpInt UInt32 290)"
      and w = "NpInt UInt16 4" and h = "NpInt UInt16 1" and p = "NpInt UInt16 1"
      and b = "NpInt UInt16 8"]
    three_slices_opened three_slices_samples three_slices_selected three_slices_third_bits
    width_mismatch_opened width_mismatch_selected width_mismatch_first_two width_mismatch_third
    width_mismatch_declared width_mismatch_compared declared_widths_fail
  by simp

section \<open>The step between two slices\<close>

lemma unsigned_of_kind: "\<exists>n. int_kind (unsigned_of m) = Some (False, n)"
  by (simp add: unsigned_of_def)

lemma unsigned_gap_wraps:
  assumes "int_kind d = Some (False, a)" and "int_kind d' = Some (False, b)"
  shows "\<exists>g. np_sub (NpInt d x) (NpInt d' y) = Inr (NpInt (promote d d') g) \<and> 0 \<le> g"
proof -
  from assms have p: "promote d d' = unsigned_of (max a b)"
    by (simp add: promote_def)
  from unsigned_of_kind [of "max a b"] obtain n
    where "int_kind (unsigned_of (max a b)) = Some (False, n)" ..
  with p have "0 \<le> wrap (promote d d') (x - y)"
    by (simp add: wrap_def)
  then show ?thesis
    by (simp add: np_sub_def np_binop_def)
qed

lemma check_step_unsigned_never_fails:
  assumes "idx st = 1"
    and "fst span = NpInt d x" and "snd (last (spans st)) = NpInt d' y"
    and "int_kind d = Some (False, a)" and "int_kind d' = Some (False, b)"
  shows "\<exists>g. check_step st span = Inr (g, can_return_memmap st)"
proof -
  from unsigned_gap_wraps [OF assms(4, 5), of x y] obtain g
    where "np_sub (NpInt d x) (NpInt d' y) = Inr (NpInt (promote d d') g)" and "0 \<le> g"
    by blast
  with assms(1-3) show ?thesis
    by (simp add: check_step_def py_le_def as_int_def)
qed

text \<open>
  C10. The file \<open>reversed_file\<close> holds two slices of 2 x 2 pixels, the strip of slice 1 (bytes
  188 to 192) before the strip of slice 0 (bytes 192 to 196), with offsets of type LONG. The
  loop over the slices ends without an error: the step \<^verbatim>\<open>l[-1][0] - l[-2][1]\<close> is 188 - 196 in
  32 unsigned bits, that is 4294967288, so \<^verbatim>\<open>assert step>=0\<close> holds, and the fast path stays
  selected. The call then fails where the array is cut out of the buffer, with
  NotImplementedError, not with an assertion error.
\<close>

theorem C10_reversed_slices_pass_the_assertion:
  "TIFFfile_init tiff6 Little reversed_file ''r'' 0 = Some (Inr reversed_object)
   \<and> (case slice_loop reversed_object initial_state (IFDs reversed_object) of
         Inl e \<Rightarrow> False
       | Inr st \<Rightarrow> spans st = [(NpInt UInt32 192, NpInt UInt32 196),
                                (NpInt UInt32 188, NpInt UInt32 192)]
                    \<and> step st = NpInt UInt32 4294967288 \<and> can_return_memmap st)
   \<and> get_samples no_codec reversed_object 0 = Inl (NotImplementedError ''start, end, step'')"
  by code_simp


section \<open>Interleaved channels\<close>

text \<open>
  C3. The file \<open>interleaved_file\<close> is the input of the claim: one slice of 2 x 2 pixels, two
  interleaved channels of one byte, pixel bytes A0 B0 A1 B1 A2 B2 A3 B3 (at the bytes 126 to
  134 of the file). The columns \<^verbatim>\<open>k+j:k+j+bytes:samples_per_pixel\<close> of channel 0 (\<open>k = 0\<close>) are
  A0 A1 A2 A3; after \<^verbatim>\<open>k += bytes\<close> the columns of channel 1 are \<^verbatim>\<open>9:17:2\<close>, which are none,
  and the call fails at the reshape of the empty array instead of returning the two channels.
\<close>

theorem C3_second_interleaved_channel_fails:
  "TIFFfile_init tiff6 Little interleaved_file ''r'' 0 = Some (Inr interleaved_object)
   \<and> py_slice (data interleaved_object) 126 134
       = [0xA0, 0xB0, 0xA1, 0xB1, 0xA2, 0xB2, 0xA3, 0xB3]
   \<and> py_slice_step [0xA0, 0xB0, 0xA1, 0xB1, 0xA2, 0xB2, 0xA3, 0xB3 :: byte] 0 8 2
       = [0xA0, 0xA1, 0xA2, 0xA3]
   \<and> py_slice_step [0xA0, 0xB0, 0xA1, 0xB1, 0xA2, 0xB2, 0xA3, 0xB3 :: byte] (8 + 1) (8 + 1 + 8) 2
       = []
   \<and> get_samples no_codec interleaved_object 0 = Inl (ValueError ''reshape'')"
  by code_simp

end
